theory Spec2Isabelle
  imports Main "HOL-Library.Multiset"
begin

section \<open>Deposit validation and ledger consistency: the data model\<close>

text \<open>
  The development embeds the deposit controller of \<^verbatim>\<open>src/src/app.js\<close>
  (\<^verbatim>\<open>createDeposit\<close>, \<^verbatim>\<open>updateDeposit\<close>, \<^verbatim>\<open>deleteDeposit\<close>,
  \<^verbatim>\<open>bulkCreateDeposits\<close>). The Mongo collections become fields of an explicit
  store that every handler takes and returns; a thrown \<^verbatim>\<open>Error\<close> becomes the
  \<open>Inl\<close> summand of the handler's result.

  Modelling decisions, each forced by something that is not in the repository's code:
  \<^item> Amounts are \<^typ>\<open>int\<close>: JavaScript numbers restricted to the integers that a
    double represents exactly, so that \<^verbatim>\<open>+\<close>, \<^verbatim>\<open>-\<close> and the comparisons are exact.
    A request amount is a JSON number or is absent: \<^verbatim>\<open>typeof amount !== "number"\<close>
    is false for every present amount of the model.
  \<^item> A \<^verbatim>\<open>Date\<close> is its broken-down local time (month counted from year 0, day of
    the month, milliseconds of the day), ordered lexicographically. The server's time
    zone is taken to have no clock changes, so that this order is the order of the
    time stamps.
  \<^item> One handler invocation happens at one instant \<open>now\<close>: every \<^verbatim>\<open>new Date()\<close>
    inside it reads the same time. Handlers run one after the other; interleavings of
    concurrent requests are not modelled.
  \<^item> Object ids are natural numbers; a new deposit takes the store's next free id.
  \<^item> The Mongoose schemas are not among the sources. The fields are those the
    handlers read and write; a field the handlers test for absence is an \<open>option\<close>.
\<close>

type_synonym oid = nat

datatype role = Admin | Manager | Agent | User

datatype payment_mode = Daily | Monthly | Yearly

datatype acc_status = Inactive | Active | Pending | OnTrack | Matured

record jsdate =
  d_month :: int   \<comment> \<open>\<open>12 * getFullYear() + getMonth()\<close>\<close>
  d_day :: nat     \<comment> \<open>\<open>getDate() - 1\<close>\<close>
  d_ms :: nat      \<comment> \<open>milliseconds since local midnight\<close>

record account =
  acc_userId :: oid
  acc_accountNumber :: string
  acc_schemeType :: string
  acc_paymentMode :: payment_mode
  acc_totalPayableAmount :: "int option"
  acc_installmentAmount :: "int option"
  acc_monthlyTarget :: "int option"
  acc_yearlyAmount :: "int option"
  acc_balance :: int
  acc_status :: acc_status
  acc_isFullyPaid :: bool
  acc_maturityDate :: "jsdate option"

record deposit =
  dep_id :: oid
  dep_date :: jsdate
  dep_accountId :: oid
  dep_userId :: oid
  dep_schemeType :: string
  dep_amount :: int
  dep_collectedBy :: oid

record user =
  usr_name :: string
  usr_assignedTo :: oid

datatype action =
  CREATE_DEPOSIT_FAILED | CREATE_DEPOSIT
| UPDATE_DEPOSIT_FAILED | UPDATE_DEPOSIT
| DELETE_DEPOSIT_FAILED | DELETE_DEPOSIT_ATTEMPT | DELETE_DEPOSIT

datatype reason =
  ROLE_NOT_ALLOWED | INVALID_AMOUNT | ACCOUNT_NOT_FOUND | USER_ACCOUNT_MISMATCH
| AGENT_SCOPE_VIOLATION | MANAGER_SCOPE_VIOLATION | MISSING_TOTAL_PAYABLE
| TOTAL_PAYABLE_EXCEEDED | ACCOUNT_MATURED | YEARLY_ALREADY_PAID | YEARLY_AMOUNT_MISMATCH
| MISSING_INSTALLMENT_AMOUNT | MISSING_INSTALLMENT | MONTHLY_AMOUNT_MISMATCH
| MONTHLY_ALREADY_PAID | MONTHLY_MULTIPLE_DEPOSITS | MISSING_MONTHLY_TARGET
| DAILY_MONTHLY_TARGET_EXCEEDED | DEPOSIT_NOT_FOUND | CANNOT_DELETE_ONLY_YEARLY_DEPOSIT
| INVALID_DATE | DELETE_REQUEST

text \<open>
  An audit event: the action tag, the entity, \<^verbatim>\<open>details.reason\<close> and the caller. The
  rest of \<^verbatim>\<open>details\<close> (amounts and snapshots copied for the reader of the log) is
  not modelled.
\<close>

record audit_event =
  ev_action :: action
  ev_entityType :: string
  ev_entityId :: "oid option"
  ev_reason :: "reason option"
  ev_performedBy :: oid

text \<open>
  The store. \<open>scopeClients\<close> is what the scope resolver \<^verbatim>\<open>getScope\<close> (an external
  collaborator) answers as \<^verbatim>\<open>scope.clients\<close> for a caller id.
\<close>

record store =
  accounts :: "oid \<rightharpoonup> account"
  deposits :: "deposit list"
  users :: "oid \<rightharpoonup> user"
  auditLog :: "audit_event list"
  nextId :: oid
  scopeClients :: "oid \<Rightarrow> oid list"

record caller =
  c_id :: oid
  c_role :: role

text \<open>What a handler throws: the HTTP status set on the response, the reason code
  written to the audit log, and the message of the \<^verbatim>\<open>Error\<close>.\<close>

record rejection =
  rej_status :: nat
  rej_reason :: reason
  rej_message :: string

section \<open>Dates\<close>

definition getFullYear :: "jsdate \<Rightarrow> int" where
  "getFullYear d = d_month d div 12"

definition getMonth :: "jsdate \<Rightarrow> int" where
  "getMonth d = d_month d mod 12"

definition getDate :: "jsdate \<Rightarrow> nat" where
  "getDate d = d_day d + 1"

text \<open>\<^verbatim>\<open>new Date(y, m, day, 0, 0, 0, ms)\<close> for \<open>day \<ge> 1\<close>; a month index outside 0..11
  carries into the year, as the constructor does.\<close>

definition mkDate :: "int \<Rightarrow> int \<Rightarrow> nat \<Rightarrow> nat \<Rightarrow> jsdate" where
  "mkDate y m day ms = \<lparr>d_month = 12 * y + m, d_day = day - 1, d_ms = ms\<rparr>"

definition date_lt :: "jsdate \<Rightarrow> jsdate \<Rightarrow> bool" where
  "date_lt a b \<longleftrightarrow>
     d_month a < d_month b \<or>
     (d_month a = d_month b \<and> (d_day a < d_day b \<or> (d_day a = d_day b \<and> d_ms a < d_ms b)))"

definition date_le :: "jsdate \<Rightarrow> jsdate \<Rightarrow> bool" where
  "date_le a b \<longleftrightarrow> date_lt a b \<or> a = b"

text \<open>\<^verbatim>\<open>new Date(d.getFullYear(), d.getMonth(), 1, 0, 0, 0, 0)\<close>\<close>

definition startOfMonth :: "jsdate \<Rightarrow> jsdate" where
  "startOfMonth d = mkDate (getFullYear d) (getMonth d) 1 0"

text \<open>\<^verbatim>\<open>endOfMonth = new Date(startOfMonth); endOfMonth.setMonth(endOfMonth.getMonth() + 1)\<close>\<close>

definition endOfMonth :: "jsdate \<Rightarrow> jsdate" where
  "endOfMonth d = (let s = startOfMonth d in mkDate (getFullYear s) (getMonth s + 1) (getDate s) (d_ms s))"

text \<open>The filter \<^verbatim>\<open>date: { $gte: startOfMonth, $lt: endOfMonth }\<close>.\<close>

definition inMonthOf :: "jsdate \<Rightarrow> jsdate \<Rightarrow> bool" where
  "inMonthOf d x \<longleftrightarrow> date_le (startOfMonth d) x \<and> date_lt x (endOfMonth d)"

definition isLeap :: "int \<Rightarrow> bool" where
  "isLeap y \<longleftrightarrow> (y mod 4 = 0 \<and> y mod 100 \<noteq> 0) \<or> y mod 400 = 0"

definition daysInMonth :: "int \<Rightarrow> int \<Rightarrow> nat" where
  "daysInMonth y m =
     (if m = 1 then (if isLeap y then 29 else 28)
      else if m = 3 \<or> m = 5 \<or> m = 8 \<or> m = 10 then 30 else 31)"

section \<open>Queries and messages\<close>

text \<open>The pipeline \<^verbatim>\<open>[{ $match: ... }, { $group: { _id: null, total: { $sum: "$amount" } } }]\<close>
  applied to the matching documents: no group when nothing matches.\<close>

definition aggregateTotal :: "deposit list \<Rightarrow> int option" where
  "aggregateTotal ms = (if ms = [] then None else Some (sum_list (map dep_amount ms)))"

text \<open>\<^verbatim>\<open>agg.length ? agg[0].total : 0\<close>\<close>

definition totalOrZero :: "int option \<Rightarrow> int" where
  "totalOrZero agg = (case agg of None \<Rightarrow> 0 | Some t \<Rightarrow> t)"

text \<open>The documents matching \<^verbatim>\<open>{ accountId: account._id }\<close>.\<close>

definition depositsOf :: "store \<Rightarrow> oid \<Rightarrow> deposit list" where
  "depositsOf s aid = filter (\<lambda>d. dep_accountId d = aid) (deposits s)"

text \<open>\<^verbatim>\<open>Deposit.findById(id)\<close>\<close>

definition findDepositById :: "store \<Rightarrow> oid \<Rightarrow> deposit option" where
  "findDepositById s i = find (\<lambda>d. dep_id d = i) (deposits s)"

function showNat :: "nat \<Rightarrow> string" where
  "showNat n = (if n < 10 then [''0123456789'' ! n] else showNat (n div 10) @ [''0123456789'' ! (n mod 10)])"
  by pat_completeness auto
termination
  by (relation "measure id") auto

declare showNat.simps [simp del]

text \<open>An integer inside a template literal.\<close>

definition jsNum :: "int \<Rightarrow> string" where
  "jsNum i = (if i < 0 then CHR ''-'' # showNat (nat (- i)) else showNat (nat i))"

text \<open>Appending the \<^verbatim>\<open>..._FAILED\<close> event and throwing.\<close>

definition reject :: "store \<Rightarrow> caller \<Rightarrow> action \<Rightarrow> nat \<Rightarrow> reason \<Rightarrow> string \<Rightarrow> (rejection + 'a) \<times> store" where
  "reject s c act code r msg =
     (Inl \<lparr>rej_status = code, rej_reason = r, rej_message = msg\<rparr>,
      s\<lparr>auditLog := auditLog s @
         [\<lparr>ev_action = act, ev_entityType = ''DepositAttempt'', ev_entityId = None,
           ev_reason = Some r, ev_performedBy = c_id c\<rparr>]\<rparr>)"

section \<open>createDeposit\<close>

record create_body =
  b_accountId :: oid
  b_userId :: oid
  b_amount :: "int option"
  b_date :: "jsdate option"  \<comment> \<open>a \<^verbatim>\<open>date\<close> the caller may put in the body; never read\<close>

text \<open>Lines 267--293: the Yearly rules. \<open>t\<close> is the account's \<^verbatim>\<open>totalPayableAmount\<close>,
  a number at this point. The result is the account object as the handler holds it.\<close>

definition createYearly :: "account \<Rightarrow> int \<Rightarrow> int \<Rightarrow> (nat \<times> reason \<times> string) + account" where
  "createYearly account t amount =
     (if acc_paymentMode account = Yearly then
        (let required = (case acc_yearlyAmount account of Some y \<Rightarrow> y | None \<Rightarrow> t) in
         if acc_isFullyPaid account then
           Inl (400, YEARLY_ALREADY_PAID, ''Yearly account already paid in full'')
         else if amount \<noteq> required then
           Inl (400, YEARLY_AMOUNT_MISMATCH,
                ''Yearly account requires a single payment of '' @ jsNum required)
         else Inr (account\<lparr>acc_isFullyPaid := True, acc_status := OnTrack\<rparr>))
      else Inr account)"

text \<open>Lines 295--337: the Monthly rules.\<close>

definition createMonthly :: "store \<Rightarrow> oid \<Rightarrow> account \<Rightarrow> int \<Rightarrow> jsdate \<Rightarrow> (nat \<times> reason \<times> string) + account" where
  "createMonthly s aid account amount now =
     (if acc_paymentMode account = Monthly then
        (case acc_installmentAmount account of
           None \<Rightarrow> Inl (500, MISSING_INSTALLMENT_AMOUNT,
                        ''Account configuration invalid (missing installmentAmount)'')
         | Some required \<Rightarrow>
             if required \<le> 0 then
               Inl (500, MISSING_INSTALLMENT_AMOUNT,
                    ''Account configuration invalid (missing installmentAmount)'')
             else if amount \<noteq> required then
               Inl (400, MONTHLY_AMOUNT_MISMATCH,
                    ''Monthly account requires fixed installment of '' @ jsNum required)
             else
               (let alreadyPaid =
                      find (\<lambda>d. dep_accountId d = aid \<and> inMonthOf now (dep_date d)) (deposits s) in
                if alreadyPaid \<noteq> None then
                  Inl (400, MONTHLY_ALREADY_PAID, ''This month's installment already paid'')
                else Inr account))
      else Inr account)"

text \<open>Lines 339--382: the Daily rules.\<close>

definition createDaily :: "store \<Rightarrow> oid \<Rightarrow> account \<Rightarrow> int \<Rightarrow> jsdate \<Rightarrow> (nat \<times> reason \<times> string) + account" where
  "createDaily s aid account amount now =
     (if acc_paymentMode account = Daily then
        (case acc_monthlyTarget account of
           None \<Rightarrow> Inl (500, MISSING_MONTHLY_TARGET, ''Daily account must have a monthlyTarget set'')
         | Some monthlyTarget \<Rightarrow>
             if monthlyTarget \<le> 0 then
               Inl (500, MISSING_MONTHLY_TARGET, ''Daily account must have a monthlyTarget set'')
             else
               (let collected = totalOrZero (aggregateTotal
                      (filter (\<lambda>d. dep_accountId d = aid \<and> inMonthOf now (dep_date d)) (deposits s))) in
                if collected + amount > monthlyTarget then
                  Inl (400, DAILY_MONTHLY_TARGET_EXCEEDED,
                       ''Daily account limit exceeded: monthly target is '' @ jsNum monthlyTarget @
                       '', already collected '' @ jsNum collected)
                else Inr (account\<lparr>acc_status :=
                       (if collected + amount \<ge> monthlyTarget then OnTrack else Pending)\<rparr>)))
      else Inr account)"

text \<open>Lines 267--382 in the order of the source.\<close>

definition createModeChecks :: "store \<Rightarrow> oid \<Rightarrow> account \<Rightarrow> int \<Rightarrow> int \<Rightarrow> jsdate \<Rightarrow> (nat \<times> reason \<times> string) + account" where
  "createModeChecks s aid account t amount now =
     (case createYearly account t amount of
        Inl e \<Rightarrow> Inl e
      | Inr a1 \<Rightarrow>
          (case createMonthly s aid a1 amount now of
             Inl e \<Rightarrow> Inl e
           | Inr a2 \<Rightarrow> createDaily s aid a2 amount now))"

text \<open>Lines 384--434: the deposit is saved, the balance incremented, the total read
  again, the account saved and the success audited.\<close>

definition createCommit :: "store \<Rightarrow> caller \<Rightarrow> create_body \<Rightarrow> account \<Rightarrow> int \<Rightarrow> int \<Rightarrow> jsdate \<Rightarrow> (rejection + deposit) \<times> store" where
  "createCommit s c body account t amount now =
     (let deposit = \<lparr>dep_id = nextId s, dep_date = now, dep_accountId = b_accountId body,
                     dep_userId = b_userId body, dep_schemeType = acc_schemeType account,
                     dep_amount = amount, dep_collectedBy = c_id c\<rparr>;
          s1 = s\<lparr>deposits := deposits s @ [deposit], nextId := Suc (nextId s)\<rparr>;
          a1 = account\<lparr>acc_balance := acc_balance account + amount\<rparr>;
          a2 = (if acc_balance a1 > 0 \<and> acc_status a1 = Inactive
                then a1\<lparr>acc_status := Active\<rparr> else a1);
          afterCollected = totalOrZero (aggregateTotal (depositsOf s1 (b_accountId body)));
          a3 = (if afterCollected \<ge> t
                then (let a = a2\<lparr>acc_status := OnTrack\<rparr> in
                      if acc_paymentMode a = Yearly then a\<lparr>acc_isFullyPaid := True\<rparr> else a)
                else a2);
          s2 = s1\<lparr>accounts := (accounts s1)(b_accountId body \<mapsto> a3)\<rparr>;
          s3 = s2\<lparr>auditLog := auditLog s2 @
                 [\<lparr>ev_action = CREATE_DEPOSIT, ev_entityType = ''Deposit'',
                   ev_entityId = Some (dep_id deposit), ev_reason = None,
                   ev_performedBy = c_id c\<rparr>]\<rparr>
      in (Inr deposit, s3))"

text \<open>Lines 206--265 and onwards: the overall payable total, the maturity gate (which
  saves the account as \<open>Matured\<close> before it throws), then the mode rules.\<close>

definition createPolicy :: "store \<Rightarrow> caller \<Rightarrow> create_body \<Rightarrow> account \<Rightarrow> int \<Rightarrow> jsdate \<Rightarrow> (rejection + deposit) \<times> store" where
  "createPolicy s c body account amount now =
     (let collectedAll = totalOrZero (aggregateTotal (depositsOf s (b_accountId body))) in
      case acc_totalPayableAmount account of
        None \<Rightarrow> reject s c CREATE_DEPOSIT_FAILED 500 MISSING_TOTAL_PAYABLE
                  ''Account configuration invalid (missing totalPayableAmount)''
      | Some t \<Rightarrow>
          if collectedAll + amount > t then
            reject s c CREATE_DEPOSIT_FAILED 400 TOTAL_PAYABLE_EXCEEDED
              (''Total payable exceeded: already '' @ jsNum collectedAll @ '', trying to add '' @
               jsNum amount @ '', total allowed '' @ jsNum t)
          else if (case acc_maturityDate account of None \<Rightarrow> False | Some m \<Rightarrow> date_le m now) then
            reject (s\<lparr>accounts := (accounts s)(b_accountId body \<mapsto> account\<lparr>acc_status := Matured\<rparr>)\<rparr>)
              c CREATE_DEPOSIT_FAILED 400 ACCOUNT_MATURED
              ''Account has matured, no more deposits allowed''
          else
            (case createModeChecks s (b_accountId body) account t amount now of
               Inl (code, r, msg) \<Rightarrow> reject s c CREATE_DEPOSIT_FAILED code r msg
             | Inr account' \<Rightarrow> createCommit s c body account' t amount now))"

text \<open>Lines 122--204: role, amount, account, owner and scope, then the policy.\<close>

definition createDeposit :: "store \<Rightarrow> caller \<Rightarrow> create_body \<Rightarrow> jsdate \<Rightarrow> (rejection + deposit) \<times> store" where
  "createDeposit s c body now =
     (if c_role c \<notin> {Admin, Manager, Agent} then
        reject s c CREATE_DEPOSIT_FAILED 403 ROLE_NOT_ALLOWED
          ''Only Admin, Manager, or Agents can create deposits''
      else
        (case b_amount body of
           None \<Rightarrow> reject s c CREATE_DEPOSIT_FAILED 400 INVALID_AMOUNT ''Amount must be greater than 0''
         | Some amount \<Rightarrow>
             if amount = 0 \<or> amount \<le> 0 then
               reject s c CREATE_DEPOSIT_FAILED 400 INVALID_AMOUNT ''Amount must be greater than 0''
             else
               (case accounts s (b_accountId body) of
                  None \<Rightarrow> reject s c CREATE_DEPOSIT_FAILED 404 ACCOUNT_NOT_FOUND ''Account not found''
                | Some account \<Rightarrow>
                    if acc_userId account \<noteq> b_userId body then
                      reject s c CREATE_DEPOSIT_FAILED 400 USER_ACCOUNT_MISMATCH
                        ''User does not match account''
                    else if c_role c = Agent \<and>
                            (case users s (b_userId body) of
                               None \<Rightarrow> True
                             | Some client \<Rightarrow> usr_assignedTo client \<noteq> c_id c) then
                      reject s c CREATE_DEPOSIT_FAILED 403 AGENT_SCOPE_VIOLATION
                        ''You can only deposit for your own clients''
                    else if c_role c = Manager \<and> b_userId body \<notin> set (scopeClients s (c_id c)) then
                      reject s c CREATE_DEPOSIT_FAILED 403 MANAGER_SCOPE_VIOLATION
                        ''You can only deposit for clients under your agents''
                    else createPolicy s c body account amount now)))"

section \<open>updateDeposit\<close>

text \<open>The \<^verbatim>\<open>date\<close> of an update body: a string that \<^verbatim>\<open>new Date(date)\<close> parses, or
  one that gives an Invalid Date. An absent (or falsy) date is \<open>None\<close>.\<close>

datatype date_input = Parsed jsdate | Unparseable

record update_body =
  u_amount :: "int option"
  u_date :: "date_input option"

text \<open>\<^verbatim>\<open>date ? new Date(date) : new Date(deposit.date)\<close>; \<open>None\<close> is the Invalid Date.\<close>

definition effectiveDate :: "update_body \<Rightarrow> deposit \<Rightarrow> jsdate option" where
  "effectiveDate body deposit =
     (case u_date body of
        None \<Rightarrow> Some (dep_date deposit)
      | Some (Parsed d) \<Rightarrow> Some d
      | Some Unparseable \<Rightarrow> None)"

text \<open>The month filter built from \<open>depositDate\<close>. Every comparison with an Invalid Date
  is false, so no document matches bounds computed from one.\<close>

definition inMonthOfOpt :: "jsdate option \<Rightarrow> jsdate \<Rightarrow> bool" where
  "inMonthOfOpt dd x = (case dd of None \<Rightarrow> False | Some d \<Rightarrow> inMonthOf d x)"

text \<open>Lines 543--650: the mode rules of an update; nothing is changed here.\<close>

definition updateModeChecks :: "store \<Rightarrow> oid \<Rightarrow> account \<Rightarrow> int \<Rightarrow> deposit \<Rightarrow> int \<Rightarrow> jsdate option \<Rightarrow> (nat \<times> reason \<times> string) option" where
  "updateModeChecks s aid account t deposit newAmount depositDate =
     (case acc_paymentMode account of
        Yearly \<Rightarrow>
          (let required = (case acc_yearlyAmount account of Some y \<Rightarrow> y | None \<Rightarrow> t) in
           if newAmount \<noteq> required then
             Some (400, YEARLY_AMOUNT_MISMATCH, ''Yearly account deposit must equal '' @ jsNum required)
           else None)
      | Monthly \<Rightarrow>
          (case acc_installmentAmount account of
             None \<Rightarrow> Some (500, MISSING_INSTALLMENT, ''Account misconfigured: missing installmentAmount'')
           | Some required \<Rightarrow>
               if required \<le> 0 then
                 Some (500, MISSING_INSTALLMENT, ''Account misconfigured: missing installmentAmount'')
               else if newAmount \<noteq> required then
                 Some (400, MONTHLY_AMOUNT_MISMATCH,
                       ''Monthly account deposit must equal installmentAmount ('' @ jsNum required @ '')'')
               else
                 (let depositsThisMonth =
                        filter (\<lambda>d. dep_accountId d = aid \<and> inMonthOfOpt depositDate (dep_date d) \<and>
                                     dep_id d \<noteq> dep_id deposit) (deposits s) in
                  if length depositsThisMonth > 0 then
                    Some (400, MONTHLY_MULTIPLE_DEPOSITS,
                          ''Monthly account can only have one deposit per month'')
                  else None))
      | Daily \<Rightarrow>
          (case acc_monthlyTarget account of
             None \<Rightarrow> Some (500, MISSING_MONTHLY_TARGET, ''Daily account misconfigured: missing monthlyTarget'')
           | Some monthlyTarget \<Rightarrow>
               if monthlyTarget \<le> 0 then
                 Some (500, MISSING_MONTHLY_TARGET, ''Daily account misconfigured: missing monthlyTarget'')
               else
                 (let collectedThisMonthExcl = totalOrZero (aggregateTotal
                        (filter (\<lambda>d. dep_accountId d = aid \<and> inMonthOfOpt depositDate (dep_date d) \<and>
                                      dep_id d \<noteq> dep_id deposit) (deposits s)));
                      adjustedMonthTotal = collectedThisMonthExcl + newAmount in
                  if adjustedMonthTotal > monthlyTarget then
                    Some (400, DAILY_MONTHLY_TARGET_EXCEEDED,
                          ''Daily account limit exceeded: monthly target is '' @ jsNum monthlyTarget @
                          '', would become '' @ jsNum adjustedMonthTotal)
                  else None)))"

text \<open>Lines 686--718: balance and status after the deposit was saved. The Daily branch
  sums the month of the wall clock, whatever the month of the deposit.\<close>

definition updateReconcile :: "store \<Rightarrow> oid \<Rightarrow> account \<Rightarrow> int \<Rightarrow> jsdate \<Rightarrow> account" where
  "updateReconcile s1 aid account t now =
     (let afterCollected = totalOrZero (aggregateTotal (depositsOf s1 aid));
          a1 = account\<lparr>acc_balance := afterCollected\<rparr> in
      if afterCollected \<ge> t then
        (let a2 = a1\<lparr>acc_status := OnTrack\<rparr> in
         if acc_paymentMode a2 = Yearly then a2\<lparr>acc_isFullyPaid := True\<rparr> else a2)
      else
        (let a2 =
           (if acc_paymentMode a1 = Daily then
              (let monthCollected = totalOrZero (aggregateTotal
                     (filter (\<lambda>d. dep_accountId d = aid \<and> inMonthOf now (dep_date d)) (deposits s1))) in
               a1\<lparr>acc_status :=
                    (if (case acc_monthlyTarget a1 of None \<Rightarrow> False | Some mt \<Rightarrow> monthCollected \<ge> mt)
                     then OnTrack else Pending)\<rparr>)
            else a1\<lparr>acc_status := (if acc_status a1 = Inactive then Inactive else Active)\<rparr>) in
         if acc_paymentMode a2 = Yearly then a2\<lparr>acc_isFullyPaid := False\<rparr> else a2))"

text \<open>Lines 652--742: the changes are applied to the deposit object, an unparseable
  date is refused, the deposit and the account are saved, the success is audited.\<close>

definition updateCommit :: "store \<Rightarrow> caller \<Rightarrow> update_body \<Rightarrow> deposit \<Rightarrow> account \<Rightarrow> int \<Rightarrow> jsdate \<Rightarrow> (rejection + deposit) \<times> store" where
  "updateCommit s c body deposit account t now =
     (let d1 = (case u_amount body of
                  None \<Rightarrow> deposit
                | Some amount \<Rightarrow> if amount \<noteq> dep_amount deposit
                                  then deposit\<lparr>dep_amount := amount\<rparr> else deposit) in
      case u_date body of
        Some Unparseable \<Rightarrow>
          reject s c UPDATE_DEPOSIT_FAILED 400 INVALID_DATE ''Invalid date format''
      | _ \<Rightarrow>
          (let d2 = (case u_date body of Some (Parsed parsed) \<Rightarrow> d1\<lparr>dep_date := parsed\<rparr> | _ \<Rightarrow> d1);
               d3 = d2\<lparr>dep_schemeType := acc_schemeType account\<rparr>;
               s1 = s\<lparr>deposits := map (\<lambda>d. if dep_id d = dep_id deposit then d3 else d) (deposits s)\<rparr>;
               account' = updateReconcile s1 (dep_accountId deposit) account t now;
               s2 = s1\<lparr>accounts := (accounts s1)(dep_accountId deposit \<mapsto> account')\<rparr>;
               s3 = s2\<lparr>auditLog := auditLog s2 @
                      [\<lparr>ev_action = UPDATE_DEPOSIT, ev_entityType = ''Deposit'',
                        ev_entityId = Some (dep_id deposit), ev_reason = None,
                        ev_performedBy = c_id c\<rparr>]\<rparr>
           in (Inr d3, s3)))"

text \<open>Lines 441--650: role, deposit, account, amount, configured total, the overall
  payable total without this deposit, then the mode rules.\<close>

definition updateDeposit :: "store \<Rightarrow> caller \<Rightarrow> oid \<Rightarrow> update_body \<Rightarrow> jsdate \<Rightarrow> (rejection + deposit) \<times> store" where
  "updateDeposit s c depositId body now =
     (if c_role c \<noteq> Admin then
        reject s c UPDATE_DEPOSIT_FAILED 403 ROLE_NOT_ALLOWED ''Only Admin can update deposits''
      else
        (case findDepositById s depositId of
           None \<Rightarrow> reject s c UPDATE_DEPOSIT_FAILED 404 DEPOSIT_NOT_FOUND ''Deposit not found''
         | Some deposit \<Rightarrow>
             (case accounts s (dep_accountId deposit) of
                None \<Rightarrow> reject s c UPDATE_DEPOSIT_FAILED 404 ACCOUNT_NOT_FOUND
                          ''Associated account not found''
              | Some account \<Rightarrow>
                  if (case u_amount body of None \<Rightarrow> False | Some amount \<Rightarrow> amount \<le> 0) then
                    reject s c UPDATE_DEPOSIT_FAILED 400 INVALID_AMOUNT
                      ''Amount must be a positive number''
                  else
                    (case acc_totalPayableAmount account of
                       None \<Rightarrow> reject s c UPDATE_DEPOSIT_FAILED 500 MISSING_TOTAL_PAYABLE
                                 ''Account misconfigured: missing totalPayableAmount''
                     | Some t \<Rightarrow>
                         (let collectedAll =
                                totalOrZero (aggregateTotal (depositsOf s (dep_accountId deposit)));
                              collectedExcludingThis = collectedAll - dep_amount deposit;
                              newAmount = (case u_amount body of
                                             Some amount \<Rightarrow> amount | None \<Rightarrow> dep_amount deposit) in
                          if collectedExcludingThis + newAmount > t then
                            reject s c UPDATE_DEPOSIT_FAILED 400 TOTAL_PAYABLE_EXCEEDED
                              (''Total payable exceeded: already '' @ jsNum collectedExcludingThis @
                               '', trying to set this deposit to '' @ jsNum newAmount @
                               '', total allowed '' @ jsNum t)
                          else
                            (case updateModeChecks s (dep_accountId deposit) account t deposit
                                    newAmount (effectiveDate body deposit) of
                               Some (code, r, msg) \<Rightarrow> reject s c UPDATE_DEPOSIT_FAILED code r msg
                             | None \<Rightarrow> updateCommit s c body deposit account t now))))))"

section \<open>deleteDeposit\<close>

text \<open>\<^verbatim>\<open>account.totalPayableAmount || account.yearlyAmount || 0\<close>: a number that is 0
  is falsy, like an absent one.\<close>

definition payableOrYearlyOrZero :: "account \<Rightarrow> int" where
  "payableOrYearlyOrZero account =
     (case acc_totalPayableAmount account of
        Some t \<Rightarrow> if t \<noteq> 0 then t
                  else (case acc_yearlyAmount account of Some y \<Rightarrow> y | None \<Rightarrow> 0)
      | None \<Rightarrow> (case acc_yearlyAmount account of Some y \<Rightarrow> y | None \<Rightarrow> 0))"

text \<open>\<^verbatim>\<open>account.totalPayableAmount ?? account.yearlyAmount ?? null\<close>\<close>

definition payableElseYearly :: "account \<Rightarrow> int option" where
  "payableElseYearly account =
     (case acc_totalPayableAmount account of
        Some t \<Rightarrow> Some t
      | None \<Rightarrow> acc_yearlyAmount account)"

text \<open>Lines 829--883: balance, status and the fully-paid flag computed from the
  deposits other than the one to delete.\<close>

definition deleteReconcile :: "store \<Rightarrow> oid \<Rightarrow> account \<Rightarrow> deposit \<Rightarrow> account" where
  "deleteReconcile s aid account deposit =
     (let updatedCollected = totalOrZero (aggregateTotal
            (filter (\<lambda>d. dep_accountId d = aid \<and> dep_id d \<noteq> dep_id deposit) (deposits s)));
          a1 = account\<lparr>acc_balance := max 0 updatedCollected\<rparr>;
          totalPayable = payableElseYearly a1 in
      if (case totalPayable of None \<Rightarrow> False | Some tp \<Rightarrow> updatedCollected \<ge> tp) then
        (let a2 = a1\<lparr>acc_status := OnTrack\<rparr> in
         if acc_paymentMode a2 = Yearly then a2\<lparr>acc_isFullyPaid := True\<rparr> else a2)
      else
        (let a2 =
           (case acc_paymentMode a1 of
              Monthly \<Rightarrow>
                (let otherThisMonth = length
                       (filter (\<lambda>d. dep_accountId d = aid \<and> dep_id d \<noteq> dep_id deposit \<and>
                                     inMonthOf (dep_date deposit) (dep_date d)) (deposits s)) in
                 a1\<lparr>acc_status := (if otherThisMonth > 0 then Active else Pending)\<rparr>)
            | Daily \<Rightarrow>
                (let collectedThisMonth = totalOrZero (aggregateTotal
                       (filter (\<lambda>d. dep_accountId d = aid \<and> dep_id d \<noteq> dep_id deposit \<and>
                                     inMonthOf (dep_date deposit) (dep_date d)) (deposits s))) in
                 a1\<lparr>acc_status :=
                      (if (case acc_monthlyTarget a1 of
                             None \<Rightarrow> False
                           | Some mt \<Rightarrow> mt \<noteq> 0 \<and> collectedThisMonth \<ge> mt)
                       then OnTrack else Pending)\<rparr>)
            | Yearly \<Rightarrow> a1\<lparr>acc_status := (if acc_balance a1 > 0 then Active else Inactive)\<rparr>) in
         if acc_paymentMode a2 = Yearly then a2\<lparr>acc_isFullyPaid := False\<rparr> else a2))"

text \<open>Lines 814--930: the fully-paid flag of a Yearly account is cleared when the total
  would drop below the payable amount, the account is recomputed, the attempt is
  audited, the deposit removed, the account saved and the success audited. The
  handler answers the new balance and status.\<close>

definition deleteCommit :: "store \<Rightarrow> caller \<Rightarrow> deposit \<Rightarrow> account \<Rightarrow> (rejection + int \<times> acc_status) \<times> store" where
  "deleteCommit s c deposit account =
     (let aid = dep_accountId deposit;
          collectedAll = totalOrZero (aggregateTotal (depositsOf s aid));
          newCollected = collectedAll - dep_amount deposit;
          a0 = (if acc_paymentMode account = Yearly \<and> acc_isFullyPaid account \<and>
                   newCollected < payableOrYearlyOrZero account
                then account\<lparr>acc_isFullyPaid := False\<rparr> else account);
          account' = deleteReconcile s aid a0 deposit;
          s1 = s\<lparr>auditLog := auditLog s @
                 [\<lparr>ev_action = DELETE_DEPOSIT_ATTEMPT, ev_entityType = ''Deposit'',
                   ev_entityId = Some (dep_id deposit), ev_reason = Some DELETE_REQUEST,
                   ev_performedBy = c_id c\<rparr>]\<rparr>;
          s2 = s1\<lparr>deposits := filter (\<lambda>d. dep_id d \<noteq> dep_id deposit) (deposits s1)\<rparr>;
          s3 = s2\<lparr>accounts := (accounts s2)(aid \<mapsto> account')\<rparr>;
          s4 = s3\<lparr>auditLog := auditLog s3 @
                 [\<lparr>ev_action = DELETE_DEPOSIT, ev_entityType = ''Deposit'',
                   ev_entityId = Some (dep_id deposit), ev_reason = None,
                   ev_performedBy = c_id c\<rparr>]\<rparr>
      in (Inr (acc_balance account', acc_status account'), s4))"

text \<open>Lines 749--813: role, deposit, account, and the guard of the only deposit of a
  Yearly account.\<close>

definition deleteDeposit :: "store \<Rightarrow> caller \<Rightarrow> oid \<Rightarrow> (rejection + int \<times> acc_status) \<times> store" where
  "deleteDeposit s c depositId =
     (if c_role c \<noteq> Admin then
        reject s c DELETE_DEPOSIT_FAILED 403 ROLE_NOT_ALLOWED ''Only Admin can delete deposits''
      else
        (case findDepositById s depositId of
           None \<Rightarrow> reject s c DELETE_DEPOSIT_FAILED 404 DEPOSIT_NOT_FOUND ''Deposit not found''
         | Some deposit \<Rightarrow>
             (case accounts s (dep_accountId deposit) of
                None \<Rightarrow> reject s c DELETE_DEPOSIT_FAILED 404 ACCOUNT_NOT_FOUND
                          ''Associated account not found''
              | Some account \<Rightarrow>
                  (let depositCount = length (depositsOf s (dep_accountId deposit)) in
                   if acc_paymentMode account = Yearly \<and> depositCount = 1 then
                     reject s c DELETE_DEPOSIT_FAILED 400 CANNOT_DELETE_ONLY_YEARLY_DEPOSIT
                       (''Cannot delete the only yearly deposit '' @ [CHR 0xE2, CHR 0x80, CHR 0x94] @
                        '' account would become invalid'')
                   else deleteCommit s c deposit account))))"

section \<open>bulkCreateDeposits\<close>

text \<open>The body is parsed by \<^verbatim>\<open>express.json()\<close>, so an element of the array \<^verbatim>\<open>deposits\<close>
  may be \<^verbatim>\<open>null\<close>. The array is a list of \<open>bulk_item option\<close>, \<open>None\<close> being \<^verbatim>\<open>null\<close> and
  \<open>Some\<close> an object with the fields below. Every element other than \<^verbatim>\<open>null\<close> can be
  destructured at line 1045 (a number or a string to undefined fields); the model
  keeps those whose \<^verbatim>\<open>accountId\<close> and \<^verbatim>\<open>collectedBy\<close> are ids.\<close>

record bulk_item =
  i_accountId :: oid
  i_amount :: "int option"
  i_collectedBy :: oid
  i_date :: "jsdate option"  \<comment> \<open>a \<^verbatim>\<open>date\<close> the caller may put in an item; never read\<close>

text \<open>An entry of \<^verbatim>\<open>successAccounts\<close> or \<^verbatim>\<open>failedAccounts\<close>; a field the handler
  leaves out or sets to \<^verbatim>\<open>undefined\<close> is \<open>None\<close>.\<close>

record bulk_record =
  r_accountId :: oid
  r_accountNumber :: "string option"
  r_clientName :: "string option"
  r_amount :: "int option"
  r_error :: "string option"

text \<open>What the loop carries: the two arrays, the histogram and the store.\<close>

record bulk_state =
  bs_success :: "bulk_record list"
  bs_failed :: "bulk_record list"
  bs_summary :: "string \<rightharpoonup> nat"
  bs_store :: store

text \<open>\<^verbatim>\<open>failed.push(r); failureSummary[msg] = (failureSummary[msg] || 0) + 1\<close>\<close>

definition pushFailed :: "bulk_state \<Rightarrow> bulk_record \<Rightarrow> string \<Rightarrow> bulk_state" where
  "pushFailed st r msg =
     st\<lparr>bs_failed := bs_failed st @ [r],
        bs_summary := (bs_summary st)(msg \<mapsto> (case bs_summary st msg of None \<Rightarrow> 0 | Some n \<Rightarrow> n) + 1)\<rparr>"

text \<open>The right single quotation mark of the duplicate messages, in UTF-8.\<close>

definition rsquo :: string where
  "rsquo = [CHR 0xE2, CHR 0x80, CHR 0x99]"

text \<open>Lines 1066--1105: is there already a deposit in the current period? Daily: from
  0:00:00 to 23:59:59 of today, both included; Monthly: from the first of the month to
  23:59:59 of its last day, both included; Yearly: any deposit at all.\<close>

definition alreadyDeposited :: "store \<Rightarrow> oid \<Rightarrow> account \<Rightarrow> jsdate \<Rightarrow> deposit option" where
  "alreadyDeposited s aid account now =
     (case acc_paymentMode account of
        Daily \<Rightarrow>
          (let startOfDay = mkDate (getFullYear now) (getMonth now) (getDate now) 0;
               endOfDay = mkDate (getFullYear now) (getMonth now) (getDate now) 86399000 in
           find (\<lambda>d. dep_accountId d = aid \<and> date_le startOfDay (dep_date d) \<and>
                      date_le (dep_date d) endOfDay) (deposits s))
      | Monthly \<Rightarrow>
          (let startOfMonth = mkDate (getFullYear now) (getMonth now) 1 0;
               endOfMonth = mkDate (getFullYear now) (getMonth now)
                              (daysInMonth (getFullYear now) (getMonth now)) 86399000 in
           find (\<lambda>d. dep_accountId d = aid \<and> date_le startOfMonth (dep_date d) \<and>
                      date_le (dep_date d) endOfMonth) (deposits s))
      | Yearly \<Rightarrow> find (\<lambda>d. dep_accountId d = aid) (deposits s))"

definition duplicateMessage :: "payment_mode \<Rightarrow> string" where
  "duplicateMessage m =
     (case m of
        Daily \<Rightarrow> ''Today'' @ rsquo @ ''s deposit already recorded''
      | Monthly \<Rightarrow> ''This month'' @ rsquo @ ''s deposit already recorded''
      | Yearly \<Rightarrow> ''Yearly account already paid in full'')"

text \<open>Lines 1042--1178 on an item that is an object. The callback handed to
  \<^verbatim>\<open>createDeposit\<close> rethrows, so a rejection of the single create arrives in the
  \<^verbatim>\<open>catch\<close> of the item, as does the \<^verbatim>\<open>TypeError\<close> of reading \<^verbatim>\<open>_id\<close> of a client that
  \<^verbatim>\<open>populate\<close> did not find. In both cases \<^verbatim>\<open>account\<close> is set when the \<^verbatim>\<open>catch\<close> runs, and
  the \<^verbatim>\<open>catch\<close> pushes a failure entry.\<close>

definition bulkObject :: "caller \<Rightarrow> jsdate \<Rightarrow> bulk_item \<Rightarrow> bulk_state \<Rightarrow> bulk_state" where
  "bulkObject c now d st =
     (let s = bs_store st in
      if i_collectedBy d \<noteq> c_id c then
        pushFailed st \<lparr>r_accountId = i_accountId d, r_accountNumber = None, r_clientName = None,
                       r_amount = i_amount d, r_error = Some ''COLLECTED_BY_MISMATCH''\<rparr>
          ''COLLECTED_BY_MISMATCH''
      else
        (case accounts s (i_accountId d) of
           None \<Rightarrow>
             pushFailed st \<lparr>r_accountId = i_accountId d, r_accountNumber = None, r_clientName = None,
                            r_amount = i_amount d, r_error = Some ''ACCOUNT_NOT_FOUND''\<rparr>
               ''ACCOUNT_NOT_FOUND''
         | Some account \<Rightarrow>
             (case users s (acc_userId account) of
                None \<Rightarrow>
                  (let errMsg = ''Cannot read properties of null (reading '' @ [CHR 0x27] @ ''_id'' @
                                [CHR 0x27] @ '')'' in
                   pushFailed st \<lparr>r_accountId = i_accountId d,
                                  r_accountNumber = Some (acc_accountNumber account),
                                  r_clientName = None, r_amount = i_amount d,
                                  r_error = Some errMsg\<rparr> errMsg)
              | Some client \<Rightarrow>
                  (let userId = acc_userId account;
                       entry = \<lparr>r_accountId = i_accountId d,
                                r_accountNumber = Some (acc_accountNumber account),
                                r_clientName = Some (usr_name client),
                                r_amount = i_amount d, r_error = None\<rparr> in
                   if alreadyDeposited s (i_accountId d) account now \<noteq> None then
                     (let errMsg = duplicateMessage (acc_paymentMode account) in
                      pushFailed st (entry\<lparr>r_error := Some errMsg\<rparr>) errMsg)
                   else
                     (case createDeposit s c
                             \<lparr>b_accountId = i_accountId d, b_userId = userId,
                              b_amount = i_amount d, b_date = None\<rparr> now of
                        (Inr deposit, s') \<Rightarrow>
                          st\<lparr>bs_success := bs_success st @ [entry], bs_store := s'\<rparr>
                      | (Inl err, s') \<Rightarrow>
                          pushFailed (st\<lparr>bs_store := s'\<rparr>)
                            (entry\<lparr>r_error := Some (rej_message err)\<rparr>) (rej_message err))))))"

text \<open>The message of the \<^verbatim>\<open>TypeError\<close> of reading \<^verbatim>\<open>accountId\<close> of \<^verbatim>\<open>null\<close>.\<close>

definition nullItemError :: string where
  "nullItemError =
     ''Cannot read properties of null (reading '' @ [CHR 0x27] @ ''accountId'' @ [CHR 0x27] @ '')''"

text \<open>Lines 1042--1178 on any element of the array. On \<^verbatim>\<open>null\<close> the destructuring of
  line 1045 throws; the \<^verbatim>\<open>catch\<close> of the item then evaluates
  \<^verbatim>\<open>account?._id || d.accountId\<close> (line 1170) with \<^verbatim>\<open>account\<close> still undefined, and reading
  \<^verbatim>\<open>d.accountId\<close> throws in its turn, before anything is pushed. That second error
  leaves the \<^verbatim>\<open>catch\<close>: it is the \<open>Inl\<close> of the result.\<close>

definition bulkItem :: "caller \<Rightarrow> jsdate \<Rightarrow> bulk_item option \<Rightarrow> bulk_state \<Rightarrow> string + bulk_state" where
  "bulkItem c now d st =
     (case d of
        None \<Rightarrow> Inl nullItemError
      | Some item \<Rightarrow> Inr (bulkObject c now item st))"

text \<open>The inner loop \<^verbatim>\<open>for (const d of chunk)\<close>. An error that leaves an item leaves
  the loop; what the items before it wrote to the store stays written.\<close>

fun bulkChunk :: "caller \<Rightarrow> jsdate \<Rightarrow> bulk_item option list \<Rightarrow> bulk_state \<Rightarrow> (string \<times> store) + bulk_state" where
  "bulkChunk c now [] st = Inr st"
| "bulkChunk c now (d # chunk) st =
     (case bulkItem c now d st of
        Inl err \<Rightarrow> Inl (err, bs_store st)
      | Inr st' \<Rightarrow> bulkChunk c now chunk st')"

text \<open>The outer loop \<^verbatim>\<open>for (let i = 0; i < deposits.length; i += 10)\<close> with
  \<^verbatim>\<open>chunk = deposits.slice(i, i + 10)\<close>; \<open>rest\<close> is \<^verbatim>\<open>deposits.slice(i)\<close>. An error that
  leaves a chunk leaves this loop too.\<close>

function bulkLoop :: "caller \<Rightarrow> jsdate \<Rightarrow> bulk_item option list \<Rightarrow> bulk_state \<Rightarrow> (string \<times> store) + bulk_state" where
  "bulkLoop c now rest st =
     (if rest = [] then Inr st
      else (case bulkChunk c now (take 10 rest) st of
              Inl thrown \<Rightarrow> Inl thrown
            | Inr st' \<Rightarrow> bulkLoop c now (drop 10 rest) st'))"
  by pat_completeness auto
termination
  by (relation "measure (\<lambda>(c, now, rest, st). length rest)") auto

declare bulkLoop.simps [simp del]

record bulk_report =
  rep_total :: nat
  rep_successCount :: nat
  rep_failedCount :: nat
  rep_failedAccounts :: "bulk_record list"
  rep_successAccounts :: "bulk_record list"
  rep_failureSummary :: "string \<rightharpoonup> nat"

text \<open>What the handler answers when it answers no report: a status and a message of
  its own (\<^verbatim>\<open>res.status(code).json({ message })\<close>), or, from the outer \<^verbatim>\<open>catch\<close> of line
  1189, the error it hands to \<^verbatim>\<open>next\<close>.\<close>

datatype bulk_failure = Refusal nat string | Uncaught string

text \<open>Lines 1181--1188: the answer built from what the loop left.\<close>

definition bulkReport :: "bulk_item option list \<Rightarrow> bulk_state \<Rightarrow> (bulk_failure + bulk_report) \<times> store" where
  "bulkReport items st =
     (Inr \<lparr>rep_total = length items,
           rep_successCount = length (bs_success st),
           rep_failedCount = length (bs_failed st),
           rep_failedAccounts = bs_failed st,
           rep_successAccounts = bs_success st,
           rep_failureSummary = bs_summary st\<rparr>,
      bs_store st)"

text \<open>The handler. \<open>None\<close> is a body whose \<^verbatim>\<open>deposits\<close> is not an array. The two early
  returns answer a status and a message and touch nothing. An error that leaves the
  loops is caught at line 1189 and handed to \<^verbatim>\<open>next\<close>: no report is answered, and the
  store is the one the loop had reached.\<close>

definition bulkCreateDeposits :: "store \<Rightarrow> caller \<Rightarrow> bulk_item option list option \<Rightarrow> jsdate \<Rightarrow> (bulk_failure + bulk_report) \<times> store" where
  "bulkCreateDeposits s c body now =
     (case body of
        None \<Rightarrow> (Inl (Refusal 400 ''Deposits array required''), s)
      | Some items \<Rightarrow>
          if length items = 0 then (Inl (Refusal 400 ''Deposits array required''), s)
          else if c_role c \<noteq> Agent then
            (Inl (Refusal 403 ''Only Agents can perform bulk deposits''), s)
          else
            (case bulkLoop c now items
                    \<lparr>bs_success = [], bs_failed = [], bs_summary = Map.empty, bs_store = s\<rparr> of
               Inl (err, s') \<Rightarrow> (Inl (Uncaught err), s')
             | Inr st \<Rightarrow> bulkReport items st))"

section \<open>A ledger to evaluate the handlers on\<close>

text \<open>Five accounts of one agent's clients on 20 January 2025: a Monthly account with
  this month's instalment paid (the deposit still carries an older scheme type), a
  Daily account one payment short of its payable
  total, a Yearly account paid in full, and two Daily accounts past their maturity
  date, one fully collected and one empty.\<close>

definition exFuture :: jsdate where
  "exFuture = mkDate 2030 0 1 0"

definition exPast :: jsdate where
  "exPast = mkDate 2024 0 1 0"

definition exNow :: jsdate where
  "exNow = mkDate 2025 0 20 0"

definition exMonthly :: account where
  "exMonthly = \<lparr>acc_userId = 10, acc_accountNumber = ''RD-001'', acc_schemeType = ''RD'',
     acc_paymentMode = Monthly, acc_totalPayableAmount = Some 1200,
     acc_installmentAmount = Some 100, acc_monthlyTarget = None, acc_yearlyAmount = None,
     acc_balance = 100, acc_status = Active, acc_isFullyPaid = False,
     acc_maturityDate = Some exFuture\<rparr>"

definition exDaily :: account where
  "exDaily = \<lparr>acc_userId = 11, acc_accountNumber = ''DD-002'', acc_schemeType = ''DD'',
     acc_paymentMode = Daily, acc_totalPayableAmount = Some 1000,
     acc_installmentAmount = None, acc_monthlyTarget = Some 300, acc_yearlyAmount = None,
     acc_balance = 900, acc_status = Pending, acc_isFullyPaid = False,
     acc_maturityDate = Some exFuture\<rparr>"

definition exYearly :: account where
  "exYearly = \<lparr>acc_userId = 12, acc_accountNumber = ''YD-003'', acc_schemeType = ''YD'',
     acc_paymentMode = Yearly, acc_totalPayableAmount = Some 5000,
     acc_installmentAmount = None, acc_monthlyTarget = None, acc_yearlyAmount = None,
     acc_balance = 5000, acc_status = OnTrack, acc_isFullyPaid = True,
     acc_maturityDate = Some exFuture\<rparr>"

definition exMaturedPaid :: account where
  "exMaturedPaid = \<lparr>acc_userId = 13, acc_accountNumber = ''DD-004'', acc_schemeType = ''DD'',
     acc_paymentMode = Daily, acc_totalPayableAmount = Some 1000,
     acc_installmentAmount = None, acc_monthlyTarget = Some 1000, acc_yearlyAmount = None,
     acc_balance = 1000, acc_status = OnTrack, acc_isFullyPaid = False,
     acc_maturityDate = Some exPast\<rparr>"

definition exMaturedEmpty :: account where
  "exMaturedEmpty = \<lparr>acc_userId = 13, acc_accountNumber = ''DD-005'', acc_schemeType = ''DD'',
     acc_paymentMode = Daily, acc_totalPayableAmount = Some 1000,
     acc_installmentAmount = None, acc_monthlyTarget = Some 300, acc_yearlyAmount = None,
     acc_balance = 0, acc_status = Pending, acc_isFullyPaid = False,
     acc_maturityDate = Some exPast\<rparr>"

definition exDeposit :: "oid \<Rightarrow> jsdate \<Rightarrow> oid \<Rightarrow> oid \<Rightarrow> string \<Rightarrow> int \<Rightarrow> deposit" where
  "exDeposit i d aid uid scheme amount =
     \<lparr>dep_id = i, dep_date = d, dep_accountId = aid, dep_userId = uid,
      dep_schemeType = scheme, dep_amount = amount, dep_collectedBy = 7\<rparr>"

definition exDeposits :: "deposit list" where
  "exDeposits =
     [exDeposit 0 (mkDate 2025 0 10 0) 1 10 ''SB'' 100,
      exDeposit 1 (mkDate 2024 9 5 0) 2 11 ''DD'' 300,
      exDeposit 2 (mkDate 2024 10 5 0) 2 11 ''DD'' 300,
      exDeposit 3 (mkDate 2024 11 5 0) 2 11 ''DD'' 300,
      exDeposit 4 (mkDate 2024 5 1 0) 3 12 ''YD'' 5000,
      exDeposit 5 (mkDate 2023 5 1 0) 4 13 ''DD'' 1000]"

definition exClient :: "string \<Rightarrow> user" where
  "exClient n = \<lparr>usr_name = n, usr_assignedTo = 7\<rparr>"

definition exStore :: store where
  "exStore = \<lparr>accounts = [1 \<mapsto> exMonthly, 2 \<mapsto> exDaily, 3 \<mapsto> exYearly,
                           4 \<mapsto> exMaturedPaid, 5 \<mapsto> exMaturedEmpty],
     deposits = exDeposits,
     users = [10 \<mapsto> exClient ''Asha'', 11 \<mapsto> exClient ''Bina'',
              12 \<mapsto> exClient ''Chetan'', 13 \<mapsto> exClient ''Dev''],
     auditLog = [], nextId = 6, scopeClients = (\<lambda>m. [])\<rparr>"

definition exAgent :: caller where
  "exAgent = \<lparr>c_id = 7, c_role = Agent\<rparr>"

definition exAdmin :: caller where
  "exAdmin = \<lparr>c_id = 1, c_role = Admin\<rparr>"

section \<open>Notions the statements are written in\<close>

text \<open>The cumulative sum of the deposits recorded against an account.\<close>

definition collectedOf :: "store \<Rightarrow> oid \<Rightarrow> int" where
  "collectedOf s aid = sum_list (map dep_amount (depositsOf s aid))"

text \<open>The sum of the deposits of an account in a calendar month (a value of
  \<open>d_month\<close>), leaving out the deposits whose id is in \<open>excl\<close>.\<close>

definition collectedInMonth :: "store \<Rightarrow> oid \<Rightarrow> int \<Rightarrow> oid set \<Rightarrow> int" where
  "collectedInMonth s aid m excl =
     sum_list (map dep_amount
       (filter (\<lambda>d. dep_accountId d = aid \<and> d_month (dep_date d) = m \<and> dep_id d \<notin> excl) (deposits s)))"

text \<open>A create request that gets past lines 126--204: the role may create, the amount is
  positive, the account exists and belongs to the client named in the body, and the
  client is in the caller's scope.\<close>

definition createAdmitted :: "store \<Rightarrow> caller \<Rightarrow> create_body \<Rightarrow> account \<Rightarrow> int \<Rightarrow> bool" where
  "createAdmitted s c body account amount \<longleftrightarrow>
     c_role c \<in> {Admin, Manager, Agent} \<and>
     b_amount body = Some amount \<and> 0 < amount \<and>
     accounts s (b_accountId body) = Some account \<and>
     acc_userId account = b_userId body \<and>
     (c_role c = Agent \<longrightarrow>
        (\<exists>client. users s (b_userId body) = Some client \<and> usr_assignedTo client = c_id c)) \<and>
     (c_role c = Manager \<longrightarrow> b_userId body \<in> set (scopeClients s (c_id c)))"

text \<open>An update request that gets past lines 446--493: the caller is an Admin, the
  deposit and its account exist, and the amount, when given, is positive.\<close>

definition updateAdmitted :: "store \<Rightarrow> caller \<Rightarrow> oid \<Rightarrow> update_body \<Rightarrow> deposit \<Rightarrow> account \<Rightarrow> bool" where
  "updateAdmitted s c i body deposit account \<longleftrightarrow>
     c_role c = Admin \<and>
     findDepositById s i = Some deposit \<and>
     accounts s (dep_accountId deposit) = Some account \<and>
     (case u_amount body of None \<Rightarrow> True | Some a \<Rightarrow> 0 < a)"

text \<open>The amount an update proposes: the amount of the body, or the stored one.\<close>

definition proposedAmount :: "update_body \<Rightarrow> deposit \<Rightarrow> int" where
  "proposedAmount body deposit = (case u_amount body of Some a \<Rightarrow> a | None \<Rightarrow> dep_amount deposit)"

text \<open>The reason of a handler's answer, when it is a rejection.\<close>

definition rejectedWith :: "(rejection + 'a) \<Rightarrow> reason option" where
  "rejectedWith r = (case r of Inl rej \<Rightarrow> Some (rej_reason rej) | Inr _ \<Rightarrow> None)"

text \<open>The mode rules of an update in the words of the specification: on a Yearly
  account the amount is the yearly amount (or, without one, the payable total); on a
  Monthly account the amount is the configured instalment and no other deposit of the
  account lies in the month of the date; on a Daily account the other deposits of that
  month plus the amount stay within the configured monthly target.\<close>

definition updatePolicyHolds :: "store \<Rightarrow> account \<Rightarrow> int \<Rightarrow> deposit \<Rightarrow> int \<Rightarrow> jsdate \<Rightarrow> bool" where
  "updatePolicyHolds s account t deposit amount date \<longleftrightarrow>
     (case acc_paymentMode account of
        Yearly \<Rightarrow> amount = (case acc_yearlyAmount account of Some y \<Rightarrow> y | None \<Rightarrow> t)
      | Monthly \<Rightarrow>
          acc_installmentAmount account = Some amount \<and> 0 < amount \<and>
          \<not> (\<exists>d \<in> set (deposits s). dep_accountId d = dep_accountId deposit \<and>
                 dep_id d \<noteq> dep_id deposit \<and> d_month (dep_date d) = d_month date)
      | Daily \<Rightarrow>
          (case acc_monthlyTarget account of
             None \<Rightarrow> False
           | Some mt \<Rightarrow> 0 < mt \<and>
               collectedInMonth s (dep_accountId deposit) (d_month date) {dep_id deposit} + amount \<le> mt))"

text \<open>The store is well formed: deposit ids are unique and below the next free id,
  and every recorded amount is positive (create and update admit no other amount).\<close>

definition idsOk :: "store \<Rightarrow> bool" where
  "idsOk s \<longleftrightarrow> distinct (map dep_id (deposits s)) \<and> (\<forall>d \<in> set (deposits s). dep_id d < nextId s)"

definition amountsPositive :: "store \<Rightarrow> bool" where
  "amountsPositive s \<longleftrightarrow> (\<forall>d \<in> set (deposits s). 0 < dep_amount d)"

text \<open>The ledger invariant of the specification: the stored balance of every account is
  the sum of the deposits that reference it, and does not exceed the account's payable
  total (when the account has one).\<close>

definition balancesOk :: "store \<Rightarrow> bool" where
  "balancesOk s \<longleftrightarrow>
     (\<forall>aid account. accounts s aid = Some account \<longrightarrow>
        acc_balance account = collectedOf s aid \<and>
        (\<forall>t. acc_totalPayableAmount account = Some t \<longrightarrow> acc_balance account \<le> t))"

definition ledgerOk :: "store \<Rightarrow> bool" where
  "ledgerOk s \<longleftrightarrow> idsOk s \<and> amountsPositive s \<and> balancesOk s"

text \<open>Monthly exclusivity: a Monthly account has at most one deposit in any calendar
  month.\<close>

definition monthlyExclusive :: "store \<Rightarrow> bool" where
  "monthlyExclusive s \<longleftrightarrow>
     (\<forall>aid account m. accounts s aid = Some account \<and> acc_paymentMode account = Monthly \<longrightarrow>
        length (filter (\<lambda>d. dep_accountId d = aid \<and> d_month (dep_date d) = m) (deposits s)) \<le> 1)"

text \<open>The three core operations as requests, and a sequence of them run one after the
  other on the store.\<close>

datatype request =
  Create caller create_body jsdate
| Update caller oid update_body jsdate
| Delete caller oid

fun perform :: "request \<Rightarrow> store \<Rightarrow> store" where
  "perform (Create c body now) s = snd (createDeposit s c body now)"
| "perform (Update c i body now) s = snd (updateDeposit s c i body now)"
| "perform (Delete c i) s = snd (deleteDeposit s c i)"

definition performAll :: "request list \<Rightarrow> store \<Rightarrow> store" where
  "performAll rs s = fold perform rs s"

text \<open>Requests on the Monthly account in February 2025: the instalment is paid, a
  second payment is refused, the new deposit (id 6) is moved, in vain, to the paid
  month of January and then to March, and the January deposit is deleted.\<close>

definition exFeb :: jsdate where
  "exFeb = mkDate 2025 1 3 0"

definition exMar :: jsdate where
  "exMar = mkDate 2025 2 3 0"

definition exBodyM :: create_body where
  "exBodyM = \<lparr>b_accountId = 1, b_userId = 10, b_amount = Some 100, b_date = None\<rparr>"

definition exRequests :: "request list" where
  "exRequests =
     [Create exAgent exBodyM exFeb,
      Create exAgent exBodyM exFeb,
      Update exAdmin 6 \<lparr>u_amount = None, u_date = Some (Parsed (mkDate 2025 0 25 0))\<rparr> exFeb,
      Update exAdmin 6 \<lparr>u_amount = None, u_date = Some (Parsed exMar)\<rparr> exFeb,
      Delete exAdmin 0]"

text \<open>What identifies an item of a bulk request in the report: its account id and its
  amount.\<close>

definition itemKey :: "bulk_item \<Rightarrow> oid \<times> int option" where
  "itemKey d = (i_accountId d, i_amount d)"

definition entryKey :: "bulk_record \<Rightarrow> oid \<times> int option" where
  "entryKey r = (r_accountId r, r_amount r)"

text \<open>The entries account for the items one to one: success entries carry no error,
  failure entries carry one.\<close>

definition recorded :: "bulk_item list \<Rightarrow> bulk_record list \<Rightarrow> bulk_record list \<Rightarrow> bool" where
  "recorded items succeeded failed \<longleftrightarrow>
     mset (map entryKey (succeeded @ failed)) = mset (map itemKey items) \<and>
     (\<forall>r \<in> set succeeded. r_error r = None) \<and>
     (\<forall>r \<in> set failed. r_error r \<noteq> None)"

text \<open>The histogram holds, for every message, the number of failure entries with that
  message, and no key for a message without one.\<close>

definition tallied :: "bulk_record list \<Rightarrow> (string \<rightharpoonup> nat) \<Rightarrow> bool" where
  "tallied failed summary \<longleftrightarrow>
     (\<forall>msg. summary msg =
        (let n = length (filter (\<lambda>r. r_error r = Some msg) failed)
         in if n = 0 then None else Some n))"

text \<open>The bulk handler refuses an item itself, before the single create is called: the
  collector is not the caller, the account or its client does not exist, or the
  period already holds a deposit.\<close>

definition bulkRefuses :: "store \<Rightarrow> caller \<Rightarrow> jsdate \<Rightarrow> bulk_item \<Rightarrow> bool" where
  "bulkRefuses s c now d \<longleftrightarrow>
     i_collectedBy d \<noteq> c_id c \<or>
     (case accounts s (i_accountId d) of
        None \<Rightarrow> True
      | Some account \<Rightarrow>
          users s (acc_userId account) = None \<or>
          alreadyDeposited s (i_accountId d) account now \<noteq> None)"

text \<open>The audit events of the handlers: the event of a rejection, with the reason
  code, and the event of a success, with the id of the deposit.\<close>

definition failedEvent :: "action \<Rightarrow> reason \<Rightarrow> caller \<Rightarrow> audit_event" where
  "failedEvent act r c =
     \<lparr>ev_action = act, ev_entityType = ''DepositAttempt'', ev_entityId = None,
      ev_reason = Some r, ev_performedBy = c_id c\<rparr>"

definition successEvent :: "action \<Rightarrow> oid \<Rightarrow> caller \<Rightarrow> audit_event" where
  "successEvent act i c =
     \<lparr>ev_action = act, ev_entityType = ''Deposit'', ev_entityId = Some i,
      ev_reason = None, ev_performedBy = c_id c\<rparr>"

text \<open>The event \<^verbatim>\<open>DELETE_DEPOSIT_ATTEMPT\<close> that a delete writes before it removes the
  deposit.\<close>

definition attemptEvent :: "oid \<Rightarrow> caller \<Rightarrow> audit_event" where
  "attemptEvent i c =
     \<lparr>ev_action = DELETE_DEPOSIT_ATTEMPT, ev_entityType = ''Deposit'', ev_entityId = Some i,
      ev_reason = Some DELETE_REQUEST, ev_performedBy = c_id c\<rparr>"

text \<open>A bulk request of three items on 20 January 2025: one collected by somebody
  else, one for the Monthly account whose January instalment is paid, one valid.\<close>

definition exItems :: "bulk_item list" where
  "exItems =
     [\<lparr>i_accountId = 2, i_amount = Some 50, i_collectedBy = 8, i_date = None\<rparr>,
      \<lparr>i_accountId = 1, i_amount = Some 100, i_collectedBy = 7, i_date = None\<rparr>,
      \<lparr>i_accountId = 2, i_amount = Some 50, i_collectedBy = 7, i_date = None\<rparr>]"

text \<open>The valid item of that request, to be sent next to a \<^verbatim>\<open>null\<close>.\<close>

definition exItem :: bulk_item where
  "exItem = \<lparr>i_accountId = 2, i_amount = Some 50, i_collectedBy = 7, i_date = None\<rparr>"

section \<open>Basic facts about dates, queries and rejections\<close>

lemmas ex_defs = exStore_def exDeposits_def exDeposit_def exClient_def exAdmin_def exAgent_def
  exMonthly_def exDaily_def exYearly_def exMaturedPaid_def exMaturedEmpty_def exNow_def exPast_def exFuture_def
  mkDate_def

lemma startOfMonth_eq: "startOfMonth d = \<lparr>d_month = d_month d, d_day = 0, d_ms = 0\<rparr>"
  by (simp add: startOfMonth_def mkDate_def getFullYear_def getMonth_def)

lemma endOfMonth_eq: "endOfMonth d = \<lparr>d_month = d_month d + 1, d_day = 0, d_ms = 0\<rparr>"
  by (simp add: endOfMonth_def startOfMonth_eq mkDate_def getFullYear_def getMonth_def getDate_def
      Let_def algebra_simps)

lemma inMonthOf_iff: "inMonthOf d x \<longleftrightarrow> d_month x = d_month d"
  by (cases x) (auto simp: inMonthOf_def startOfMonth_eq endOfMonth_eq date_le_def date_lt_def)

lemma totalOrZero_aggregateTotal [simp]:
  "totalOrZero (aggregateTotal ms) = sum_list (map dep_amount ms)"
  by (simp add: totalOrZero_def aggregateTotal_def)

lemma reject_simps [simp]:
  "fst (reject s c act code r msg) = Inl \<lparr>rej_status = code, rej_reason = r, rej_message = msg\<rparr>"
  "accounts (snd (reject s c act code r msg)) = accounts s"
  "deposits (snd (reject s c act code r msg)) = deposits s"
  "users (snd (reject s c act code r msg)) = users s"
  "nextId (snd (reject s c act code r msg)) = nextId s"
  "scopeClients (snd (reject s c act code r msg)) = scopeClients s"
  "auditLog (snd (reject s c act code r msg)) = auditLog s @
     [\<lparr>ev_action = act, ev_entityType = ''DepositAttempt'', ev_entityId = None,
       ev_reason = Some r, ev_performedBy = c_id c\<rparr>]"
  by (simp_all add: reject_def)


lemma createModeChecks_reason:
  "createModeChecks s aid account t amount now = Inl (code, r, msg) \<Longrightarrow> r \<noteq> ACCOUNT_MATURED"
  by (auto simp: createModeChecks_def createYearly_def createMonthly_def
      createDaily_def Let_def split: sum.splits if_splits option.splits)

lemma createPolicy_cases [consumes 0, case_names Rejected Matured Committed]:
  assumes R: "\<And>code r msg. r \<noteq> ACCOUNT_MATURED \<Longrightarrow>
             createPolicy s c body account amount now = reject s c CREATE_DEPOSIT_FAILED code r msg \<Longrightarrow> P"
    and M: "\<And>t msg m.
           acc_totalPayableAmount account = Some t \<Longrightarrow>
           sum_list (map dep_amount (depositsOf s (b_accountId body))) + amount \<le> t \<Longrightarrow>
           acc_maturityDate account = Some m \<Longrightarrow> date_le m now \<Longrightarrow>
           createPolicy s c body account amount now =
             reject (s\<lparr>accounts := (accounts s)(b_accountId body \<mapsto> account\<lparr>acc_status := Matured\<rparr>)\<rparr>)
               c CREATE_DEPOSIT_FAILED 400 ACCOUNT_MATURED msg \<Longrightarrow> P"
    and C: "\<And>t account'.
           acc_totalPayableAmount account = Some t \<Longrightarrow>
           sum_list (map dep_amount (depositsOf s (b_accountId body))) + amount \<le> t \<Longrightarrow>
           createModeChecks s (b_accountId body) account t amount now = Inr account' \<Longrightarrow>
           createPolicy s c body account amount now = createCommit s c body account' t amount now \<Longrightarrow> P"
  shows P
proof (cases "acc_totalPayableAmount account")
  case None
  then show ?thesis
    by (intro R[where r = MISSING_TOTAL_PAYABLE]) (simp_all add: createPolicy_def)
next
  case t: (Some t)
  show ?thesis
  proof (cases "sum_list (map dep_amount (depositsOf s (b_accountId body))) + amount > t")
    case True
    then show ?thesis using t
      by (intro R[where r = TOTAL_PAYABLE_EXCEEDED]) (simp_all add: createPolicy_def)
  next
    case within: False
    show ?thesis
    proof (cases "case acc_maturityDate account of None \<Rightarrow> False | Some m \<Rightarrow> date_le m now")
      case True
      then obtain m where "acc_maturityDate account = Some m" "date_le m now"
        by (auto split: option.splits)
      then show ?thesis using t within
        by (intro M[where t = t and m = m]) (simp_all add: createPolicy_def)
    next
      case notMatured: False
      show ?thesis
      proof (cases "createModeChecks s (b_accountId body) account t amount now")
        case (Inl e)
        obtain code r msg where e: "e = (code, r, msg)" by (cases e)
        have "r \<noteq> ACCOUNT_MATURED"
          using Inl e createModeChecks_reason by blast
        then show ?thesis
          using t within notMatured Inl e
          by (intro R[where r = r and code = code and msg = msg]) (simp_all add: createPolicy_def)
      next
        case (Inr account')
        then show ?thesis
          using t within notMatured
          by (intro C[where t = t and account' = account']) (simp_all add: createPolicy_def)
      qed
    qed
  qed
qed

lemma createDeposit_gate_cases [consumes 0, case_names Rejected Policy]:
  assumes R: "\<And>code r msg. r \<noteq> ACCOUNT_MATURED \<Longrightarrow>
             createDeposit s c body now = reject s c CREATE_DEPOSIT_FAILED code r msg \<Longrightarrow> P"
    and G: "\<And>account amount.
           accounts s (b_accountId body) = Some account \<Longrightarrow>
           b_amount body = Some amount \<Longrightarrow> 0 < amount \<Longrightarrow>
           acc_userId account = b_userId body \<Longrightarrow>
           createDeposit s c body now = createPolicy s c body account amount now \<Longrightarrow> P"
  shows P
proof (cases "c_role c \<notin> {Admin, Manager, Agent}")
  case True
  then show ?thesis
    by (intro R[where r = ROLE_NOT_ALLOWED]) (simp_all add: createDeposit_def)
next
  case role: False
  show ?thesis
  proof (cases "b_amount body")
    case None
    then show ?thesis using role
      by (intro R[where r = INVALID_AMOUNT]) (simp_all add: createDeposit_def)
  next
    case (Some amount)
    show ?thesis
    proof (cases "amount \<le> 0")
      case True
      then show ?thesis using role Some
        by (intro R[where r = INVALID_AMOUNT]) (auto simp add: createDeposit_def)
    next
      case pos: False
      show ?thesis
      proof (cases "accounts s (b_accountId body)")
        case None
        then show ?thesis using role Some pos
          by (intro R[where r = ACCOUNT_NOT_FOUND]) (simp_all add: createDeposit_def)
      next
        case acc: (Some account)
        show ?thesis
        proof (cases "acc_userId account \<noteq> b_userId body")
          case True
          then show ?thesis using role Some pos acc
            by (intro R[where r = USER_ACCOUNT_MISMATCH]) (simp_all add: createDeposit_def)
        next
          case owner: False
          show ?thesis
          proof (cases "c_role c = Agent \<and>
                            (case users s (b_userId body) of
                               None \<Rightarrow> True
                             | Some client \<Rightarrow> usr_assignedTo client \<noteq> c_id c)")
            case True
            then show ?thesis using role Some pos acc owner
              by (intro R[where r = AGENT_SCOPE_VIOLATION]) (simp_all add: createDeposit_def)
          next
            case agent: False
            show ?thesis
            proof (cases "c_role c = Manager \<and> b_userId body \<notin> set (scopeClients s (c_id c))")
              case True
              then show ?thesis using role Some pos acc owner agent
                by (intro R[where r = MANAGER_SCOPE_VIOLATION]) (simp_all add: createDeposit_def)
            next
              case False
              then show ?thesis using role Some pos acc owner agent
                by (intro G[where account = account and amount = amount]) (auto simp add: createDeposit_def)
            qed
          qed
        qed
      qed
    qed
  qed
qed

lemma createDeposit_cases [consumes 0, case_names Rejected Matured Committed]:
  assumes R: "\<And>code r msg. r \<noteq> ACCOUNT_MATURED \<Longrightarrow>
             createDeposit s c body now = reject s c CREATE_DEPOSIT_FAILED code r msg \<Longrightarrow> P"
    and M: "\<And>account t msg m.
           accounts s (b_accountId body) = Some account \<Longrightarrow>
           acc_totalPayableAmount account = Some t \<Longrightarrow>
           acc_maturityDate account = Some m \<Longrightarrow> date_le m now \<Longrightarrow>
           createDeposit s c body now =
             reject (s\<lparr>accounts := (accounts s)(b_accountId body \<mapsto> account\<lparr>acc_status := Matured\<rparr>)\<rparr>)
               c CREATE_DEPOSIT_FAILED 400 ACCOUNT_MATURED msg \<Longrightarrow> P"
    and C: "\<And>account amount t account'.
           accounts s (b_accountId body) = Some account \<Longrightarrow>
           b_amount body = Some amount \<Longrightarrow> 0 < amount \<Longrightarrow>
           acc_userId account = b_userId body \<Longrightarrow>
           acc_totalPayableAmount account = Some t \<Longrightarrow>
           sum_list (map dep_amount (depositsOf s (b_accountId body))) + amount \<le> t \<Longrightarrow>
           createModeChecks s (b_accountId body) account t amount now = Inr account' \<Longrightarrow>
           createDeposit s c body now = createCommit s c body account' t amount now \<Longrightarrow> P"
  shows P
proof (cases rule: createDeposit_gate_cases[of s c body now])
  case (Rejected code r msg)
  then show ?thesis using R by blast
next
  case (Policy account amount)
  show ?thesis
  proof (cases rule: createPolicy_cases[of s c body account amount now])
    case (Rejected code r msg)
    then show ?thesis using R Policy by metis
  next
    case (Matured t msg m)
    then show ?thesis using M[OF Policy(1)] Policy by metis
  next
    case (Committed t account')
    then show ?thesis using C[OF Policy(1-4)] Policy by metis
  qed
qed


lemma updateDeposit_cases [consumes 0, case_names Rejected Committed]:
  assumes R: "\<And>code r msg.
             updateDeposit s c i body now = reject s c UPDATE_DEPOSIT_FAILED code r msg \<Longrightarrow> P"
    and C: "\<And>deposit account t.
           c_role c = Admin \<Longrightarrow>
           findDepositById s i = Some deposit \<Longrightarrow>
           accounts s (dep_accountId deposit) = Some account \<Longrightarrow>
           (\<And>a. u_amount body = Some a \<Longrightarrow> 0 < a) \<Longrightarrow>
           acc_totalPayableAmount account = Some t \<Longrightarrow>
           sum_list (map dep_amount (depositsOf s (dep_accountId deposit))) - dep_amount deposit +
             (case u_amount body of Some a \<Rightarrow> a | None \<Rightarrow> dep_amount deposit) \<le> t \<Longrightarrow>
           updateModeChecks s (dep_accountId deposit) account t deposit
             (case u_amount body of Some a \<Rightarrow> a | None \<Rightarrow> dep_amount deposit)
             (effectiveDate body deposit) = None \<Longrightarrow>
           u_date body \<noteq> Some Unparseable \<Longrightarrow>
           updateDeposit s c i body now = updateCommit s c body deposit account t now \<Longrightarrow> P"
  shows P
proof (cases "c_role c \<noteq> Admin")
  case True
  then show ?thesis
    by (intro R[where r = ROLE_NOT_ALLOWED]) (simp_all add: updateDeposit_def)
next
  case role: False
  show ?thesis
  proof (cases "findDepositById s i")
    case None
    then show ?thesis using role
      by (intro R[where r = DEPOSIT_NOT_FOUND]) (simp_all add: updateDeposit_def)
  next
    case dep: (Some deposit)
    show ?thesis
    proof (cases "accounts s (dep_accountId deposit)")
      case None
      then show ?thesis using role dep
        by (intro R[where r = ACCOUNT_NOT_FOUND]) (simp_all add: updateDeposit_def)
    next
      case acc: (Some account)
      show ?thesis
      proof (cases "case u_amount body of None \<Rightarrow> False | Some amount \<Rightarrow> amount \<le> 0")
        case True
        then show ?thesis using role dep acc
          by (intro R[where r = INVALID_AMOUNT]) (simp_all add: updateDeposit_def)
      next
        case amt: False
        show ?thesis
        proof (cases "acc_totalPayableAmount account")
          case None
          then show ?thesis using role dep acc amt
            by (intro R[where r = MISSING_TOTAL_PAYABLE]) (simp_all add: updateDeposit_def)
        next
          case t: (Some t)
          let ?new = "case u_amount body of Some a \<Rightarrow> a | None \<Rightarrow> dep_amount deposit"
          let ?excl = "sum_list (map dep_amount (depositsOf s (dep_accountId deposit))) - dep_amount deposit"
          show ?thesis
          proof (cases "?excl + ?new > t")
            case True
            then show ?thesis using role dep acc amt t
              by (intro R[where r = TOTAL_PAYABLE_EXCEEDED]) (simp_all add: updateDeposit_def Let_def)
          next
            case within: False
            show ?thesis
            proof (cases "updateModeChecks s (dep_accountId deposit) account t deposit ?new
                            (effectiveDate body deposit)")
              case (Some e)
              obtain code r msg where e: "e = (code, r, msg)" by (cases e)
              show ?thesis using role dep acc amt t within Some e
                by (intro R[where r = r and code = code and msg = msg])
                  (simp_all add: updateDeposit_def Let_def)
            next
              case mode: None
              show ?thesis
              proof (cases "u_date body = Some Unparseable")
                case True
                then show ?thesis using role dep acc amt t within mode
                  by (intro R[where r = INVALID_DATE])
                    (simp_all add: updateDeposit_def updateCommit_def Let_def)
              next
                case False
                have pos: "\<And>a. u_amount body = Some a \<Longrightarrow> 0 < a"
                  using amt by (auto split: option.splits)
                show ?thesis using role dep acc t within mode False
                  by (intro C[where deposit = deposit and account = account and t = t])
                    (simp_all add: pos updateDeposit_def Let_def amt)
              qed
            qed
          qed
        qed
      qed
    qed
  qed
qed

lemma deleteDeposit_cases [consumes 0, case_names Rejected Committed]:
  assumes R: "\<And>code r msg.
             deleteDeposit s c i = reject s c DELETE_DEPOSIT_FAILED code r msg \<Longrightarrow> P"
    and C: "\<And>deposit account.
           c_role c = Admin \<Longrightarrow>
           findDepositById s i = Some deposit \<Longrightarrow>
           accounts s (dep_accountId deposit) = Some account \<Longrightarrow>
           \<not> (acc_paymentMode account = Yearly \<and> length (depositsOf s (dep_accountId deposit)) = 1) \<Longrightarrow>
           deleteDeposit s c i = deleteCommit s c deposit account \<Longrightarrow> P"
  shows P
proof (cases "c_role c \<noteq> Admin")
  case True
  then show ?thesis
    by (intro R[where r = ROLE_NOT_ALLOWED]) (simp_all add: deleteDeposit_def)
next
  case role: False
  show ?thesis
  proof (cases "findDepositById s i")
    case None
    then show ?thesis using role
      by (intro R[where r = DEPOSIT_NOT_FOUND]) (simp_all add: deleteDeposit_def)
  next
    case dep: (Some deposit)
    show ?thesis
    proof (cases "accounts s (dep_accountId deposit)")
      case None
      then show ?thesis using role dep
        by (intro R[where r = ACCOUNT_NOT_FOUND]) (simp_all add: deleteDeposit_def)
    next
      case acc: (Some account)
      show ?thesis
      proof (cases "acc_paymentMode account = Yearly \<and> length (depositsOf s (dep_accountId deposit)) = 1")
        case True
        then show ?thesis using role dep acc
          by (intro R[where r = CANNOT_DELETE_ONLY_YEARLY_DEPOSIT]) (simp_all add: deleteDeposit_def)
      next
        case False
        then show ?thesis using role dep acc
          by (intro C[where deposit = deposit and account = account])
            (auto simp add: deleteDeposit_def Let_def)
      qed
    qed
  qed
qed

section \<open>The guard of the only Yearly deposit\<close>

text \<open>
  Claim C5. On a Yearly account that holds exactly one deposit, a delete attempt on
  that deposit is rejected, whoever calls: the deposit stays in the store and no
  account is changed. For an Admin, the only role that gets past the role check, the
  rejection is \<open>CANNOT_DELETE_ONLY_YEARLY_DEPOSIT\<close> with status 400.
\<close>

theorem yearly_only_deposit_delete_rejected:
  assumes "findDepositById s i = Some deposit"
    and "accounts s (dep_accountId deposit) = Some account"
    and "acc_paymentMode account = Yearly"
    and "length (depositsOf s (dep_accountId deposit)) = 1"
  shows "\<exists>rej. fst (deleteDeposit s c i) = Inl rej \<and>
           (c_role c = Admin \<longrightarrow>
              rej_reason rej = CANNOT_DELETE_ONLY_YEARLY_DEPOSIT \<and> rej_status rej = 400) \<and>
           deposits (snd (deleteDeposit s c i)) = deposits s \<and>
           accounts (snd (deleteDeposit s c i)) = accounts s"
  using assms by (simp add: deleteDeposit_def)

theorem yearly_only_deposit_delete_rejected_witness:
  "findDepositById exStore 4 = Some (exDeposit 4 (mkDate 2024 5 1 0) 3 12 ''YD'' 5000) \<and>
   accounts exStore 3 = Some exYearly \<and>
   length (depositsOf exStore 3) = 1 \<and>
   (\<exists>rej. fst (deleteDeposit exStore exAdmin 4) = Inl rej \<and>
      rej_reason rej = CANNOT_DELETE_ONLY_YEARLY_DEPOSIT \<and> rej_status rej = 400) \<and>
   deposits (snd (deleteDeposit exStore exAdmin 4)) = deposits exStore \<and>
   accounts (snd (deleteDeposit exStore exAdmin 4)) = accounts exStore"
proof -
  have f: "findDepositById exStore 4 = Some (exDeposit 4 (mkDate 2024 5 1 0) 3 12 ''YD'' 5000)"
    by (simp add: findDepositById_def ex_defs)
  have a: "accounts exStore (dep_accountId (exDeposit 4 (mkDate 2024 5 1 0) 3 12 ''YD'' 5000)) = Some exYearly"
    by (simp add: ex_defs)
  have m: "acc_paymentMode exYearly = Yearly"
    by (simp add: ex_defs)
  have n: "length (depositsOf exStore (dep_accountId (exDeposit 4 (mkDate 2024 5 1 0) 3 12 ''YD'' 5000))) = 1"
    by (simp add: depositsOf_def ex_defs)
  show ?thesis
    using yearly_only_deposit_delete_rejected [OF f a m n, of exAdmin] f a n
    by (auto simp add: exAdmin_def exDeposit_def)
qed

section \<open>The overall payable total\<close>

lemma collectedOf_alt: "sum_list (map dep_amount (depositsOf s aid)) = collectedOf s aid"
  by (simp add: collectedOf_def)

lemma createAdmitted_policy:
  "createAdmitted s c body account amount \<Longrightarrow>
   createDeposit s c body now = createPolicy s c body account amount now"
  by (auto simp: createAdmitted_def createDeposit_def)

lemma updateAdmitted_total:
  assumes "updateAdmitted s c i body deposit account"
    and "acc_totalPayableAmount account = Some t"
  shows "updateDeposit s c i body now =
     (if collectedOf s (dep_accountId deposit) - dep_amount deposit + proposedAmount body deposit > t then
        reject s c UPDATE_DEPOSIT_FAILED 400 TOTAL_PAYABLE_EXCEEDED
          (''Total payable exceeded: already '' @
           jsNum (collectedOf s (dep_accountId deposit) - dep_amount deposit) @
           '', trying to set this deposit to '' @ jsNum (proposedAmount body deposit) @
           '', total allowed '' @ jsNum t)
      else
        (case updateModeChecks s (dep_accountId deposit) account t deposit
                (proposedAmount body deposit) (effectiveDate body deposit) of
           Some (code, r, msg) \<Rightarrow> reject s c UPDATE_DEPOSIT_FAILED code r msg
         | None \<Rightarrow> updateCommit s c body deposit account t now))"
  using assms
  by (auto simp: updateAdmitted_def updateDeposit_def collectedOf_def proposedAmount_def Let_def
      split: option.splits)

text \<open>The two notions of admission are exact: a request that is not admitted is turned
  away by one of the checks that stand before the policy.\<close>

lemma createDeposit_not_admitted:
  assumes "\<not> (\<exists>account amount. createAdmitted s c body account amount)"
  shows "rejectedWith (fst (createDeposit s c body now)) \<in>
           Some ` {ROLE_NOT_ALLOWED, INVALID_AMOUNT, ACCOUNT_NOT_FOUND, USER_ACCOUNT_MISMATCH,
                   AGENT_SCOPE_VIOLATION, MANAGER_SCOPE_VIOLATION}"
proof -
  have n: "\<And>account amount. \<not> createAdmitted s c body account amount"
    using assms by blast
  show ?thesis
  proof (cases "b_amount body")
    case None
    then show ?thesis by (simp add: createDeposit_def rejectedWith_def)
  next
    case (Some amount)
    show ?thesis
    proof (cases "accounts s (b_accountId body)")
      case None
      then show ?thesis using Some by (simp add: createDeposit_def rejectedWith_def)
    next
      case acc: (Some account)
      show ?thesis
        using n[of account amount] Some acc
        by (auto simp: createAdmitted_def createDeposit_def rejectedWith_def split: option.splits)
    qed
  qed
qed

lemma updateDeposit_not_admitted:
  assumes "\<not> (\<exists>deposit account. updateAdmitted s c i body deposit account)"
  shows "rejectedWith (fst (updateDeposit s c i body now)) \<in>
           Some ` {ROLE_NOT_ALLOWED, DEPOSIT_NOT_FOUND, ACCOUNT_NOT_FOUND, INVALID_AMOUNT}"
proof -
  have n: "\<And>deposit account. \<not> updateAdmitted s c i body deposit account"
    using assms by blast
  show ?thesis
  proof (cases "findDepositById s i")
    case None
    then show ?thesis by (simp add: updateDeposit_def rejectedWith_def)
  next
    case (Some deposit)
    show ?thesis
    proof (cases "accounts s (dep_accountId deposit)")
      case None
      then show ?thesis using Some by (simp add: updateDeposit_def rejectedWith_def)
    next
      case acc: (Some account)
      show ?thesis
        using n[of deposit account] Some acc
        by (auto simp: updateAdmitted_def updateDeposit_def rejectedWith_def split: option.splits)
    qed
  qed
qed

text \<open>
  Claim C2. A create or an update that gets past the role, input, lookup and scope
  checks is rejected with \<open>TOTAL_PAYABLE_EXCEEDED\<close> whenever the deposits already
  recorded against the account (on update, without the current amount of the edited
  deposit) plus the proposed amount exceed the payable total; nothing but the audit log
  changes. The payment mode, the mode parameters and the maturity date of the account
  do not occur in the statement: the check is decided before any of them is looked at.
\<close>

theorem total_payable_checked_before_mode_rules:
  "(createAdmitted s c body account amount \<and>
    acc_totalPayableAmount account = Some t \<and>
    collectedOf s (b_accountId body) + amount > t \<longrightarrow>
      rejectedWith (fst (createDeposit s c body now)) = Some TOTAL_PAYABLE_EXCEEDED \<and>
      deposits (snd (createDeposit s c body now)) = deposits s \<and>
      accounts (snd (createDeposit s c body now)) = accounts s) \<and>
   (updateAdmitted s c' i ubody deposit account' \<and>
    acc_totalPayableAmount account' = Some t' \<and>
    collectedOf s (dep_accountId deposit) - dep_amount deposit + proposedAmount ubody deposit > t' \<longrightarrow>
      rejectedWith (fst (updateDeposit s c' i ubody now)) = Some TOTAL_PAYABLE_EXCEEDED \<and>
      deposits (snd (updateDeposit s c' i ubody now)) = deposits s \<and>
      accounts (snd (updateDeposit s c' i ubody now)) = accounts s)"
proof (intro conjI impI)
  assume h: "createAdmitted s c body account amount \<and>
    acc_totalPayableAmount account = Some t \<and> collectedOf s (b_accountId body) + amount > t"
  then have e: "createDeposit s c body now =
      reject s c CREATE_DEPOSIT_FAILED 400 TOTAL_PAYABLE_EXCEEDED
        (''Total payable exceeded: already '' @ jsNum (collectedOf s (b_accountId body)) @
         '', trying to add '' @ jsNum amount @ '', total allowed '' @ jsNum t)"
    using createAdmitted_policy[of s c body account amount now]
    by (simp add: createPolicy_def collectedOf_def)
  show "rejectedWith (fst (createDeposit s c body now)) = Some TOTAL_PAYABLE_EXCEEDED"
    by (simp add: e rejectedWith_def)
  show "deposits (snd (createDeposit s c body now)) = deposits s"
    by (simp add: e)
  show "accounts (snd (createDeposit s c body now)) = accounts s"
    by (simp add: e)
next
  assume h: "updateAdmitted s c' i ubody deposit account' \<and>
    acc_totalPayableAmount account' = Some t' \<and>
    collectedOf s (dep_accountId deposit) - dep_amount deposit + proposedAmount ubody deposit > t'"
  then have e: "updateDeposit s c' i ubody now =
      reject s c' UPDATE_DEPOSIT_FAILED 400 TOTAL_PAYABLE_EXCEEDED
          (''Total payable exceeded: already '' @
           jsNum (collectedOf s (dep_accountId deposit) - dep_amount deposit) @
           '', trying to set this deposit to '' @ jsNum (proposedAmount ubody deposit) @
           '', total allowed '' @ jsNum t')"
    using updateAdmitted_total[of s c' i ubody deposit account' t' now] by simp
  show "rejectedWith (fst (updateDeposit s c' i ubody now)) = Some TOTAL_PAYABLE_EXCEEDED"
    by (simp add: e rejectedWith_def)
  show "deposits (snd (updateDeposit s c' i ubody now)) = deposits s"
    by (simp add: e)
  show "accounts (snd (updateDeposit s c' i ubody now)) = accounts s"
    by (simp add: e)
qed


text \<open>On the Daily account 2 (900 of 1000 collected, monthly target 300) a create of
  400 and an update of the December deposit to 500 exceed the payable total and the
  monthly target alike; both are rejected for the payable total.\<close>

theorem total_payable_checked_before_mode_rules_witness:
  "createAdmitted exStore exAgent \<lparr>b_accountId = 2, b_userId = 11, b_amount = Some 400, b_date = None\<rparr>
     exDaily 400 \<and>
   collectedOf exStore 2 + 400 > 1000 \<and>
   rejectedWith (fst (createDeposit exStore exAgent
     \<lparr>b_accountId = 2, b_userId = 11, b_amount = Some 400, b_date = None\<rparr> exNow)) =
     Some TOTAL_PAYABLE_EXCEEDED \<and>
   updateAdmitted exStore exAdmin 3 \<lparr>u_amount = Some 500, u_date = None\<rparr>
     (exDeposit 3 (mkDate 2024 11 5 0) 2 11 ''DD'' 300) exDaily \<and>
   collectedOf exStore 2 - 300 + 500 > 1000 \<and>
   rejectedWith (fst (updateDeposit exStore exAdmin 3 \<lparr>u_amount = Some 500, u_date = None\<rparr> exNow)) =
     Some TOTAL_PAYABLE_EXCEEDED"
proof -
  let ?body = "\<lparr>b_accountId = 2, b_userId = 11, b_amount = Some 400, b_date = None\<rparr>"
  let ?ubody = "\<lparr>u_amount = Some 500, u_date = None\<rparr>"
  let ?dep = "exDeposit 3 (mkDate 2024 11 5 0) 2 11 ''DD'' 300"
  have c: "collectedOf exStore 2 = 900"
    by (simp add: collectedOf_def depositsOf_def ex_defs)
  have h1: "createAdmitted exStore exAgent ?body exDaily 400"
    by (simp add: createAdmitted_def ex_defs)
  have h2: "acc_totalPayableAmount exDaily = Some 1000"
    by (simp add: ex_defs)
  have h3: "updateAdmitted exStore exAdmin 3 ?ubody ?dep exDaily"
    by (simp add: updateAdmitted_def findDepositById_def ex_defs)
  have p: "proposedAmount ?ubody ?dep = 500" "dep_amount ?dep = 300" "dep_accountId ?dep = 2"
    by (simp_all add: proposedAmount_def exDeposit_def)
  show ?thesis
    using total_payable_checked_before_mode_rules
      [of exStore exAgent ?body exDaily 400 1000 exNow exAdmin 3 ?ubody ?dep exDaily 1000] h1 h2 h3
    by (simp add: c p)
qed

section \<open>The maturity gate\<close>

lemma createPolicy_matured:
  assumes "acc_totalPayableAmount account = Some t"
    and "sum_list (map dep_amount (depositsOf s (b_accountId body))) + amount \<le> t"
    and "acc_maturityDate account = Some m" and "date_le m now"
  shows "createPolicy s c body account amount now =
     reject (s\<lparr>accounts := (accounts s)(b_accountId body \<mapsto> account\<lparr>acc_status := Matured\<rparr>)\<rparr>)
       c CREATE_DEPOSIT_FAILED 400 ACCOUNT_MATURED ''Account has matured, no more deposits allowed''"
  using assms by (simp add: createPolicy_def)

text \<open>
  Claim C3 as stated fails: the overall payable check stands before the maturity gate.
  On 20 January 2025 a create of 100 on the fully collected account 4, matured since
  1 January 2024, is rejected with \<open>TOTAL_PAYABLE_EXCEEDED\<close>, and the account keeps its
  status \<open>OnTrack\<close>.
\<close>

theorem matured_account_counterexample:
  "accounts exStore 4 = Some exMaturedPaid \<and>
   acc_maturityDate exMaturedPaid = Some exPast \<and> date_le exPast exNow \<and>
   rejectedWith (fst (createDeposit exStore exAgent
      \<lparr>b_accountId = 4, b_userId = 13, b_amount = Some 100, b_date = None\<rparr> exNow)) =
     Some TOTAL_PAYABLE_EXCEEDED \<and>
   map_option acc_status (accounts (snd (createDeposit exStore exAgent
      \<lparr>b_accountId = 4, b_userId = 13, b_amount = Some 100, b_date = None\<rparr> exNow)) 4) =
     Some OnTrack"
proof -
  let ?body = "\<lparr>b_accountId = 4, b_userId = 13, b_amount = Some 100, b_date = None\<rparr>"
  have a: "createAdmitted exStore exAgent ?body exMaturedPaid 100"
    by (simp add: createAdmitted_def ex_defs)
  have c: "sum_list (map dep_amount (depositsOf exStore 4)) = 1000"
    by (simp add: depositsOf_def ex_defs)
  have e: "createDeposit exStore exAgent ?body exNow =
      reject exStore exAgent CREATE_DEPOSIT_FAILED 400 TOTAL_PAYABLE_EXCEEDED
        (''Total payable exceeded: already '' @ jsNum 1000 @
         '', trying to add '' @ jsNum 100 @ '', total allowed '' @ jsNum 1000)"
    using createAdmitted_policy[OF a, of exNow]
    by (simp add: createPolicy_def c) (simp add: ex_defs)
  have d: "date_le exPast exNow"
    by (simp add: date_le_def date_lt_def ex_defs)
  show ?thesis
    by (simp add: e d rejectedWith_def) (simp add: ex_defs)
qed

text \<open>
  Claim C3, amended. A create on an account whose maturity date is at or before the
  current time, once it is past the role, input, lookup and scope checks and within
  the payable total, is rejected with \<open>ACCOUNT_MATURED\<close> and status 400; no deposit is
  written, the account is saved with status \<open>Matured\<close> and otherwise as it was, and no
  other account changes.
\<close>

theorem matured_account_rejected_and_marked:
  assumes "createAdmitted s c body account amount"
    and "acc_totalPayableAmount account = Some t"
    and "collectedOf s (b_accountId body) + amount \<le> t"
    and "acc_maturityDate account = Some m" and "date_le m now"
  shows "rejectedWith (fst (createDeposit s c body now)) = Some ACCOUNT_MATURED \<and>
         map_sum rej_status dep_id (fst (createDeposit s c body now)) = Inl 400 \<and>
         deposits (snd (createDeposit s c body now)) = deposits s \<and>
         accounts (snd (createDeposit s c body now)) =
           (accounts s)(b_accountId body \<mapsto> account\<lparr>acc_status := Matured\<rparr>)"
proof -
  have "createDeposit s c body now =
     reject (s\<lparr>accounts := (accounts s)(b_accountId body \<mapsto> account\<lparr>acc_status := Matured\<rparr>)\<rparr>)
       c CREATE_DEPOSIT_FAILED 400 ACCOUNT_MATURED ''Account has matured, no more deposits allowed''"
    using assms createAdmitted_policy[OF assms(1), of now]
    by (simp add: createPolicy_matured collectedOf_def)
  then show ?thesis
    by (simp add: rejectedWith_def)
qed

theorem matured_account_rejected_and_marked_witness:
  "createAdmitted exStore exAgent \<lparr>b_accountId = 5, b_userId = 13, b_amount = Some 100, b_date = None\<rparr>
     exMaturedEmpty 100 \<and>
   collectedOf exStore 5 + 100 \<le> 1000 \<and>
   acc_maturityDate exMaturedEmpty = Some exPast \<and> date_le exPast exNow \<and>
   rejectedWith (fst (createDeposit exStore exAgent
      \<lparr>b_accountId = 5, b_userId = 13, b_amount = Some 100, b_date = None\<rparr> exNow)) =
     Some ACCOUNT_MATURED \<and>
   deposits (snd (createDeposit exStore exAgent
      \<lparr>b_accountId = 5, b_userId = 13, b_amount = Some 100, b_date = None\<rparr> exNow)) = deposits exStore \<and>
   map_option acc_status (accounts (snd (createDeposit exStore exAgent
      \<lparr>b_accountId = 5, b_userId = 13, b_amount = Some 100, b_date = None\<rparr> exNow)) 5) =
     Some Matured"
proof -
  let ?body = "\<lparr>b_accountId = 5, b_userId = 13, b_amount = Some 100, b_date = None\<rparr>"
  have a: "createAdmitted exStore exAgent ?body exMaturedEmpty 100"
    by (simp add: createAdmitted_def ex_defs)
  have t: "acc_totalPayableAmount exMaturedEmpty = Some 1000"
    by (simp add: ex_defs)
  have c: "collectedOf exStore (b_accountId ?body) + 100 \<le> 1000"
    by (simp add: collectedOf_def depositsOf_def ex_defs)
  have m: "acc_maturityDate exMaturedEmpty = Some exPast"
    by (simp add: ex_defs)
  have d: "date_le exPast exNow"
    by (simp add: date_le_def date_lt_def ex_defs)
  show ?thesis
    using matured_account_rejected_and_marked [OF a t c m d] a c m d
    by simp
qed

section \<open>What a commit writes\<close>

lemma createCommit_result:
  "createCommit s c body account t amount now = (r, s') \<Longrightarrow>
   r = Inr \<lparr>dep_id = nextId s, dep_date = now, dep_accountId = b_accountId body,
            dep_userId = b_userId body, dep_schemeType = acc_schemeType account,
            dep_amount = amount, dep_collectedBy = c_id c\<rparr> \<and>
   deposits s' = deposits s @
     [\<lparr>dep_id = nextId s, dep_date = now, dep_accountId = b_accountId body,
       dep_userId = b_userId body, dep_schemeType = acc_schemeType account,
       dep_amount = amount, dep_collectedBy = c_id c\<rparr>] \<and>
   nextId s' = Suc (nextId s) \<and> users s' = users s \<and> scopeClients s' = scopeClients s \<and>
   auditLog s' = auditLog s @
     [\<lparr>ev_action = CREATE_DEPOSIT, ev_entityType = ''Deposit'', ev_entityId = Some (nextId s),
       ev_reason = None, ev_performedBy = c_id c\<rparr>]"
  by (auto simp: createCommit_def Let_def)

lemma createDeposit_success:
  assumes "createDeposit s c body now = (Inr d, s')"
  shows "dep_date d = now \<and> dep_id d = nextId s \<and> dep_accountId d = b_accountId body \<and>
         b_amount body = Some (dep_amount d) \<and> 0 < dep_amount d \<and>
         deposits s' = deposits s @ [d] \<and> nextId s' = Suc (nextId s) \<and>
         auditLog s' = auditLog s @
           [\<lparr>ev_action = CREATE_DEPOSIT, ev_entityType = ''Deposit'', ev_entityId = Some (nextId s),
             ev_reason = None, ev_performedBy = c_id c\<rparr>]"
proof (cases rule: createDeposit_cases[of s c body now])
  case (Rejected code r msg)
  then show ?thesis using assms by (simp add: reject_def)
next
  case (Matured account t msg m)
  then show ?thesis using assms by (simp add: reject_def)
next
  case (Committed account amount t account')
  then show ?thesis using assms createCommit_result[of s c body account' t amount now "Inr d" s']
    by auto
qed

lemma createDeposit_failure:
  assumes "createDeposit s c body now = (Inl rej, s')"
  shows "deposits s' = deposits s \<and> nextId s' = nextId s \<and>
         auditLog s' = auditLog s @
           [\<lparr>ev_action = CREATE_DEPOSIT_FAILED, ev_entityType = ''DepositAttempt'', ev_entityId = None,
             ev_reason = Some (rej_reason rej), ev_performedBy = c_id c\<rparr>]"
proof (cases rule: createDeposit_cases[of s c body now])
  case (Rejected code r msg)
  then show ?thesis using assms by (auto simp add: reject_def)
next
  case (Matured account t msg m)
  then show ?thesis using assms by (auto simp add: reject_def)
next
  case (Committed account amount t account')
  then show ?thesis using assms createCommit_result[of s c body account' t amount now "Inl rej" s']
    by auto
qed

lemma createPolicy_ignores_date:
  "createPolicy s c (body\<lparr>b_date := x\<rparr>) account amount now = createPolicy s c body account amount now"
  by (simp add: createPolicy_def createCommit_def cong: option.case_cong if_cong sum.case_cong)

lemma createDeposit_ignores_date:
  "createDeposit s c (body\<lparr>b_date := x\<rparr>) now = createDeposit s c body now"
  by (simp add: createDeposit_def createPolicy_ignores_date cong: option.case_cong if_cong)


section \<open>The bulk loop\<close>

text \<open>The chunked loop is one pass over the array.\<close>

lemma bulkChunk_append:
  "bulkChunk c now (xs @ ys) st =
     (case bulkChunk c now xs st of Inl thrown \<Rightarrow> Inl thrown | Inr st' \<Rightarrow> bulkChunk c now ys st')"
  by (induction xs arbitrary: st) (simp_all split: sum.splits)

lemma bulkLoop_chunk: "bulkLoop c now items st = bulkChunk c now items st"
proof (induction c now items st rule: bulkLoop.induct)
  case (1 c now rest st)
  show ?case
  proof (cases "rest = []")
    case True
    then show ?thesis by (simp add: bulkLoop.simps)
  next
    case False
    have "bulkLoop c now rest st =
        (case bulkChunk c now (take 10 rest) st of
           Inl thrown \<Rightarrow> Inl thrown | Inr st' \<Rightarrow> bulkLoop c now (drop 10 rest) st')"
      using False by (subst bulkLoop.simps) simp
    also have "\<dots> =
        (case bulkChunk c now (take 10 rest) st of
           Inl thrown \<Rightarrow> Inl thrown | Inr st' \<Rightarrow> bulkChunk c now (drop 10 rest) st')"
      using 1[OF False] by (simp split: sum.splits)
    also have "\<dots> = bulkChunk c now (take 10 rest @ drop 10 rest) st"
      by (simp only: bulkChunk_append)
    finally show ?thesis by simp
  qed
qed

text \<open>An array of objects is processed to its end; an array with a \<^verbatim>\<open>null\<close> is
  processed up to the first one.\<close>

lemma bulkChunk_objects:
  "bulkChunk c now (map Some xs) st = Inr (fold (bulkObject c now) xs st)"
  by (induction xs arbitrary: st) (simp_all add: bulkItem_def)

lemma bulkChunk_null:
  "bulkChunk c now (map Some xs @ None # ys) st =
     Inl (nullItemError, bs_store (fold (bulkObject c now) xs st))"
  by (induction xs arbitrary: st) (simp_all add: bulkItem_def)

lemma items_cases [case_names Objects Null]:
  fixes items :: "'a option list"
  assumes "\<And>xs. items = map Some xs \<Longrightarrow> P"
    and "\<And>xs ys. items = map Some xs @ None # ys \<Longrightarrow> P"
  shows P
proof -
  have "(\<exists>xs. items = map Some xs) \<or> (\<exists>xs ys. items = map Some xs @ None # ys)"
  proof (induction items)
    case Nil
    then show ?case by simp
  next
    case (Cons a items)
    show ?case
    proof (cases a)
      case None
      then have "a # items = map Some [] @ None # items" by simp
      then have "\<exists>zs ys. a # items = map Some zs @ None # ys" by (intro exI[where x = "[]"] exI[where x = items])
      then show ?thesis by (rule disjI2)
    next
      case (Some x)
      from Cons show ?thesis
      proof
        assume "\<exists>xs. items = map Some xs"
        then obtain xs where "items = map Some xs" by blast
        then have "a # items = map Some (x # xs)" using Some by simp
        then have "\<exists>zs. a # items = map Some zs" by (rule exI[where x = "x # xs"])
        then show ?thesis by (rule disjI1)
      next
        assume "\<exists>xs ys. items = map Some xs @ None # ys"
        then obtain xs ys where "items = map Some xs @ None # ys" by blast
        then have "a # items = map Some (x # xs) @ None # ys" using Some by simp
        then have "\<exists>zs ys. a # items = map Some zs @ None # ys" by (intro exI[where x = "x # xs"] exI[where x = ys])
        then show ?thesis by (rule disjI2)
      qed
    qed
  qed
  then show ?thesis using assms by blast
qed

text \<open>One item: refused by the bulk handler itself, refused by the single create, or
  created.\<close>

lemma bulkObject_cases [consumes 0, case_names Refused Failed Created]:
  assumes R: "\<And>r msg. r_accountId r = i_accountId d \<Longrightarrow> r_amount r = i_amount d \<Longrightarrow>
             r_error r = Some msg \<Longrightarrow>
             bulkObject c now d st = pushFailed st r msg \<Longrightarrow> P"
    and F: "\<And>r account rej s'. r_accountId r = i_accountId d \<Longrightarrow> r_amount r = i_amount d \<Longrightarrow>
             r_error r = Some (rej_message rej) \<Longrightarrow>
             accounts (bs_store st) (i_accountId d) = Some account \<Longrightarrow>
             createDeposit (bs_store st) c
               \<lparr>b_accountId = i_accountId d, b_userId = acc_userId account,
                b_amount = i_amount d, b_date = None\<rparr> now = (Inl rej, s') \<Longrightarrow>
             bulkObject c now d st = pushFailed (st\<lparr>bs_store := s'\<rparr>) r (rej_message rej) \<Longrightarrow> P"
    and S: "\<And>r account dep s'. r_accountId r = i_accountId d \<Longrightarrow> r_amount r = i_amount d \<Longrightarrow>
             r_error r = None \<Longrightarrow>
             accounts (bs_store st) (i_accountId d) = Some account \<Longrightarrow>
             createDeposit (bs_store st) c
               \<lparr>b_accountId = i_accountId d, b_userId = acc_userId account,
                b_amount = i_amount d, b_date = None\<rparr> now = (Inr dep, s') \<Longrightarrow>
             bulkObject c now d st = st\<lparr>bs_success := bs_success st @ [r], bs_store := s'\<rparr> \<Longrightarrow> P"
  shows P
proof (cases "i_collectedBy d \<noteq> c_id c")
  case True
  then show ?thesis
    by (intro R[where msg = "''COLLECTED_BY_MISMATCH''"]) (simp_all add: bulkObject_def Let_def)
next
  case cb: False
  show ?thesis
  proof (cases "accounts (bs_store st) (i_accountId d)")
    case None
    then show ?thesis using cb
      by (intro R[where msg = "''ACCOUNT_NOT_FOUND''"]) (simp_all add: bulkObject_def Let_def)
  next
    case acc: (Some account)
    show ?thesis
    proof (cases "users (bs_store st) (acc_userId account)")
      case None
      then show ?thesis using cb acc
        by (intro R[where msg = "''Cannot read properties of null (reading '' @ [CHR 0x27] @ ''_id'' @
                                [CHR 0x27] @ '')''"]) (simp_all add: bulkObject_def Let_def)
    next
      case usr: (Some client)
      show ?thesis
      proof (cases "alreadyDeposited (bs_store st) (i_accountId d) account now \<noteq> None")
        case True
        then show ?thesis using cb acc usr
          by (intro R[where msg = "duplicateMessage (acc_paymentMode account)"])
            (simp_all add: bulkObject_def Let_def)
      next
        case dup: False
        obtain res s' where cd: "createDeposit (bs_store st) c
               \<lparr>b_accountId = i_accountId d, b_userId = acc_userId account,
                b_amount = i_amount d, b_date = None\<rparr> now = (res, s')"
          by (cases "createDeposit (bs_store st) c
               \<lparr>b_accountId = i_accountId d, b_userId = acc_userId account,
                b_amount = i_amount d, b_date = None\<rparr> now")
        show ?thesis
        proof (cases res)
          case (Inl rej)
          then show ?thesis using cb acc usr dup cd
            by (intro F[where rej = rej and s' = s' and account = account])
              (simp_all add: bulkObject_def Let_def)
        next
          case (Inr dep)
          then show ?thesis using cb acc usr dup cd
            by (intro S[where dep = dep and s' = s' and account = account])
              (simp_all add: bulkObject_def Let_def)
        qed
      qed
    qed
  qed
qed


lemma bulkObject_ignores_date: "bulkObject c now (d\<lparr>i_date := x\<rparr>) st = bulkObject c now d st"
  by (simp add: bulkObject_def cong: option.case_cong if_cong)

lemma bulkItem_ignores_date:
  "bulkItem c now (map_option (\<lambda>i. i\<lparr>i_date := f i\<rparr>) d) st = bulkItem c now d st"
  by (cases d) (simp_all add: bulkItem_def bulkObject_ignores_date)

lemma bulkChunk_ignores_date:
  "bulkChunk c now (map (map_option (\<lambda>i. i\<lparr>i_date := f i\<rparr>)) items) st = bulkChunk c now items st"
  by (induction items arbitrary: st) (simp_all add: bulkItem_ignores_date cong: sum.case_cong)


text \<open>The deposits a bulk item adds: none, or one dated \<open>now\<close> together with a success
  entry.\<close>

lemma pushFailed_simps [simp]:
  "bs_store (pushFailed st r msg) = bs_store st"
  "bs_success (pushFailed st r msg) = bs_success st"
  "bs_failed (pushFailed st r msg) = bs_failed st @ [r]"
  by (simp_all add: pushFailed_def)

lemma bulkObject_deposits:
  "\<exists>new. deposits (bs_store (bulkObject c now d st)) = deposits (bs_store st) @ new \<and>
         (\<forall>x \<in> set new. dep_date x = now) \<and>
         length (bs_success (bulkObject c now d st)) = length (bs_success st) + length new"
proof (cases rule: bulkObject_cases[of d c now st])
  case (Refused r msg)
  then show ?thesis by simp
next
  case (Failed r account rej s')
  then show ?thesis using createDeposit_failure[OF Failed(5)] by simp
next
  case (Created r account dep s')
  then show ?thesis using createDeposit_success[OF Created(5)] by simp
qed

lemma fold_bulkObject_deposits:
  "\<exists>new. deposits (bs_store (fold (bulkObject c now) items st)) = deposits (bs_store st) @ new \<and>
         (\<forall>x \<in> set new. dep_date x = now) \<and>
         length (bs_success (fold (bulkObject c now) items st)) = length (bs_success st) + length new"
proof (induction items arbitrary: st)
  case Nil
  then show ?case by simp
next
  case (Cons d items)
  obtain n1 where n1: "deposits (bs_store (bulkObject c now d st)) = deposits (bs_store st) @ n1"
    "\<forall>x \<in> set n1. dep_date x = now"
    "length (bs_success (bulkObject c now d st)) = length (bs_success st) + length n1"
    using bulkObject_deposits[of c now d st] by blast
  obtain n2 where n2: "deposits (bs_store (fold (bulkObject c now) items (bulkObject c now d st))) =
      deposits (bs_store (bulkObject c now d st)) @ n2"
    "\<forall>x \<in> set n2. dep_date x = now"
    "length (bs_success (fold (bulkObject c now) items (bulkObject c now d st))) =
       length (bs_success (bulkObject c now d st)) + length n2"
    using Cons[of "bulkObject c now d st"] by blast
  show ?case
    by (rule exI[where x = "n1 @ n2"]) (use n1 n2 in auto)
qed



lemma bulkCreateDeposits_report:
  assumes "items \<noteq> []" and "c_role c = Agent"
  shows "bulkCreateDeposits s c (Some (map Some items)) now =
     bulkReport (map Some items) (fold (bulkObject c now) items
        \<lparr>bs_success = [], bs_failed = [], bs_summary = Map.empty, bs_store = s\<rparr>)"
  using assms by (simp add: bulkCreateDeposits_def bulkLoop_chunk bulkChunk_objects)

lemma bulkCreateDeposits_null:
  assumes "c_role c = Agent"
  shows "bulkCreateDeposits s c (Some (map Some xs @ None # ys)) now =
     (Inl (Uncaught nullItemError),
      bs_store (fold (bulkObject c now) xs
        \<lparr>bs_success = [], bs_failed = [], bs_summary = Map.empty, bs_store = s\<rparr>))"
  using assms by (simp add: bulkCreateDeposits_def bulkLoop_chunk bulkChunk_null)

lemma bulkCreateDeposits_Inr:
  assumes "bulkCreateDeposits s c (Some items) now = (Inr rep, s')"
  shows "items \<noteq> [] \<and> c_role c = Agent \<and> (\<exists>xs. items = map Some xs)"
proof -
  have a: "items \<noteq> []" "c_role c = Agent"
    using assms by (auto simp: bulkCreateDeposits_def split: if_splits)
  show ?thesis
  proof (cases items rule: items_cases)
    case (Objects xs)
    then show ?thesis using a by blast
  next
    case (Null xs ys)
    then show ?thesis using assms bulkCreateDeposits_null[OF a(2), of s xs ys now] by simp
  qed
qed

lemma bulkCreateDeposits_deposits:
  assumes b: "bulkCreateDeposits s c (Some items) now = (Inr rep, s'')"
  shows "\<exists>new. deposits s'' = deposits s @ new \<and> length new = rep_successCount rep \<and>
             (\<forall>y \<in> set new. dep_date y = now)"
proof -
  obtain xs where xs: "items = map Some xs" and run: "xs \<noteq> []" "c_role c = Agent"
    using bulkCreateDeposits_Inr[OF b] by auto
  define st0 where "st0 = \<lparr>bs_success = [], bs_failed = [], bs_summary = Map.empty, bs_store = s\<rparr>"
  define st where "st = fold (bulkObject c now) xs st0"
  from b have "bulkReport (map Some xs) st = (Inr rep, s'')"
    unfolding st_def st0_def xs by (simp only: bulkCreateDeposits_report[OF run])
  then have rep: "rep_successCount rep = length (bs_success st)" and s'': "s'' = bs_store st"
    by (auto simp: bulkReport_def)
  have z: "bs_store st0 = s" "bs_success st0 = []"
    by (simp_all add: st0_def)
  obtain new where n: "deposits (bs_store st) = deposits (bs_store st0) @ new"
    "\<forall>x \<in> set new. dep_date x = now"
    "length (bs_success st) = length (bs_success st0) + length new"
    unfolding st_def using fold_bulkObject_deposits[of c now xs st0] by blast
  show ?thesis
  proof (intro exI[where x = new] conjI)
    show "deposits s'' = deposits s @ new" using n(1) z s'' by simp
    show "length new = rep_successCount rep" using n(3) z rep by simp
    show "\<forall>y \<in> set new. dep_date y = now" by (rule n(2))
  qed
qed

text \<open>Whatever the handler answers, the deposits it has stored are dated \<open>now\<close>: also
  those stored before a \<^verbatim>\<open>null\<close> item ended the loop.\<close>

lemma bulkCreateDeposits_stored:
  "\<exists>new. deposits (snd (bulkCreateDeposits s c body now)) = deposits s @ new \<and>
         (\<forall>y \<in> set new. dep_date y = now)"
proof (cases "\<exists>items. body = Some items \<and> items \<noteq> [] \<and> c_role c = Agent")
  case False
  then have "snd (bulkCreateDeposits s c body now) = s"
    by (auto simp: bulkCreateDeposits_def split: option.splits)
  then show ?thesis by (intro exI[where x = "[]"]) simp
next
  case True
  then obtain items where b: "body = Some items" "items \<noteq> []" "c_role c = Agent"
    by blast
  define st0 where "st0 = \<lparr>bs_success = [], bs_failed = [], bs_summary = Map.empty, bs_store = s\<rparr>"
  have z: "bs_store st0 = s"
    by (simp add: st0_def)
  show ?thesis
  proof (cases items rule: items_cases)
    case (Objects xs)
    then have ne: "xs \<noteq> []" using b(2) by simp
    have "snd (bulkCreateDeposits s c body now) = bs_store (fold (bulkObject c now) xs st0)"
      unfolding b(1) Objects st0_def
      by (simp only: bulkCreateDeposits_report[OF ne b(3)] bulkReport_def snd_conv)
    then show ?thesis
      using fold_bulkObject_deposits[of c now xs st0] z by auto
  next
    case (Null xs ys)
    have "snd (bulkCreateDeposits s c body now) = bs_store (fold (bulkObject c now) xs st0)"
      unfolding b(1) Null st0_def
      by (simp only: bulkCreateDeposits_null[OF b(3)] snd_conv)
    then show ?thesis
      using fold_bulkObject_deposits[of c now xs st0] z by auto
  qed
qed

lemma bulkCreateDeposits_ignores_date:
  "bulkCreateDeposits s c (Some (map (map_option (\<lambda>i. i\<lparr>i_date := f i\<rparr>)) items)) now =
     bulkCreateDeposits s c (Some items) now"
  by (simp add: bulkCreateDeposits_def bulkLoop_chunk bulkChunk_ignores_date bulkReport_def
      cong: sum.case_cong)


text \<open>
  Claim C9. The deposit a successful create stores is dated with the server's current
  time, and a \<^verbatim>\<open>date\<close> in the request body has no influence on the outcome; the same
  holds for every deposit a bulk create stores, whether it answers a report or not,
  and for a \<^verbatim>\<open>date\<close> in a bulk item.
\<close>

theorem create_dates_deposit_with_server_time:
  "(createDeposit s c body now = (Inr d, s') \<longrightarrow>
      dep_date d = now \<and> deposits s' = deposits s @ [d]) \<and>
   createDeposit s c (body\<lparr>b_date := x\<rparr>) now = createDeposit s c body now \<and>
   (bulkCreateDeposits s c (Some items) now = (Inr rep, s'') \<longrightarrow>
      (\<exists>new. deposits s'' = deposits s @ new \<and> length new = rep_successCount rep \<and>
             (\<forall>y \<in> set new. dep_date y = now))) \<and>
   (\<exists>new. deposits (snd (bulkCreateDeposits s c (Some items) now)) = deposits s @ new \<and>
          (\<forall>y \<in> set new. dep_date y = now)) \<and>
   bulkCreateDeposits s c (Some (map (map_option (\<lambda>i. i\<lparr>i_date := f i\<rparr>)) items)) now =
     bulkCreateDeposits s c (Some items) now"
proof (intro conjI impI)
  assume a: "createDeposit s c body now = (Inr d, s')"
  show "dep_date d = now"
    using createDeposit_success[OF a] by simp
  show "deposits s' = deposits s @ [d]"
    using createDeposit_success[OF a] by simp
next
  show "createDeposit s c (body\<lparr>b_date := x\<rparr>) now = createDeposit s c body now"
    by (rule createDeposit_ignores_date)
next
  assume b: "bulkCreateDeposits s c (Some items) now = (Inr rep, s'')"
  show "\<exists>new. deposits s'' = deposits s @ new \<and> length new = rep_successCount rep \<and>
             (\<forall>y \<in> set new. dep_date y = now)"
    by (rule bulkCreateDeposits_deposits[OF b])
next
  show "\<exists>new. deposits (snd (bulkCreateDeposits s c (Some items) now)) = deposits s @ new \<and>
          (\<forall>y \<in> set new. dep_date y = now)"
    by (rule bulkCreateDeposits_stored)
next
  show "bulkCreateDeposits s c (Some (map (map_option (\<lambda>i. i\<lparr>i_date := f i\<rparr>)) items)) now =
     bulkCreateDeposits s c (Some items) now"
    by (rule bulkCreateDeposits_ignores_date)
qed


lemmas create_eval = createDeposit_def createPolicy_def createModeChecks_def createYearly_def
  createMonthly_def createDaily_def createCommit_def depositsOf_def inMonthOf_iff reject_def Let_def
  date_le_def date_lt_def

theorem create_dates_deposit_with_server_time_witness:
  "fst (createDeposit exStore exAgent
     \<lparr>b_accountId = 2, b_userId = 11, b_amount = Some 100, b_date = Some exPast\<rparr> exNow) =
     Inr (exDeposit 6 exNow 2 11 ''DD'' 100) \<and>
   dep_date (exDeposit 6 exNow 2 11 ''DD'' 100) = exNow \<and>
   deposits (snd (createDeposit exStore exAgent
     \<lparr>b_accountId = 2, b_userId = 11, b_amount = Some 100, b_date = Some exPast\<rparr> exNow)) =
     deposits exStore @ [exDeposit 6 exNow 2 11 ''DD'' 100] \<and>
   map_sum id rep_successCount (fst (bulkCreateDeposits exStore exAgent
     (Some [Some \<lparr>i_accountId = 2, i_amount = Some 100, i_collectedBy = 7, i_date = Some exPast\<rparr>]) exNow)) =
     Inr 1 \<and>
   (\<exists>new. deposits (snd (bulkCreateDeposits exStore exAgent
       (Some [Some \<lparr>i_accountId = 2, i_amount = Some 100, i_collectedBy = 7, i_date = Some exPast\<rparr>]) exNow)) =
       deposits exStore @ new \<and> length new = 1 \<and> (\<forall>y \<in> set new. dep_date y = exNow))"
proof -
  let ?body = "\<lparr>b_accountId = 2, b_userId = 11, b_amount = Some 100, b_date = Some exPast\<rparr>"
  let ?items = "[Some \<lparr>i_accountId = 2, i_amount = Some 100, i_collectedBy = 7, i_date = Some exPast\<rparr>]"
  let ?d = "exDeposit 6 exNow 2 11 ''DD'' 100"
  obtain rep where rep: "fst (bulkCreateDeposits exStore exAgent (Some ?items) exNow) = Inr rep"
    "rep_successCount rep = 1"
    by (simp add: bulkCreateDeposits_def bulkLoop_chunk bulkReport_def bulkItem_def bulkObject_def
        alreadyDeposited_def getFullYear_def getMonth_def getDate_def create_eval ex_defs)
  have c: "createDeposit exStore exAgent ?body exNow =
      (Inr ?d, snd (createDeposit exStore exAgent ?body exNow))"
    by (rule prod_eqI) (simp_all add: create_eval ex_defs)
  have b: "bulkCreateDeposits exStore exAgent (Some ?items) exNow =
      (Inr rep, snd (bulkCreateDeposits exStore exAgent (Some ?items) exNow))"
    by (rule prod_eqI) (simp_all add: rep)
  have fc: "fst (createDeposit exStore exAgent ?body exNow) = Inr ?d"
    by (simp add: create_eval ex_defs)
  have fb: "map_sum id rep_successCount (fst (bulkCreateDeposits exStore exAgent (Some ?items) exNow)) = Inr 1"
    by (simp add: rep)
  show ?thesis
    using create_dates_deposit_with_server_time
      [of exStore exAgent ?body exNow ?d "snd (createDeposit exStore exAgent ?body exNow)"
          None ?items rep "snd (bulkCreateDeposits exStore exAgent (Some ?items) exNow)" "\<lambda>i. None"]
      c b rep(2) fc fb
    by (simp del: One_nat_def)
qed

section \<open>Sums over a store whose ids are unique\<close>

lemma findDepositById_Some:
  "findDepositById s i = Some x \<Longrightarrow> x \<in> set (deposits s) \<and> dep_id x = i"
  by (auto simp: findDepositById_def find_Some_iff)

lemma filter_other_ids:
  "dep_id x \<notin> dep_id ` set ds \<Longrightarrow> filter (\<lambda>d. P d \<and> dep_id d \<noteq> dep_id x) ds = filter P ds"
  by (induction ds) auto

lemma sum_split_by_id:
  fixes f :: "deposit \<Rightarrow> 'a::comm_monoid_add"
  assumes "distinct (map dep_id ds)" and "x \<in> set ds"
  shows "sum_list (map f (filter P ds)) =
         sum_list (map f (filter (\<lambda>d. P d \<and> dep_id d \<noteq> dep_id x) ds)) + (if P x then f x else 0)"
  using assms
proof (induction ds)
  case Nil
  then show ?case by simp
next
  case (Cons a ds)
  show ?case
  proof (cases "x = a")
    case True
    then have "dep_id x \<notin> dep_id ` set ds" using Cons.prems by auto
    then have "filter (\<lambda>d. P d \<and> dep_id d \<noteq> dep_id x) ds = filter P ds"
      by (rule filter_other_ids)
    then show ?thesis using True by (simp add: add.commute)
  next
    case False
    then have x: "x \<in> set ds" and ne: "dep_id a \<noteq> dep_id x" using Cons.prems by auto
    show ?thesis using Cons.IH[OF _ x] Cons.prems(1) ne by (simp add: add.assoc)
  qed
qed

lemma filter_replace_other:
  "filter (\<lambda>d. P d \<and> dep_id d \<noteq> i) (map (\<lambda>d. if dep_id d = i then y else d) ds) =
   filter (\<lambda>d. P d \<and> dep_id d \<noteq> i) ds" if "dep_id y = i"
  using that by (induction ds) auto

lemma distinct_replace:
  "dep_id y = i \<Longrightarrow> map dep_id (map (\<lambda>d. if dep_id d = i then y else d) ds) = map dep_id ds"
  by (induction ds) auto

lemma sum_after_replace:
  fixes f :: "deposit \<Rightarrow> 'a::comm_monoid_add"
  assumes "distinct (map dep_id ds)" and "x \<in> set ds" and "dep_id y = dep_id x"
  shows "sum_list (map f (filter P (map (\<lambda>d. if dep_id d = dep_id x then y else d) ds))) =
         sum_list (map f (filter (\<lambda>d. P d \<and> dep_id d \<noteq> dep_id x) ds)) + (if P y then f y else 0)"
proof -
  let ?ds' = "map (\<lambda>d. if dep_id d = dep_id x then y else d) ds"
  have d: "distinct (map dep_id ?ds')"
    using assms(1,3) by (simp only: distinct_replace)
  have y: "y \<in> set ?ds'"
    using assms(2) by (auto simp: image_iff intro!: bexI[where x = x])
  have "sum_list (map f (filter P ?ds')) =
        sum_list (map f (filter (\<lambda>d. P d \<and> dep_id d \<noteq> dep_id y) ?ds')) + (if P y then f y else 0)"
    by (rule sum_split_by_id[OF d y])
  then show ?thesis
    using filter_replace_other[OF assms(3), of P ds] assms(3) by simp
qed

lemma filter_after_delete:
  "filter P (filter (\<lambda>d. dep_id d \<noteq> i) ds) = filter (\<lambda>d. P d \<and> dep_id d \<noteq> i) ds"
  by (induction ds) auto

lemma length_as_sum: "int (length xs) = sum_list (map (\<lambda>_. 1) xs)"
  by (induction xs) auto

lemma sum_amounts_nonneg:
  "\<forall>d \<in> set ds. 0 < dep_amount d \<Longrightarrow> 0 \<le> sum_list (map dep_amount (filter P ds))"
  by (induction ds) auto


section \<open>What the mode rules and the reconcilers leave alone\<close>

lemma createModeChecks_frame:
  assumes "createModeChecks s aid account t amount now = Inr account'"
  shows "acc_balance account' = acc_balance account \<and>
         acc_totalPayableAmount account' = acc_totalPayableAmount account \<and>
         acc_paymentMode account' = acc_paymentMode account \<and>
         acc_monthlyTarget account' = acc_monthlyTarget account \<and>
         acc_schemeType account' = acc_schemeType account"
  using assms
  by (auto simp: createModeChecks_def createYearly_def createMonthly_def createDaily_def Let_def
      split: sum.splits if_splits option.splits)

lemma createCommit_account:
  "accounts (snd (createCommit s c body account t amount now)) =
   (accounts s)(b_accountId body \<mapsto>
     (let a2 = (if acc_balance account + amount > 0 \<and> acc_status account = Inactive
                then account\<lparr>acc_balance := acc_balance account + amount, acc_status := Active\<rparr>
                else account\<lparr>acc_balance := acc_balance account + amount\<rparr>) in
      if collectedOf s (b_accountId body) + amount \<ge> t
      then (if acc_paymentMode account = Yearly
            then a2\<lparr>acc_status := OnTrack, acc_isFullyPaid := True\<rparr>
            else a2\<lparr>acc_status := OnTrack\<rparr>)
      else a2))"
  by (simp add: createCommit_def Let_def depositsOf_def collectedOf_def)

lemma createCommit_account_fields:
  assumes "accounts (snd (createCommit s c body account t amount now)) (b_accountId body) = Some a"
  shows "acc_balance a = acc_balance account + amount \<and>
         acc_totalPayableAmount a = acc_totalPayableAmount account \<and>
         acc_paymentMode a = acc_paymentMode account"
  using assms by (auto simp: createCommit_account Let_def split: if_splits)

lemma updateReconcile_fields:
  "acc_balance (updateReconcile s1 aid account t now) = collectedOf s1 aid \<and>
   acc_totalPayableAmount (updateReconcile s1 aid account t now) = acc_totalPayableAmount account \<and>
   acc_paymentMode (updateReconcile s1 aid account t now) = acc_paymentMode account"
  by (simp add: updateReconcile_def Let_def collectedOf_def)

lemma deleteReconcile_fields:
  "acc_balance (deleteReconcile s aid account deposit) =
     max 0 (sum_list (map dep_amount
       (filter (\<lambda>d. dep_accountId d = aid \<and> dep_id d \<noteq> dep_id deposit) (deposits s)))) \<and>
   acc_totalPayableAmount (deleteReconcile s aid account deposit) = acc_totalPayableAmount account \<and>
   acc_paymentMode (deleteReconcile s aid account deposit) = acc_paymentMode account"
  by (simp add: deleteReconcile_def Let_def split: payment_mode.splits)

lemma updateCommit_result:
  assumes "u_date body \<noteq> Some Unparseable"
  shows "\<exists>d3. fst (updateCommit s c body deposit account t now) = Inr d3 \<and>
     dep_id d3 = dep_id deposit \<and> dep_accountId d3 = dep_accountId deposit \<and>
     dep_amount d3 = proposedAmount body deposit \<and>
     effectiveDate body deposit = Some (dep_date d3) \<and>
     dep_schemeType d3 = acc_schemeType account \<and>
     dep_userId d3 = dep_userId deposit \<and> dep_collectedBy d3 = dep_collectedBy deposit \<and>
     deposits (snd (updateCommit s c body deposit account t now)) =
       map (\<lambda>d. if dep_id d = dep_id deposit then d3 else d) (deposits s) \<and>
     accounts (snd (updateCommit s c body deposit account t now)) =
       (accounts s)(dep_accountId deposit \<mapsto>
          updateReconcile (s\<lparr>deposits := map (\<lambda>d. if dep_id d = dep_id deposit then d3 else d) (deposits s)\<rparr>)
            (dep_accountId deposit) account t now) \<and>
     nextId (snd (updateCommit s c body deposit account t now)) = nextId s \<and>
     auditLog (snd (updateCommit s c body deposit account t now)) = auditLog s @
       [\<lparr>ev_action = UPDATE_DEPOSIT, ev_entityType = ''Deposit'', ev_entityId = Some (dep_id deposit),
         ev_reason = None, ev_performedBy = c_id c\<rparr>]"
proof (cases "u_date body")
  case None
  then show ?thesis
    by (cases "u_amount body")
      (simp_all add: updateCommit_def Let_def proposedAmount_def effectiveDate_def)
next
  case (Some di)
  then obtain p where "u_date body = Some (Parsed p)"
    using assms by (cases di) auto
  then show ?thesis
    by (cases "u_amount body")
      (simp_all add: updateCommit_def Let_def proposedAmount_def effectiveDate_def)
qed

lemma deleteCommit_result:
  "deposits (snd (deleteCommit s c deposit account)) = filter (\<lambda>d. dep_id d \<noteq> dep_id deposit) (deposits s) \<and>
   nextId (snd (deleteCommit s c deposit account)) = nextId s \<and>
   (\<exists>account'. accounts (snd (deleteCommit s c deposit account)) =
       (accounts s)(dep_accountId deposit \<mapsto> account') \<and>
     acc_balance account' = max 0 (sum_list (map dep_amount
       (filter (\<lambda>d. dep_accountId d = dep_accountId deposit \<and> dep_id d \<noteq> dep_id deposit) (deposits s)))) \<and>
     acc_totalPayableAmount account' = acc_totalPayableAmount account \<and>
     acc_paymentMode account' = acc_paymentMode account \<and>
     fst (deleteCommit s c deposit account) = Inr (acc_balance account', acc_status account')) \<and>
   auditLog (snd (deleteCommit s c deposit account)) = auditLog s @
     [\<lparr>ev_action = DELETE_DEPOSIT_ATTEMPT, ev_entityType = ''Deposit'', ev_entityId = Some (dep_id deposit),
       ev_reason = Some DELETE_REQUEST, ev_performedBy = c_id c\<rparr>,
      \<lparr>ev_action = DELETE_DEPOSIT, ev_entityType = ''Deposit'', ev_entityId = Some (dep_id deposit),
       ev_reason = None, ev_performedBy = c_id c\<rparr>]"
proof -
  define a0 where "a0 = (if acc_paymentMode account = Yearly \<and> acc_isFullyPaid account \<and>
       totalOrZero (aggregateTotal (depositsOf s (dep_accountId deposit))) - dep_amount deposit
         < payableOrYearlyOrZero account
     then account\<lparr>acc_isFullyPaid := False\<rparr> else account)"
  define account' where "account' = deleteReconcile s (dep_accountId deposit) a0 deposit"
  have a0: "acc_totalPayableAmount a0 = acc_totalPayableAmount account"
    "acc_paymentMode a0 = acc_paymentMode account"
    by (simp_all add: a0_def)
  have f: "acc_balance account' = max 0 (sum_list (map dep_amount
       (filter (\<lambda>d. dep_accountId d = dep_accountId deposit \<and> dep_id d \<noteq> dep_id deposit) (deposits s))))"
    "acc_totalPayableAmount account' = acc_totalPayableAmount account"
    "acc_paymentMode account' = acc_paymentMode account"
    using deleteReconcile_fields[of s "dep_accountId deposit" a0 deposit] a0
    by (simp_all add: account'_def)
  have e: "deleteCommit s c deposit account =
     (Inr (acc_balance account', acc_status account'),
      s\<lparr>auditLog := auditLog s @
     [\<lparr>ev_action = DELETE_DEPOSIT_ATTEMPT, ev_entityType = ''Deposit'', ev_entityId = Some (dep_id deposit),
       ev_reason = Some DELETE_REQUEST, ev_performedBy = c_id c\<rparr>,
      \<lparr>ev_action = DELETE_DEPOSIT, ev_entityType = ''Deposit'', ev_entityId = Some (dep_id deposit),
       ev_reason = None, ev_performedBy = c_id c\<rparr>],
       deposits := filter (\<lambda>d. dep_id d \<noteq> dep_id deposit) (deposits s),
       accounts := (accounts s)(dep_accountId deposit \<mapsto> account')\<rparr>)"
    unfolding deleteCommit_def Let_def a0_def[symmetric] account'_def[symmetric] by simp
  show ?thesis
    unfolding e using f by (intro conjI exI[where x = account']) simp_all
qed

section \<open>The ledger invariant\<close>

lemma ledgerOk_empty:
  "deposits s = [] \<Longrightarrow> (\<And>aid account. accounts s aid = Some account \<Longrightarrow>
      acc_balance account = 0 \<and> (\<forall>t. acc_totalPayableAmount account = Some t \<longrightarrow> 0 \<le> t)) \<Longrightarrow>
   ledgerOk s"
  by (simp add: ledgerOk_def idsOk_def amountsPositive_def balancesOk_def collectedOf_def depositsOf_def)


lemma ledgerOk_balance:
  assumes "ledgerOk s" and "accounts s aid = Some account"
  shows "acc_balance account = collectedOf s aid"
    and "acc_totalPayableAmount account = Some t \<Longrightarrow> collectedOf s aid \<le> t"
proof -
  have b: "acc_balance account = collectedOf s aid \<and>
        (\<forall>t. acc_totalPayableAmount account = Some t \<longrightarrow> acc_balance account \<le> t)"
    using assms unfolding ledgerOk_def balancesOk_def by blast
  show "acc_balance account = collectedOf s aid" using b by simp
  show "collectedOf s aid \<le> t" if "acc_totalPayableAmount account = Some t"
    using b that by auto
qed

lemma ledgerOk_audit:
  assumes "ledgerOk s" and "deposits s' = deposits s" and "nextId s' = nextId s"
    and "\<And>aid account'. accounts s' aid = Some account' \<Longrightarrow>
           \<exists>account. accounts s aid = Some account \<and> acc_balance account' = acc_balance account \<and>
             acc_totalPayableAmount account' = acc_totalPayableAmount account"
  shows "ledgerOk s'"
proof -
  have "balancesOk s'"
    unfolding balancesOk_def
  proof (intro allI impI)
    fix aid account'
    assume "accounts s' aid = Some account'"
    then obtain account where a: "accounts s aid = Some account"
      "acc_balance account' = acc_balance account"
      "acc_totalPayableAmount account' = acc_totalPayableAmount account"
      using assms(4) by blast
    have "collectedOf s' aid = collectedOf s aid"
      by (simp add: collectedOf_def depositsOf_def assms(2))
    then show "acc_balance account' = collectedOf s' aid \<and>
        (\<forall>t. acc_totalPayableAmount account' = Some t \<longrightarrow> acc_balance account' \<le> t)"
      using ledgerOk_balance[OF assms(1) a(1)] a(2,3) by simp
  qed
  then show ?thesis
    using assms(1-3) by (simp add: ledgerOk_def idsOk_def amountsPositive_def)
qed

lemma ledgerOk_reject:
  "ledgerOk s \<Longrightarrow> ledgerOk (snd (reject s c act code r msg))"
  by (rule ledgerOk_audit[where s = s]) simp_all

lemma ledgerOk_matured:
  assumes "ledgerOk s" and "accounts s aid = Some account"
  shows "ledgerOk (snd (reject (s\<lparr>accounts := (accounts s)(aid \<mapsto> account\<lparr>acc_status := Matured\<rparr>)\<rparr>)
            c act code r msg))"
  by (rule ledgerOk_audit[where s = s]) (use assms in \<open>auto split: if_splits\<close>)

lemma collectedOf_append:
  "deposits s' = deposits s @ [d] \<Longrightarrow>
   collectedOf s' aid = collectedOf s aid + (if dep_accountId d = aid then dep_amount d else 0)"
  by (simp add: collectedOf_def depositsOf_def)

lemma ledgerOk_createCommit:
  assumes ok: "ledgerOk s"
    and acc: "accounts s (b_accountId body) = Some account"
    and pos: "0 < amount"
    and t: "acc_totalPayableAmount account = Some t"
    and within: "sum_list (map dep_amount (depositsOf s (b_accountId body))) + amount \<le> t"
    and mode: "createModeChecks s (b_accountId body) account t amount now = Inr account'"
  shows "ledgerOk (snd (createCommit s c body account' t amount now))"
proof -
  let ?s' = "snd (createCommit s c body account' t amount now)"
  let ?d = "\<lparr>dep_id = nextId s, dep_date = now, dep_accountId = b_accountId body,
            dep_userId = b_userId body, dep_schemeType = acc_schemeType account',
            dep_amount = amount, dep_collectedBy = c_id c\<rparr>"
  have r: "deposits ?s' = deposits s @ [?d]" "nextId ?s' = Suc (nextId s)"
    using createCommit_result[of s c body account' t amount now "fst (createCommit s c body account' t amount now)" ?s']
    by simp_all
  have fr: "acc_balance account' = acc_balance account"
    "acc_totalPayableAmount account' = Some t"
    using createModeChecks_frame[OF mode] t by simp_all
  have ids: "idsOk ?s'"
    using ok r by (auto simp: ledgerOk_def idsOk_def less_Suc_eq)
  have amts: "amountsPositive ?s'"
    using ok r pos by (auto simp: ledgerOk_def amountsPositive_def)
  have bal: "balancesOk ?s'"
    unfolding balancesOk_def
  proof (intro allI impI)
    fix aid a
    assume a: "accounts ?s' aid = Some a"
    show "acc_balance a = collectedOf ?s' aid \<and>
        (\<forall>t. acc_totalPayableAmount a = Some t \<longrightarrow> acc_balance a \<le> t)"
    proof (cases "aid = b_accountId body")
      case True
      have f: "acc_balance a = acc_balance account' + amount"
        "acc_totalPayableAmount a = acc_totalPayableAmount account'"
        using createCommit_account_fields[of s c body account' t amount now a] a True by simp_all
      have b: "acc_balance account = collectedOf s aid"
        using ledgerOk_balance(1)[OF ok acc] True by simp
      have c: "collectedOf ?s' aid = collectedOf s aid + amount"
        using collectedOf_append[OF r(1), of aid] True by simp
      show ?thesis
        using f fr b c within True by (simp add: collectedOf_def)
    next
      case False
      then have "accounts s aid = Some a"
        using a by (simp add: createCommit_account)
      moreover have "collectedOf ?s' aid = collectedOf s aid"
        using collectedOf_append[OF r(1), of aid] False by simp
      ultimately show ?thesis
        using ledgerOk_balance[OF ok, of aid a] by simp
    qed
  qed
  show ?thesis
    using ids amts bal by (simp add: ledgerOk_def)
qed

lemma ledgerOk_createDeposit:
  assumes "ledgerOk s"
  shows "ledgerOk (snd (createDeposit s c body now))"
proof (cases rule: createDeposit_cases[of s c body now])
  case (Rejected code r msg)
  then show ?thesis using assms by (simp add: ledgerOk_reject)
next
  case (Matured account t msg m)
  then show ?thesis using assms by (simp add: ledgerOk_matured)
next
  case (Committed account amount t account')
  then show ?thesis using assms by (simp add: ledgerOk_createCommit)
qed


lemma collectedOf_replace:
  assumes "idsOk s" and "x \<in> set (deposits s)"
    and "dep_id y = dep_id x" and "dep_accountId y = dep_accountId x"
    and "deposits s' = map (\<lambda>d. if dep_id d = dep_id x then y else d) (deposits s)"
  shows "collectedOf s' aid =
         collectedOf s aid + (if dep_accountId x = aid then dep_amount y - dep_amount x else 0)"
proof -
  have d: "distinct (map dep_id (deposits s))"
    using assms(1) by (simp add: idsOk_def)
  have "collectedOf s' aid =
      sum_list (map dep_amount (filter (\<lambda>d. dep_accountId d = aid \<and> dep_id d \<noteq> dep_id x) (deposits s))) +
      (if dep_accountId y = aid then dep_amount y else 0)"
    unfolding collectedOf_def depositsOf_def assms(5)
    by (rule sum_after_replace[OF d assms(2,3)])
  moreover have "collectedOf s aid =
      sum_list (map dep_amount (filter (\<lambda>d. dep_accountId d = aid \<and> dep_id d \<noteq> dep_id x) (deposits s))) +
      (if dep_accountId x = aid then dep_amount x else 0)"
    unfolding collectedOf_def depositsOf_def
    by (rule sum_split_by_id[OF d assms(2)])
  ultimately show ?thesis
    using assms(4) by simp
qed

lemma collectedOf_delete:
  assumes "idsOk s" and "x \<in> set (deposits s)"
    and "deposits s' = filter (\<lambda>d. dep_id d \<noteq> dep_id x) (deposits s)"
  shows "collectedOf s' aid =
         sum_list (map dep_amount
           (filter (\<lambda>d. dep_accountId d = aid \<and> dep_id d \<noteq> dep_id x) (deposits s)))"
    and "collectedOf s' aid =
         collectedOf s aid - (if dep_accountId x = aid then dep_amount x else 0)"
proof -
  have d: "distinct (map dep_id (deposits s))"
    using assms(1) by (simp add: idsOk_def)
  show 1: "collectedOf s' aid =
         sum_list (map dep_amount
           (filter (\<lambda>d. dep_accountId d = aid \<and> dep_id d \<noteq> dep_id x) (deposits s)))"
    by (simp add: collectedOf_def depositsOf_def assms(3) conj_commute cong: filter_cong)
  have "collectedOf s aid =
      sum_list (map dep_amount (filter (\<lambda>d. dep_accountId d = aid \<and> dep_id d \<noteq> dep_id x) (deposits s))) +
      (if dep_accountId x = aid then dep_amount x else 0)"
    unfolding collectedOf_def depositsOf_def
    by (rule sum_split_by_id[OF d assms(2)])
  then show "collectedOf s' aid =
         collectedOf s aid - (if dep_accountId x = aid then dep_amount x else 0)"
    using 1 by simp
qed

lemma idsOk_replace:
  assumes "idsOk s" and "x \<in> set (deposits s)" and "dep_id y = dep_id x"
    and "deposits s' = map (\<lambda>d. if dep_id d = dep_id x then y else d) (deposits s)"
    and "nextId s' = nextId s"
  shows "idsOk s'"
proof -
  have "map dep_id (deposits s') = map dep_id (deposits s)"
    unfolding assms(4) using assms(3) by (rule distinct_replace)
  moreover have "\<forall>d \<in> set (deposits s'). dep_id d < nextId s"
    using assms(1-4) by (auto simp: idsOk_def)
  ultimately show ?thesis
    using assms(1,5) by (simp add: idsOk_def)
qed

lemma ledgerOk_updateCommit:
  assumes ok: "ledgerOk s"
    and dep: "findDepositById s i = Some deposit"
    and acc: "accounts s (dep_accountId deposit) = Some account"
    and amt: "\<And>a. u_amount body = Some a \<Longrightarrow> 0 < a"
    and t: "acc_totalPayableAmount account = Some t"
    and within: "sum_list (map dep_amount (depositsOf s (dep_accountId deposit))) - dep_amount deposit +
             (case u_amount body of Some a \<Rightarrow> a | None \<Rightarrow> dep_amount deposit) \<le> t"
    and date: "u_date body \<noteq> Some Unparseable"
  shows "ledgerOk (snd (updateCommit s c body deposit account t now))"
proof -
  let ?s' = "snd (updateCommit s c body deposit account t now)"
  let ?aid = "dep_accountId deposit"
  obtain d3 where d3: "dep_id d3 = dep_id deposit" "dep_accountId d3 = ?aid"
    "dep_amount d3 = proposedAmount body deposit"
    "deposits ?s' = map (\<lambda>d. if dep_id d = dep_id deposit then d3 else d) (deposits s)"
    "accounts ?s' = (accounts s)(?aid \<mapsto>
          updateReconcile (s\<lparr>deposits := map (\<lambda>d. if dep_id d = dep_id deposit then d3 else d) (deposits s)\<rparr>)
            ?aid account t now)"
    "nextId ?s' = nextId s"
    using updateCommit_result[OF date, of s c deposit account t now] by blast
  have mem: "deposit \<in> set (deposits s)"
    using findDepositById_Some[OF dep] by simp
  have ids: "idsOk s" and pos: "amountsPositive s"
    using ok by (simp_all add: ledgerOk_def)
  have ids': "idsOk ?s'"
    by (rule idsOk_replace[OF ids mem d3(1) d3(4) d3(6)])
  have p: "0 < proposedAmount body deposit"
    using amt pos mem by (auto simp: proposedAmount_def amountsPositive_def split: option.splits)
  have amts': "amountsPositive ?s'"
    using pos p d3(3) by (auto simp: amountsPositive_def d3(4))
  have col: "\<And>aid. collectedOf ?s' aid =
      collectedOf s aid + (if ?aid = aid then dep_amount d3 - dep_amount deposit else 0)"
    by (rule collectedOf_replace[OF ids mem d3(1) d3(2) d3(4)])
  have same: "\<And>aid. collectedOf (s\<lparr>deposits := map (\<lambda>d. if dep_id d = dep_id deposit then d3 else d) (deposits s)\<rparr>) aid
      = collectedOf ?s' aid"
    by (simp add: collectedOf_def depositsOf_def d3(4))
  have bal: "balancesOk ?s'"
    unfolding balancesOk_def
  proof (intro allI impI)
    fix aid a
    assume a: "accounts ?s' aid = Some a"
    show "acc_balance a = collectedOf ?s' aid \<and>
        (\<forall>t. acc_totalPayableAmount a = Some t \<longrightarrow> acc_balance a \<le> t)"
    proof (cases "aid = ?aid")
      case True
      then have a': "a = updateReconcile (s\<lparr>deposits := map (\<lambda>d. if dep_id d = dep_id deposit then d3 else d) (deposits s)\<rparr>)
            ?aid account t now"
        using a by (simp add: d3(5))
      have f: "acc_balance a = collectedOf ?s' aid" "acc_totalPayableAmount a = Some t"
        using updateReconcile_fields[of "s\<lparr>deposits := map (\<lambda>d. if dep_id d = dep_id deposit then d3 else d) (deposits s)\<rparr>"
            ?aid account t now] same[of ?aid] t True
        by (simp_all add: a')
      have "collectedOf ?s' aid \<le> t"
        using col[of aid] True within d3(3)
        by (simp add: collectedOf_def proposedAmount_def)
      then show ?thesis using f by simp
    next
      case False
      then have "accounts s aid = Some a"
        using a by (simp add: d3(5))
      moreover have "collectedOf ?s' aid = collectedOf s aid"
        using col[of aid] False by simp
      ultimately show ?thesis
        using ledgerOk_balance[OF ok, of aid a] by simp
    qed
  qed
  show ?thesis
    using ids' amts' bal by (simp add: ledgerOk_def)
qed

lemma ledgerOk_updateDeposit:
  assumes "ledgerOk s"
  shows "ledgerOk (snd (updateDeposit s c i body now))"
proof (cases rule: updateDeposit_cases[of s c i body now])
  case (Rejected code r msg)
  then show ?thesis using assms by (simp add: ledgerOk_reject)
next
  case (Committed deposit account t)
  then show ?thesis using assms ledgerOk_updateCommit[of s i deposit account body t c now] by simp
qed

lemma ledgerOk_deleteCommit:
  assumes ok: "ledgerOk s"
    and dep: "findDepositById s i = Some deposit"
    and acc: "accounts s (dep_accountId deposit) = Some account"
  shows "ledgerOk (snd (deleteCommit s c deposit account))"
proof -
  let ?s' = "snd (deleteCommit s c deposit account)"
  let ?aid = "dep_accountId deposit"
  obtain account' where r: "deposits ?s' = filter (\<lambda>d. dep_id d \<noteq> dep_id deposit) (deposits s)"
    "nextId ?s' = nextId s"
    "accounts ?s' = (accounts s)(?aid \<mapsto> account')"
    "acc_balance account' = max 0 (sum_list (map dep_amount
       (filter (\<lambda>d. dep_accountId d = ?aid \<and> dep_id d \<noteq> dep_id deposit) (deposits s))))"
    "acc_totalPayableAmount account' = acc_totalPayableAmount account"
    using deleteCommit_result[of s c deposit account] by blast
  have mem: "deposit \<in> set (deposits s)"
    using findDepositById_Some[OF dep] by simp
  have ids: "idsOk s" and pos: "amountsPositive s"
    using ok by (simp_all add: ledgerOk_def)
  have ids': "idsOk ?s'"
    using ids r(1,2) by (auto simp: idsOk_def distinct_map_filter)
  have amts': "amountsPositive ?s'"
    using pos r(1) by (auto simp: amountsPositive_def)
  have col: "\<And>aid. collectedOf ?s' aid =
         sum_list (map dep_amount
           (filter (\<lambda>d. dep_accountId d = aid \<and> dep_id d \<noteq> dep_id deposit) (deposits s)))"
    "\<And>aid. collectedOf ?s' aid =
         collectedOf s aid - (if ?aid = aid then dep_amount deposit else 0)"
    using collectedOf_delete[OF ids mem r(1)] by simp_all
  have nonneg: "\<And>aid. 0 \<le> collectedOf ?s' aid"
    unfolding col(1) using pos by (intro sum_amounts_nonneg) (simp add: amountsPositive_def)
  have dpos: "0 < dep_amount deposit"
    using pos mem by (simp add: amountsPositive_def)
  have bal: "balancesOk ?s'"
    unfolding balancesOk_def
  proof (intro allI impI)
    fix aid a
    assume a: "accounts ?s' aid = Some a"
    show "acc_balance a = collectedOf ?s' aid \<and>
        (\<forall>t. acc_totalPayableAmount a = Some t \<longrightarrow> acc_balance a \<le> t)"
    proof (cases "aid = ?aid")
      case True
      then have a': "a = account'" using a by (simp add: r(3))
      have b: "acc_balance a = collectedOf ?s' aid"
        using r(4) col(1)[of ?aid] nonneg[of ?aid] True by (simp add: a')
      have "collectedOf ?s' aid \<le> t" if "acc_totalPayableAmount a = Some t" for t
        using ledgerOk_balance(2)[OF ok acc, of t] that r(5) col(2)[of aid] True dpos
        by (simp add: a')
      then show ?thesis using b by simp
    next
      case False
      then have "accounts s aid = Some a"
        using a by (simp add: r(3))
      moreover have "collectedOf ?s' aid = collectedOf s aid"
        using col(2)[of aid] False by simp
      ultimately show ?thesis
        using ledgerOk_balance[OF ok, of aid a] by simp
    qed
  qed
  show ?thesis
    using ids' amts' bal by (simp add: ledgerOk_def)
qed

lemma ledgerOk_deleteDeposit:
  assumes "ledgerOk s"
  shows "ledgerOk (snd (deleteDeposit s c i))"
proof (cases rule: deleteDeposit_cases[of s c i])
  case (Rejected code r msg)
  then show ?thesis using assms by (simp add: ledgerOk_reject)
next
  case (Committed deposit account)
  then show ?thesis using assms ledgerOk_deleteCommit[of s i deposit account c] by simp
qed


lemma ledgerOk_perform: "ledgerOk s \<Longrightarrow> ledgerOk (perform r s)"
  by (cases r) (simp_all add: ledgerOk_createDeposit ledgerOk_updateDeposit ledgerOk_deleteDeposit)

lemma ledgerOk_exStore: "ledgerOk exStore"
proof -
  have "idsOk exStore"
    by (simp add: idsOk_def ex_defs)
  moreover have "amountsPositive exStore"
    by (simp add: amountsPositive_def ex_defs)
  moreover have "balancesOk exStore"
    by (auto simp: balancesOk_def collectedOf_def depositsOf_def ex_defs split: if_splits)
  ultimately show ?thesis
    by (simp add: ledgerOk_def)
qed

text \<open>
  Claim C1. Whenever the store satisfies the ledger invariant (unique deposit ids,
  positive amounts, every balance equal to the sum of the account's deposits and
  within the payable total), it satisfies it again after any create, update or delete
  request, accepted or rejected: for every account the stored balance is the sum of
  the amounts of the remaining deposits that reference it, and that balance does not
  exceed the account's payable total. A store without deposits whose balances are 0
  satisfies the invariant, so it holds in every store the three handlers reach from
  there.
\<close>

theorem ledger_invariant_after_every_operation:
  assumes "ledgerOk s"
  shows "ledgerOk (perform r s) \<and>
         (\<forall>aid account. accounts (perform r s) aid = Some account \<longrightarrow>
            acc_balance account = collectedOf (perform r s) aid \<and>
            (\<forall>t. acc_totalPayableAmount account = Some t \<longrightarrow> acc_balance account \<le> t))"
proof -
  have "ledgerOk (perform r s)"
    using assms by (rule ledgerOk_perform)
  then show ?thesis
    unfolding ledgerOk_def balancesOk_def by blast
qed

theorem ledger_invariant_after_every_operation_witness:
  "ledgerOk exStore \<and>
   ledgerOk (perform (Create exAgent
     \<lparr>b_accountId = 2, b_userId = 11, b_amount = Some 100, b_date = None\<rparr> exNow) exStore) \<and>
   map_option acc_balance (accounts (perform (Create exAgent
     \<lparr>b_accountId = 2, b_userId = 11, b_amount = Some 100, b_date = None\<rparr> exNow) exStore) 2) = Some 1000 \<and>
   collectedOf (perform (Create exAgent
     \<lparr>b_accountId = 2, b_userId = 11, b_amount = Some 100, b_date = None\<rparr> exNow) exStore) 2 = 1000"
proof -
  let ?r = "Create exAgent \<lparr>b_accountId = 2, b_userId = 11, b_amount = Some 100, b_date = None\<rparr> exNow"
  have b: "map_option acc_balance (accounts (perform ?r exStore) 2) = Some 1000"
    by (simp add: create_eval ex_defs)
  have c: "collectedOf (perform ?r exStore) 2 = 1000"
    by (simp add: collectedOf_def create_eval ex_defs)
  show ?thesis
    using ledger_invariant_after_every_operation [OF ledgerOk_exStore, of ?r] ledgerOk_exStore b c
    by simp
qed

section \<open>Monthly exclusivity\<close>

lemma idsOk_reject: "idsOk s \<Longrightarrow> idsOk (snd (reject s c act code r msg))"
  by (simp add: idsOk_def)

lemma idsOk_createDeposit:
  assumes "idsOk s"
  shows "idsOk (snd (createDeposit s c body now))"
proof (cases "fst (createDeposit s c body now)")
  case (Inl rej)
  then have "createDeposit s c body now = (Inl rej, snd (createDeposit s c body now))"
    by (simp add: prod_eq_iff)
  from createDeposit_failure[OF this] show ?thesis
    using assms by (simp add: idsOk_def)
next
  case (Inr d)
  then have "createDeposit s c body now = (Inr d, snd (createDeposit s c body now))"
    by (simp add: prod_eq_iff)
  from createDeposit_success[OF this] show ?thesis
    using assms by (auto simp: idsOk_def less_Suc_eq)
qed

lemma idsOk_updateDeposit:
  assumes "idsOk s"
  shows "idsOk (snd (updateDeposit s c i body now))"
proof (cases rule: updateDeposit_cases[of s c i body now])
  case (Rejected code r msg)
  then show ?thesis using assms by (simp add: idsOk_reject)
next
  case (Committed deposit account t)
  obtain d3 where d3: "dep_id d3 = dep_id deposit"
    "deposits (snd (updateCommit s c body deposit account t now)) =
       map (\<lambda>d. if dep_id d = dep_id deposit then d3 else d) (deposits s)"
    "nextId (snd (updateCommit s c body deposit account t now)) = nextId s"
    using updateCommit_result[OF Committed(8), of s c deposit account t now] by blast
  have mem: "deposit \<in> set (deposits s)"
    using findDepositById_Some[OF Committed(2)] by simp
  show ?thesis
    unfolding Committed(9) by (rule idsOk_replace[OF assms mem d3(1) d3(2) d3(3)])
qed

lemma idsOk_deleteDeposit:
  assumes "idsOk s"
  shows "idsOk (snd (deleteDeposit s c i))"
proof (cases rule: deleteDeposit_cases[of s c i])
  case (Rejected code r msg)
  then show ?thesis using assms by (simp add: idsOk_reject)
next
  case (Committed deposit account)
  show ?thesis
    unfolding Committed(5) using assms deleteCommit_result[of s c deposit account]
    by (auto simp: idsOk_def distinct_map_filter)
qed

lemma idsOk_perform: "idsOk s \<Longrightarrow> idsOk (perform r s)"
  by (cases r) (simp_all add: idsOk_createDeposit idsOk_updateDeposit idsOk_deleteDeposit)

text \<open>The number of deposits of an account in a month.\<close>

lemma monthlyExclusive_same_deposits:
  assumes "monthlyExclusive s" and "deposits s' = deposits s"
    and "\<And>aid account'. accounts s' aid = Some account' \<Longrightarrow>
           \<exists>account. accounts s aid = Some account \<and> acc_paymentMode account' = acc_paymentMode account"
  shows "monthlyExclusive s'"
  unfolding monthlyExclusive_def
proof (intro allI impI)
  fix aid account' m
  assume a: "accounts s' aid = Some account' \<and> acc_paymentMode account' = Monthly"
  then obtain account where "accounts s aid = Some account" "acc_paymentMode account = Monthly"
    using assms(3) by fastforce
  then show "length (filter (\<lambda>d. dep_accountId d = aid \<and> d_month (dep_date d) = m) (deposits s')) \<le> 1"
    using assms(1) unfolding monthlyExclusive_def assms(2) by blast
qed

lemma monthlyExclusive_reject:
  "monthlyExclusive s \<Longrightarrow> monthlyExclusive (snd (reject s c act code r msg))"
  by (rule monthlyExclusive_same_deposits[where s = s]) simp_all

lemma monthlyExclusive_matured:
  assumes "monthlyExclusive s" and "accounts s aid = Some account"
  shows "monthlyExclusive (snd (reject (s\<lparr>accounts := (accounts s)(aid \<mapsto> account\<lparr>acc_status := Matured\<rparr>)\<rparr>)
            c act code r msg))"
  by (rule monthlyExclusive_same_deposits[where s = s]) (use assms in \<open>auto split: if_splits\<close>)

lemma createModeChecks_monthly:
  assumes "createModeChecks s aid account t amount now = Inr account'"
    and "acc_paymentMode account = Monthly"
  shows "filter (\<lambda>d. dep_accountId d = aid \<and> d_month (dep_date d) = d_month now) (deposits s) = []"
  using assms
  by (auto simp: createModeChecks_def createYearly_def createMonthly_def createDaily_def Let_def
      inMonthOf_iff find_None_iff filter_empty_conv split: sum.splits if_splits option.splits)

lemma monthlyExclusive_createCommit:
  assumes ex: "monthlyExclusive s"
    and acc: "accounts s (b_accountId body) = Some account"
    and mode: "createModeChecks s (b_accountId body) account t amount now = Inr account'"
  shows "monthlyExclusive (snd (createCommit s c body account' t amount now))"
  unfolding monthlyExclusive_def
proof (intro allI impI)
  let ?s' = "snd (createCommit s c body account' t amount now)"
  let ?d = "\<lparr>dep_id = nextId s, dep_date = now, dep_accountId = b_accountId body,
            dep_userId = b_userId body, dep_schemeType = acc_schemeType account',
            dep_amount = amount, dep_collectedBy = c_id c\<rparr>"
  fix aid a m
  assume a: "accounts ?s' aid = Some a \<and> acc_paymentMode a = Monthly"
  have r: "deposits ?s' = deposits s @ [?d]"
    using createCommit_result[of s c body account' t amount now "fst (createCommit s c body account' t amount now)" ?s']
    by simp
  have fr: "acc_paymentMode account' = acc_paymentMode account"
    using createModeChecks_frame[OF mode] by simp
  show "length (filter (\<lambda>d. dep_accountId d = aid \<and> d_month (dep_date d) = m) (deposits ?s')) \<le> 1"
  proof (cases "aid = b_accountId body")
    case True
    have "acc_paymentMode a = acc_paymentMode account'"
      using createCommit_account_fields[of s c body account' t amount now a] a True by simp
    then have monthly: "acc_paymentMode account = Monthly"
      using a fr by simp
    have before: "length (filter (\<lambda>d. dep_accountId d = aid \<and> d_month (dep_date d) = m) (deposits s)) \<le> 1"
      using ex acc monthly True unfolding monthlyExclusive_def by blast
    have none: "filter (\<lambda>d. dep_accountId d = aid \<and> d_month (dep_date d) = d_month now) (deposits s) = []"
      using createModeChecks_monthly[OF mode monthly] True by simp
    show ?thesis
    proof (cases "m = d_month now")
      case True
      then show ?thesis using none by (simp add: r)
    next
      case False
      then show ?thesis using before by (simp add: r)
    qed
  next
    case False
    then have "accounts s aid = Some a"
      using a by (simp add: createCommit_account)
    then have "length (filter (\<lambda>d. dep_accountId d = aid \<and> d_month (dep_date d) = m) (deposits s)) \<le> 1"
      using ex a unfolding monthlyExclusive_def by blast
    then show ?thesis using False by (simp add: r)
  qed
qed

lemma monthlyExclusive_createDeposit:
  assumes "monthlyExclusive s"
  shows "monthlyExclusive (snd (createDeposit s c body now))"
proof (cases rule: createDeposit_cases[of s c body now])
  case (Rejected code r msg)
  then show ?thesis using assms by (simp add: monthlyExclusive_reject)
next
  case (Matured account t msg m)
  then show ?thesis using assms by (simp add: monthlyExclusive_matured)
next
  case (Committed account amount t account')
  then show ?thesis using assms by (simp add: monthlyExclusive_createCommit)
qed


lemma sum_ones: "sum_list (map (\<lambda>_. 1::nat) xs) = length xs"
  by (induction xs) auto

lemma count_filter_le: "length (filter P (filter Q xs)) \<le> length (filter P xs)"
  by (induction xs) auto

lemma count_after_replace:
  fixes ds :: "deposit list"
  assumes "distinct (map dep_id ds)" and "x \<in> set ds" and "dep_id y = dep_id x"
  shows "length (filter P (map (\<lambda>d. if dep_id d = dep_id x then y else d) ds)) =
         length (filter (\<lambda>d. P d \<and> dep_id d \<noteq> dep_id x) ds) + (if P y then 1 else 0)"
  using sum_after_replace[OF assms, where f = "\<lambda>_. 1::nat" and P = P] by (simp only: sum_ones)

lemma count_split_by_id:
  fixes ds :: "deposit list"
  assumes "distinct (map dep_id ds)" and "x \<in> set ds"
  shows "length (filter P ds) =
         length (filter (\<lambda>d. P d \<and> dep_id d \<noteq> dep_id x) ds) + (if P x then 1 else 0)"
  using sum_split_by_id[OF assms, where f = "\<lambda>_. 1::nat" and P = P] by (simp only: sum_ones)

lemma updateModeChecks_monthly:
  assumes "updateModeChecks s aid account t deposit newAmount (Some date) = None"
    and "acc_paymentMode account = Monthly"
  shows "filter (\<lambda>d. (dep_accountId d = aid \<and> d_month (dep_date d) = d_month date) \<and>
                      dep_id d \<noteq> dep_id deposit) (deposits s) = []"
  using assms
  by (auto simp: updateModeChecks_def Let_def inMonthOfOpt_def inMonthOf_iff filter_empty_conv
      split: if_splits option.splits)

lemma monthlyExclusive_updateCommit:
  assumes ex: "monthlyExclusive s" and ids: "idsOk s"
    and dep: "findDepositById s i = Some deposit"
    and acc: "accounts s (dep_accountId deposit) = Some account"
    and mode: "updateModeChecks s (dep_accountId deposit) account t deposit
             (case u_amount body of Some a \<Rightarrow> a | None \<Rightarrow> dep_amount deposit)
             (effectiveDate body deposit) = None"
    and date: "u_date body \<noteq> Some Unparseable"
  shows "monthlyExclusive (snd (updateCommit s c body deposit account t now))"
  unfolding monthlyExclusive_def
proof (intro allI impI)
  let ?s' = "snd (updateCommit s c body deposit account t now)"
  let ?aid = "dep_accountId deposit"
  fix aid a m
  assume a: "accounts ?s' aid = Some a \<and> acc_paymentMode a = Monthly"
  let ?P = "\<lambda>d. dep_accountId d = aid \<and> d_month (dep_date d) = m"
  obtain d3 where d3: "dep_id d3 = dep_id deposit" "dep_accountId d3 = ?aid"
    "effectiveDate body deposit = Some (dep_date d3)"
    "deposits ?s' = map (\<lambda>d. if dep_id d = dep_id deposit then d3 else d) (deposits s)"
    "accounts ?s' = (accounts s)(?aid \<mapsto>
          updateReconcile (s\<lparr>deposits := map (\<lambda>d. if dep_id d = dep_id deposit then d3 else d) (deposits s)\<rparr>)
            ?aid account t now)"
    using updateCommit_result[OF date, of s c deposit account t now] by blast
  have mem: "deposit \<in> set (deposits s)"
    using findDepositById_Some[OF dep] by simp
  have dist: "distinct (map dep_id (deposits s))"
    using ids by (simp add: idsOk_def)
  define n0 where "n0 = length (filter (\<lambda>d. ?P d \<and> dep_id d \<noteq> dep_id deposit) (deposits s))"
  have after: "length (filter ?P (deposits ?s')) = n0 + (if ?P d3 then 1 else 0)"
    unfolding d3(4) n0_def by (rule count_after_replace[OF dist mem d3(1)])
  have before: "length (filter ?P (deposits s)) = n0 + (if ?P deposit then 1 else 0)"
    unfolding n0_def by (rule count_split_by_id[OF dist mem])
  show "length (filter ?P (deposits ?s')) \<le> 1"
  proof (cases "aid = ?aid")
    case True
    have "acc_paymentMode a = acc_paymentMode account"
      using a True updateReconcile_fields[of "s\<lparr>deposits := map (\<lambda>d. if dep_id d = dep_id deposit then d3 else d) (deposits s)\<rparr>"
          ?aid account t now]
      by (auto simp: d3(5))
    then have monthly: "acc_paymentMode account = Monthly"
      using a by simp
    have le: "length (filter ?P (deposits s)) \<le> 1"
      using ex acc monthly True unfolding monthlyExclusive_def by blast
    show ?thesis
    proof (cases "?P d3")
      case True
      then have "m = d_month (dep_date d3)" by simp
      then have "filter (\<lambda>d. ?P d \<and> dep_id d \<noteq> dep_id deposit) (deposits s) = []"
        using updateModeChecks_monthly[OF mode[unfolded d3(3)] monthly] \<open>aid = ?aid\<close> by simp
      then have "n0 = 0" by (simp add: n0_def)
      then show ?thesis using after True by simp
    next
      case False
      then have "length (filter ?P (deposits ?s')) = n0" using after by simp
      moreover have "n0 \<le> length (filter ?P (deposits s))" using before by simp
      ultimately show ?thesis using le by linarith
    qed
  next
    case False
    then have "accounts s aid = Some a"
      using a by (simp add: d3(5))
    then have le: "length (filter ?P (deposits s)) \<le> 1"
      using ex a unfolding monthlyExclusive_def by blast
    have "\<not> ?P d3" using False d3(2) by simp
    then have "length (filter ?P (deposits ?s')) = n0" using after by simp
    moreover have "n0 \<le> length (filter ?P (deposits s))" using before by simp
    ultimately show ?thesis using le by linarith
  qed
qed

lemma monthlyExclusive_updateDeposit:
  assumes "monthlyExclusive s" and "idsOk s"
  shows "monthlyExclusive (snd (updateDeposit s c i body now))"
proof (cases rule: updateDeposit_cases[of s c i body now])
  case (Rejected code r msg)
  then show ?thesis using assms by (simp add: monthlyExclusive_reject)
next
  case (Committed deposit account t)
  then show ?thesis
    using assms monthlyExclusive_updateCommit[of s i deposit account t body c now] by simp
qed

lemma monthlyExclusive_deleteDeposit:
  assumes "monthlyExclusive s"
  shows "monthlyExclusive (snd (deleteDeposit s c i))"
proof (cases rule: deleteDeposit_cases[of s c i])
  case (Rejected code r msg)
  then show ?thesis using assms by (simp add: monthlyExclusive_reject)
next
  case (Committed deposit account)
  let ?s' = "snd (deleteCommit s c deposit account)"
  obtain account' where r: "deposits ?s' = filter (\<lambda>d. dep_id d \<noteq> dep_id deposit) (deposits s)"
    "accounts ?s' = (accounts s)(dep_accountId deposit \<mapsto> account')"
    "acc_paymentMode account' = acc_paymentMode account"
    using deleteCommit_result[of s c deposit account] by blast
  have "monthlyExclusive ?s'"
    unfolding monthlyExclusive_def
  proof (intro allI impI)
    fix aid a m
    assume a: "accounts ?s' aid = Some a \<and> acc_paymentMode a = Monthly"
    let ?P = "\<lambda>d. dep_accountId d = aid \<and> d_month (dep_date d) = m"
    have "\<exists>b. accounts s aid = Some b \<and> acc_paymentMode b = Monthly"
      using a r(2,3) Committed(3) by (cases "aid = dep_accountId deposit") auto
    then have le: "length (filter ?P (deposits s)) \<le> 1"
      using assms unfolding monthlyExclusive_def by blast
    have "length (filter ?P (deposits ?s')) \<le> length (filter ?P (deposits s))"
      unfolding r(1) by (rule count_filter_le)
    then show "length (filter ?P (deposits ?s')) \<le> 1"
      using le by simp
  qed
  then show ?thesis by (simp add: Committed(5))
qed

lemma exclusive_perform:
  "idsOk s \<and> monthlyExclusive s \<Longrightarrow> idsOk (perform r s) \<and> monthlyExclusive (perform r s)"
  by (cases r)
    (simp_all add: idsOk_createDeposit idsOk_updateDeposit idsOk_deleteDeposit
      monthlyExclusive_createDeposit monthlyExclusive_updateDeposit monthlyExclusive_deleteDeposit)

lemma exclusive_performAll:
  "idsOk s \<and> monthlyExclusive s \<Longrightarrow> idsOk (performAll rs s) \<and> monthlyExclusive (performAll rs s)"
  unfolding performAll_def
proof (induction rs arbitrary: s)
  case Nil
  then show ?case by simp
next
  case (Cons r rs)
  show ?case
    using Cons.IH[OF exclusive_perform[OF Cons.prems, of r]] by simp
qed


lemmas update_eval = updateDeposit_def updateModeChecks_def updateCommit_def updateReconcile_def
  effectiveDate_def inMonthOfOpt_def findDepositById_def

lemmas delete_eval = deleteDeposit_def deleteCommit_def deleteReconcile_def payableOrYearlyOrZero_def
  payableElseYearly_def findDepositById_def

lemma createDeposit_monthly_checked:
  assumes "createDeposit s c body now = (Inr d, s')"
    and "accounts s (b_accountId body) = Some account"
    and "acc_paymentMode account = Monthly"
  shows "\<forall>x \<in> set (deposits s). dep_accountId x = b_accountId body \<longrightarrow> d_month (dep_date x) \<noteq> d_month now"
proof (cases rule: createDeposit_cases[of s c body now])
  case (Rejected code r msg)
  then show ?thesis using assms(1) by (simp add: reject_def)
next
  case (Matured account t msg m)
  then show ?thesis using assms(1) by (simp add: reject_def)
next
  case (Committed account0 amount t account')
  then have "account0 = account" using assms(2) by simp
  then have "filter (\<lambda>d. dep_accountId d = b_accountId body \<and> d_month (dep_date d) = d_month now) (deposits s) = []"
    using createModeChecks_monthly[OF Committed(7)] assms(3) by simp
  then show ?thesis by (auto simp: filter_empty_conv)
qed

lemma updateDeposit_monthly_checked:
  assumes "updateDeposit s c i body now = (Inr d', s')"
    and "findDepositById s i = Some deposit"
    and "accounts s (dep_accountId deposit) = Some account"
    and "acc_paymentMode account = Monthly"
  shows "\<forall>x \<in> set (deposits s). dep_accountId x = dep_accountId deposit \<and> dep_id x \<noteq> dep_id deposit \<longrightarrow>
           d_month (dep_date x) \<noteq> d_month (dep_date d')"
proof (cases rule: updateDeposit_cases[of s c i body now])
  case (Rejected code r msg)
  then show ?thesis using assms(1) by (simp add: reject_def)
next
  case (Committed deposit0 account0 t)
  have eq: "deposit0 = deposit" "account0 = account"
    using Committed(2,3) assms(2,3) by simp_all
  obtain d3 where d3: "fst (updateCommit s c body deposit account t now) = Inr d3"
    "effectiveDate body deposit = Some (dep_date d3)"
    using updateCommit_result[OF Committed(8), of s c deposit account t now] by blast
  have "updateCommit s c body deposit account t now = (Inr d', s')"
    using Committed(9) assms(1) eq by simp
  then have "d3 = d'"
    using d3(1) by simp
  then have "filter (\<lambda>d. (dep_accountId d = dep_accountId deposit \<and> d_month (dep_date d) = d_month (dep_date d')) \<and>
                      dep_id d \<noteq> dep_id deposit) (deposits s) = []"
    using updateModeChecks_monthly[OF Committed(7)[unfolded eq d3(2)] assms(4)] by simp
  then show ?thesis by (auto simp: filter_empty_conv)
qed

text \<open>
  Claim C4. From a store with unique deposit ids in which every Monthly account has at
  most one deposit per calendar month, any sequence of create, update and delete
  requests leads to a store with the same property. A create that succeeds on a
  Monthly account found no deposit of the account in the current month; an update that
  succeeds on a Monthly account found no other deposit of the account in the month of
  the deposit's new date.
\<close>

theorem monthly_at_most_one_deposit_per_month:
  assumes "idsOk s" and "monthlyExclusive s"
  shows "monthlyExclusive (performAll rs s) \<and>
     (createDeposit s c body now = (Inr d, s') \<and>
      accounts s (b_accountId body) = Some account \<and> acc_paymentMode account = Monthly \<longrightarrow>
        (\<forall>x \<in> set (deposits s). dep_accountId x = b_accountId body \<longrightarrow>
           d_month (dep_date x) \<noteq> d_month now)) \<and>
     (updateDeposit s c' i ubody now' = (Inr d', s'') \<and> findDepositById s i = Some deposit \<and>
      accounts s (dep_accountId deposit) = Some account' \<and> acc_paymentMode account' = Monthly \<longrightarrow>
        (\<forall>x \<in> set (deposits s). dep_accountId x = dep_accountId deposit \<and> dep_id x \<noteq> dep_id deposit \<longrightarrow>
           d_month (dep_date x) \<noteq> d_month (dep_date d')))"
proof (intro conjI impI)
  show "monthlyExclusive (performAll rs s)"
    using exclusive_performAll[of s rs] assms by simp
next
  assume "createDeposit s c body now = (Inr d, s') \<and>
      accounts s (b_accountId body) = Some account \<and> acc_paymentMode account = Monthly"
  then show "\<forall>x \<in> set (deposits s). dep_accountId x = b_accountId body \<longrightarrow>
           d_month (dep_date x) \<noteq> d_month now"
    using createDeposit_monthly_checked[of s c body now d s' account] by simp
next
  assume "updateDeposit s c' i ubody now' = (Inr d', s'') \<and> findDepositById s i = Some deposit \<and>
      accounts s (dep_accountId deposit) = Some account' \<and> acc_paymentMode account' = Monthly"
  then show "\<forall>x \<in> set (deposits s). dep_accountId x = dep_accountId deposit \<and> dep_id x \<noteq> dep_id deposit \<longrightarrow>
           d_month (dep_date x) \<noteq> d_month (dep_date d')"
    using updateDeposit_monthly_checked[of s c' i ubody now' d' s'' deposit account'] by simp
qed

lemma idsOk_exStore: "idsOk exStore"
  using ledgerOk_exStore by (simp add: ledgerOk_def)

lemma monthlyExclusive_exStore: "monthlyExclusive exStore"
  by (auto simp: monthlyExclusive_def ex_defs split: if_splits)

theorem monthly_at_most_one_deposit_per_month_witness:
  "idsOk exStore \<and> monthlyExclusive exStore \<and>
   monthlyExclusive (performAll exRequests exStore) \<and>
   map (\<lambda>d. (dep_id d, d_month (dep_date d)))
     (filter (\<lambda>d. dep_accountId d = 1) (deposits (performAll exRequests exStore))) = [(6, 24302)] \<and>
   fst (createDeposit exStore exAgent exBodyM exFeb) = Inr (exDeposit 6 exFeb 1 10 ''RD'' 100) \<and>
   filter (\<lambda>x. dep_accountId x = 1 \<and> d_month (dep_date x) = d_month exFeb) (deposits exStore) = [] \<and>
   fst (updateDeposit exStore exAdmin 0 \<lparr>u_amount = None, u_date = Some (Parsed exMar)\<rparr> exNow) =
     Inr (exDeposit 0 exMar 1 10 ''RD'' 100) \<and>
   filter (\<lambda>x. dep_accountId x = 1 \<and> dep_id x \<noteq> 0 \<and> d_month (dep_date x) = d_month exMar)
     (deposits exStore) = []"
proof -
  let ?ub = "\<lparr>u_amount = None, u_date = Some (Parsed exMar)\<rparr>"
  let ?d1 = "exDeposit 6 exFeb 1 10 ''RD'' 100"
  let ?d2 = "exDeposit 0 exMar 1 10 ''RD'' 100"
  let ?d0 = "exDeposit 0 (mkDate 2025 0 10 0) 1 10 ''SB'' 100"
  have run: "map (\<lambda>d. (dep_id d, d_month (dep_date d)))
     (filter (\<lambda>d. dep_accountId d = 1) (deposits (performAll exRequests exStore))) = [(6, 24302)]"
    by (simp add: performAll_def exRequests_def exBodyM_def exFeb_def exMar_def
        create_eval update_eval delete_eval ex_defs)
  have fc: "fst (createDeposit exStore exAgent exBodyM exFeb) = Inr ?d1"
    by (simp add: exBodyM_def exFeb_def create_eval ex_defs)
  then have c: "createDeposit exStore exAgent exBodyM exFeb =
      (Inr ?d1, snd (createDeposit exStore exAgent exBodyM exFeb))"
    by (simp add: prod_eq_iff)
  have fu: "fst (updateDeposit exStore exAdmin 0 ?ub exNow) = Inr ?d2"
    by (simp add: exMar_def update_eval create_eval ex_defs)
  then have u: "updateDeposit exStore exAdmin 0 ?ub exNow =
      (Inr ?d2, snd (updateDeposit exStore exAdmin 0 ?ub exNow))"
    by (simp add: prod_eq_iff)
  have f: "findDepositById exStore 0 = Some ?d0"
    by (simp add: findDepositById_def ex_defs)
  have a: "accounts exStore 1 = Some exMonthly" "acc_paymentMode exMonthly = Monthly"
    by (simp_all add: ex_defs)
  have b: "b_accountId exBodyM = 1" "dep_accountId ?d0 = 1" "dep_id ?d0 = 0" "dep_date ?d2 = exMar"
    by (simp_all add: exBodyM_def exDeposit_def)
  have th: "monthlyExclusive (performAll exRequests exStore) \<and>
     (\<forall>x \<in> set (deposits exStore). dep_accountId x = 1 \<longrightarrow> d_month (dep_date x) \<noteq> d_month exFeb) \<and>
     (\<forall>x \<in> set (deposits exStore). dep_accountId x = 1 \<and> dep_id x \<noteq> 0 \<longrightarrow>
           d_month (dep_date x) \<noteq> d_month exMar)"
    using monthly_at_most_one_deposit_per_month [OF idsOk_exStore monthlyExclusive_exStore,
        of exRequests exAgent exBodyM exFeb ?d1 "snd (createDeposit exStore exAgent exBodyM exFeb)"
           exMonthly exAdmin 0 ?ub exNow ?d2 "snd (updateDeposit exStore exAdmin 0 ?ub exNow)" ?d0 exMonthly]
      c u f a b
    by simp
  show ?thesis
    using th run fc fu idsOk_exStore monthlyExclusive_exStore
    by (auto simp: filter_empty_conv)
qed

section \<open>An update that names neither amount nor date\<close>

lemma updateModeChecks_holds:
  "updateModeChecks s (dep_accountId deposit) account t deposit amount (Some date) = None \<longleftrightarrow>
   updatePolicyHolds s account t deposit amount date"
proof (cases "acc_paymentMode account")
  case Daily
  then show ?thesis
    by (auto simp: updateModeChecks_def updatePolicyHolds_def collectedInMonth_def Let_def
        inMonthOfOpt_def inMonthOf_iff split: option.splits)
next
  case Monthly
  then show ?thesis
    by (auto simp: updateModeChecks_def updatePolicyHolds_def Let_def
        inMonthOfOpt_def inMonthOf_iff filter_empty_conv split: option.splits)
next
  case Yearly
  then show ?thesis
    by (auto simp: updateModeChecks_def updatePolicyHolds_def Let_def)
qed

text \<open>
  Claim C10. An Admin's update whose body has neither amount nor date, on an existing
  deposit of an existing account whose payable total is configured and not exceeded
  and whose mode rules hold for the stored amount and date, succeeds. The stored
  deposit becomes the old one with \<open>schemeType\<close> taken from the account: amount, date
  and every other field are unchanged, and no other deposit is touched.
\<close>

theorem update_without_amount_or_date_resyncs_scheme_type:
  assumes "updateAdmitted s c i body deposit account"
    and "u_amount body = None" and "u_date body = None"
    and "acc_totalPayableAmount account = Some t"
    and "collectedOf s (dep_accountId deposit) \<le> t"
    and "updatePolicyHolds s account t deposit (dep_amount deposit) (dep_date deposit)"
  shows "fst (updateDeposit s c i body now) = Inr (deposit\<lparr>dep_schemeType := acc_schemeType account\<rparr>) \<and>
         deposits (snd (updateDeposit s c i body now)) =
           map (\<lambda>d. if dep_id d = dep_id deposit
                     then deposit\<lparr>dep_schemeType := acc_schemeType account\<rparr> else d) (deposits s)"
proof -
  have p: "proposedAmount body deposit = dep_amount deposit"
    "effectiveDate body deposit = Some (dep_date deposit)"
    using assms(2,3) by (simp_all add: proposedAmount_def effectiveDate_def)
  have m: "updateModeChecks s (dep_accountId deposit) account t deposit (dep_amount deposit)
             (Some (dep_date deposit)) = None"
    using assms(6) by (simp add: updateModeChecks_holds)
  have "updateDeposit s c i body now = updateCommit s c body deposit account t now"
    using updateAdmitted_total[OF assms(1,4), of now] assms(5) p m by simp
  then show ?thesis
    using assms(2,3) by (simp add: updateCommit_def Let_def)
qed

theorem update_without_amount_or_date_resyncs_scheme_type_witness:
  "updateAdmitted exStore exAdmin 0 \<lparr>u_amount = None, u_date = None\<rparr>
     (exDeposit 0 (mkDate 2025 0 10 0) 1 10 ''SB'' 100) exMonthly \<and>
   collectedOf exStore 1 \<le> 1200 \<and>
   updatePolicyHolds exStore exMonthly 1200 (exDeposit 0 (mkDate 2025 0 10 0) 1 10 ''SB'' 100) 100
     (mkDate 2025 0 10 0) \<and>
   fst (updateDeposit exStore exAdmin 0 \<lparr>u_amount = None, u_date = None\<rparr> exNow) =
     Inr (exDeposit 0 (mkDate 2025 0 10 0) 1 10 ''RD'' 100) \<and>
   deposits (snd (updateDeposit exStore exAdmin 0 \<lparr>u_amount = None, u_date = None\<rparr> exNow)) =
     exDeposit 0 (mkDate 2025 0 10 0) 1 10 ''RD'' 100 # tl exDeposits"
proof -
  let ?b = "\<lparr>u_amount = None, u_date = None\<rparr>"
  let ?d = "exDeposit 0 (mkDate 2025 0 10 0) 1 10 ''SB'' 100"
  have h1: "updateAdmitted exStore exAdmin 0 ?b ?d exMonthly"
    by (simp add: updateAdmitted_def findDepositById_def ex_defs)
  have h2: "u_amount ?b = None" "u_date ?b = None"
    by simp_all
  have h3: "acc_totalPayableAmount exMonthly = Some 1200"
    by (simp add: ex_defs)
  have h4: "collectedOf exStore (dep_accountId ?d) \<le> 1200"
    by (simp add: collectedOf_def depositsOf_def ex_defs)
  have h5: "updatePolicyHolds exStore exMonthly 1200 ?d (dep_amount ?d) (dep_date ?d)"
    by (simp add: updatePolicyHolds_def ex_defs)
  show ?thesis
    using update_without_amount_or_date_resyncs_scheme_type [OF h1 h2 h3 h4 h5, of exNow] h1 h4 h5
    by (simp add: exDeposit_def exMonthly_def exStore_def exDeposits_def)
qed

section \<open>The monthly target of a Daily account\<close>

lemma createModeChecks_daily:
  assumes "acc_paymentMode account = Daily" and "acc_monthlyTarget account = Some mt" and "0 < mt"
  shows "createModeChecks s aid account t amount now =
     (if collectedInMonth s aid (d_month now) {} + amount > mt then
        Inl (400, DAILY_MONTHLY_TARGET_EXCEEDED,
             ''Daily account limit exceeded: monthly target is '' @ jsNum mt @
             '', already collected '' @ jsNum (collectedInMonth s aid (d_month now) {}))
      else Inr (account\<lparr>acc_status :=
             (if collectedInMonth s aid (d_month now) {} + amount \<ge> mt then OnTrack else Pending)\<rparr>))"
  using assms
  by (simp add: createModeChecks_def createYearly_def createMonthly_def createDaily_def
      collectedInMonth_def inMonthOf_iff Let_def)

lemma createPolicy_daily:
  assumes "acc_paymentMode account = Daily" and "acc_monthlyTarget account = Some mt" and "0 < mt"
    and "acc_totalPayableAmount account = Some t"
    and "collectedOf s (b_accountId body) + amount \<le> t"
    and "\<forall>m. acc_maturityDate account = Some m \<longrightarrow> \<not> date_le m now"
  shows "createPolicy s c body account amount now =
     (if collectedInMonth s (b_accountId body) (d_month now) {} + amount > mt then
        reject s c CREATE_DEPOSIT_FAILED 400 DAILY_MONTHLY_TARGET_EXCEEDED
          (''Daily account limit exceeded: monthly target is '' @ jsNum mt @
           '', already collected '' @ jsNum (collectedInMonth s (b_accountId body) (d_month now) {}))
      else createCommit s c body
             (account\<lparr>acc_status :=
                (if collectedInMonth s (b_accountId body) (d_month now) {} + amount \<ge> mt
                 then OnTrack else Pending)\<rparr>) t amount now)"
proof -
  have m: "\<not> (case acc_maturityDate account of None \<Rightarrow> False | Some m \<Rightarrow> date_le m now)"
    using assms(6) by (simp split: option.splits)
  show ?thesis
    using assms(4,5) m
    by (simp add: createPolicy_def createModeChecks_daily[OF assms(1-3)] collectedOf_def)
qed

lemma createCommit_status:
  assumes "acc_status account \<noteq> Inactive"
  shows "map_option acc_status (accounts (snd (createCommit s c body account t amount now)) (b_accountId body)) =
     Some (if collectedOf s (b_accountId body) + amount \<ge> t then OnTrack else acc_status account)"
  using assms by (simp add: createCommit_account Let_def)

lemma create_daily:
  assumes adm: "createAdmitted s c body account amount"
    and daily: "acc_paymentMode account = Daily" "acc_monthlyTarget account = Some mt" "0 < mt"
    and tot: "acc_totalPayableAmount account = Some t" "collectedOf s (b_accountId body) + amount \<le> t"
    and mat: "\<forall>m. acc_maturityDate account = Some m \<longrightarrow> \<not> date_le m now"
  shows "(collectedInMonth s (b_accountId body) (d_month now) {} + amount > mt \<longrightarrow>
           rejectedWith (fst (createDeposit s c body now)) = Some DAILY_MONTHLY_TARGET_EXCEEDED \<and>
           deposits (snd (createDeposit s c body now)) = deposits s \<and>
           accounts (snd (createDeposit s c body now)) = accounts s) \<and>
         (collectedInMonth s (b_accountId body) (d_month now) {} + amount \<le> mt \<longrightarrow>
           rejectedWith (fst (createDeposit s c body now)) = None \<and>
           map_option acc_status (accounts (snd (createDeposit s c body now)) (b_accountId body)) =
             Some (if collectedOf s (b_accountId body) + amount \<ge> t \<or>
                      collectedInMonth s (b_accountId body) (d_month now) {} + amount \<ge> mt
                   then OnTrack else Pending))"
proof -
  let ?M = "collectedInMonth s (b_accountId body) (d_month now) {}"
  have e: "createDeposit s c body now = createPolicy s c body account amount now"
    by (rule createAdmitted_policy[OF adm])
  note p = createPolicy_daily[OF daily tot mat, of c]
  show ?thesis
  proof (intro conjI impI)
    assume "?M + amount > mt"
    then have r: "createDeposit s c body now =
        reject s c CREATE_DEPOSIT_FAILED 400 DAILY_MONTHLY_TARGET_EXCEEDED
          (''Daily account limit exceeded: monthly target is '' @ jsNum mt @
           '', already collected '' @ jsNum ?M)"
      using e p by simp
    show "rejectedWith (fst (createDeposit s c body now)) = Some DAILY_MONTHLY_TARGET_EXCEEDED"
      by (simp add: r rejectedWith_def)
    show "deposits (snd (createDeposit s c body now)) = deposits s"
      by (simp add: r)
    show "accounts (snd (createDeposit s c body now)) = accounts s"
      by (simp add: r)
  next
    assume le: "?M + amount \<le> mt"
    let ?a = "account\<lparr>acc_status := (if ?M + amount \<ge> mt then OnTrack else Pending)\<rparr>"
    have r: "createDeposit s c body now = createCommit s c body ?a t amount now"
      using e p le by simp
    show "rejectedWith (fst (createDeposit s c body now)) = None"
      by (simp add: r rejectedWith_def createCommit_def Let_def)
    have st: "map_option acc_status (accounts (snd (createCommit s c body ?a t amount now)) (b_accountId body)) =
        Some (if collectedOf s (b_accountId body) + amount \<ge> t then OnTrack else acc_status ?a)"
      by (rule createCommit_status) simp
    show "map_option acc_status (accounts (snd (createDeposit s c body now)) (b_accountId body)) =
             Some (if collectedOf s (b_accountId body) + amount \<ge> t \<or> ?M + amount \<ge> mt
                   then OnTrack else Pending)"
      by (simp only: r st) auto
  qed
qed


lemma updateModeChecks_daily:
  assumes "acc_paymentMode account = Daily" and "acc_monthlyTarget account = Some mt" and "0 < mt"
  shows "updateModeChecks s (dep_accountId deposit) account t deposit newAmount (Some date) =
     (if collectedInMonth s (dep_accountId deposit) (d_month date) {dep_id deposit} + newAmount > mt then
        Some (400, DAILY_MONTHLY_TARGET_EXCEEDED,
              ''Daily account limit exceeded: monthly target is '' @ jsNum mt @ '', would become '' @
              jsNum (collectedInMonth s (dep_accountId deposit) (d_month date) {dep_id deposit} + newAmount))
      else None)"
  using assms
  by (simp add: updateModeChecks_def collectedInMonth_def inMonthOfOpt_def inMonthOf_iff Let_def)

lemma updateReconcile_daily_status:
  assumes "acc_paymentMode account = Daily" and "acc_monthlyTarget account = Some mt"
  shows "acc_status (updateReconcile s1 aid account t now) =
     (if collectedOf s1 aid \<ge> t \<or> collectedInMonth s1 aid (d_month now) {} \<ge> mt
      then OnTrack else Pending)"
  using assms
  by (simp add: updateReconcile_def collectedOf_def collectedInMonth_def inMonthOf_iff Let_def)

lemma collectedInMonth_replace:
  assumes "idsOk s" and "x \<in> set (deposits s)"
    and "dep_id y = dep_id x" and "dep_accountId y = dep_accountId x"
    and "deposits s' = map (\<lambda>d. if dep_id d = dep_id x then y else d) (deposits s)"
  shows "collectedInMonth s' (dep_accountId x) (d_month (dep_date y)) {} =
         collectedInMonth s (dep_accountId x) (d_month (dep_date y)) {dep_id x} + dep_amount y"
proof -
  let ?P = "\<lambda>d. dep_accountId d = dep_accountId x \<and> d_month (dep_date d) = d_month (dep_date y) \<and> dep_id d \<notin> {}"
  have d: "distinct (map dep_id (deposits s))"
    using assms(1) by (simp add: idsOk_def)
  have "collectedInMonth s' (dep_accountId x) (d_month (dep_date y)) {} =
      sum_list (map dep_amount (filter (\<lambda>d. ?P d \<and> dep_id d \<noteq> dep_id x) (deposits s))) +
      (if ?P y then dep_amount y else 0)"
    unfolding collectedInMonth_def assms(5)
    by (rule sum_after_replace[OF d assms(2,3)])
  moreover have "filter (\<lambda>d. ?P d \<and> dep_id d \<noteq> dep_id x) (deposits s) =
      filter (\<lambda>d. dep_accountId d = dep_accountId x \<and> d_month (dep_date d) = d_month (dep_date y) \<and>
                   dep_id d \<notin> {dep_id x}) (deposits s)"
    by (rule filter_cong) auto
  ultimately show ?thesis
    using assms(4) by (simp add: collectedInMonth_def)
qed

lemma update_daily:
  assumes adm: "updateAdmitted s c i body deposit account" and ids: "idsOk s"
    and daily: "acc_paymentMode account = Daily" "acc_monthlyTarget account = Some mt" "0 < mt"
    and tot: "acc_totalPayableAmount account = Some t"
      "collectedOf s (dep_accountId deposit) - dep_amount deposit + proposedAmount body deposit \<le> t"
    and date: "effectiveDate body deposit = Some date"
  shows "(collectedInMonth s (dep_accountId deposit) (d_month date) {dep_id deposit} +
            proposedAmount body deposit > mt \<longrightarrow>
           rejectedWith (fst (updateDeposit s c i body now)) = Some DAILY_MONTHLY_TARGET_EXCEEDED \<and>
           deposits (snd (updateDeposit s c i body now)) = deposits s \<and>
           accounts (snd (updateDeposit s c i body now)) = accounts s) \<and>
         (collectedInMonth s (dep_accountId deposit) (d_month date) {dep_id deposit} +
            proposedAmount body deposit \<le> mt \<longrightarrow>
           rejectedWith (fst (updateDeposit s c i body now)) = None \<and>
           (collectedOf s (dep_accountId deposit) - dep_amount deposit + proposedAmount body deposit \<ge> t \<longrightarrow>
              map_option acc_status (accounts (snd (updateDeposit s c i body now)) (dep_accountId deposit)) =
                Some OnTrack) \<and>
           (d_month date = d_month now \<longrightarrow>
              map_option acc_status (accounts (snd (updateDeposit s c i body now)) (dep_accountId deposit)) =
                Some (if collectedOf s (dep_accountId deposit) - dep_amount deposit +
                           proposedAmount body deposit \<ge> t \<or>
                         collectedInMonth s (dep_accountId deposit) (d_month date) {dep_id deposit} +
                           proposedAmount body deposit \<ge> mt
                      then OnTrack else Pending)))"
proof -
  let ?aid = "dep_accountId deposit"
  let ?new = "proposedAmount body deposit"
  let ?M = "collectedInMonth s ?aid (d_month date) {dep_id deposit}"
  let ?after = "collectedOf s ?aid - dep_amount deposit + ?new"
  note m = updateModeChecks_daily[OF daily, of s deposit t ?new date]
  have e: "updateDeposit s c i body now =
      (case updateModeChecks s ?aid account t deposit ?new (Some date) of
         Some (code, r, msg) \<Rightarrow> reject s c UPDATE_DEPOSIT_FAILED code r msg
       | None \<Rightarrow> updateCommit s c body deposit account t now)"
    using updateAdmitted_total[OF adm tot(1), of now] tot(2) date by simp
  show ?thesis
  proof (intro conjI impI)
    assume "?M + ?new > mt"
    then have r: "updateDeposit s c i body now =
        reject s c UPDATE_DEPOSIT_FAILED 400 DAILY_MONTHLY_TARGET_EXCEEDED
          (''Daily account limit exceeded: monthly target is '' @ jsNum mt @ '', would become '' @
           jsNum (?M + ?new))"
      using e m by simp
    show "rejectedWith (fst (updateDeposit s c i body now)) = Some DAILY_MONTHLY_TARGET_EXCEEDED"
      by (simp add: r rejectedWith_def)
    show "deposits (snd (updateDeposit s c i body now)) = deposits s"
      by (simp add: r)
    show "accounts (snd (updateDeposit s c i body now)) = accounts s"
      by (simp add: r)
  next
    assume le: "?M + ?new \<le> mt"
    have r: "updateDeposit s c i body now = updateCommit s c body deposit account t now"
      using e m le by simp
    have nd: "u_date body \<noteq> Some Unparseable"
      using date by (auto simp: effectiveDate_def)
    obtain d3 where d3: "fst (updateCommit s c body deposit account t now) = Inr d3"
      "dep_id d3 = dep_id deposit" "dep_accountId d3 = ?aid" "dep_amount d3 = ?new"
      "effectiveDate body deposit = Some (dep_date d3)"
      "accounts (snd (updateCommit s c body deposit account t now)) =
         (accounts s)(?aid \<mapsto>
          updateReconcile (s\<lparr>deposits := map (\<lambda>d. if dep_id d = dep_id deposit then d3 else d) (deposits s)\<rparr>)
            ?aid account t now)"
      using updateCommit_result[OF nd, of s c deposit account t now] by blast
    let ?s1 = "s\<lparr>deposits := map (\<lambda>d. if dep_id d = dep_id deposit then d3 else d) (deposits s)\<rparr>"
    have dd: "dep_date d3 = date"
      using d3(5) date by simp
    have mem: "deposit \<in> set (deposits s)"
      using adm findDepositById_Some[of s i deposit] by (simp add: updateAdmitted_def)
    have s1: "deposits ?s1 = map (\<lambda>d. if dep_id d = dep_id deposit then d3 else d) (deposits s)"
      by simp
    have col: "collectedOf ?s1 ?aid = ?after"
      using collectedOf_replace[OF ids mem d3(2) d3(3) s1, of ?aid] d3(4) by simp
    have mon: "collectedInMonth ?s1 ?aid (d_month date) {} = ?M + ?new"
      using collectedInMonth_replace[OF ids mem d3(2) d3(3) s1] dd d3(4) by simp
    have st: "map_option acc_status (accounts (snd (updateDeposit s c i body now)) ?aid) =
        Some (if ?after \<ge> t \<or> collectedInMonth ?s1 ?aid (d_month now) {} \<ge> mt then OnTrack else Pending)"
      by (simp add: r d3(6) updateReconcile_daily_status[OF daily(1,2)] col)
    show "rejectedWith (fst (updateDeposit s c i body now)) = None"
      by (simp add: r d3(1) rejectedWith_def)
    show "map_option acc_status (accounts (snd (updateDeposit s c i body now)) ?aid) = Some OnTrack"
      if "?after \<ge> t"
      using st that by simp
    show "map_option acc_status (accounts (snd (updateDeposit s c i body now)) ?aid) =
        Some (if ?after \<ge> t \<or> ?M + ?new \<ge> mt then OnTrack else Pending)"
      if "d_month date = d_month now"
      using st mon that by simp
  qed
qed


text \<open>
  Claim C6 as stated fails on the status. On 20 January 2025 a create of 100 on the
  Daily account 2 (monthly target 300, payable total 1000, 900 collected in earlier
  months) succeeds; the deposits of January then sum to 100, short of the target, and
  the status becomes \<open>OnTrack\<close> because the payable total is reached.
\<close>

theorem daily_status_counterexample:
  "acc_paymentMode exDaily = Daily \<and> acc_monthlyTarget exDaily = Some 300 \<and>
   accounts exStore 2 = Some exDaily \<and>
   rejectedWith (fst (createDeposit exStore exAgent
      \<lparr>b_accountId = 2, b_userId = 11, b_amount = Some 100, b_date = None\<rparr> exNow)) = None \<and>
   collectedInMonth (snd (createDeposit exStore exAgent
      \<lparr>b_accountId = 2, b_userId = 11, b_amount = Some 100, b_date = None\<rparr> exNow)) 2 (d_month exNow) {} = 100 \<and>
   map_option acc_status (accounts (snd (createDeposit exStore exAgent
      \<lparr>b_accountId = 2, b_userId = 11, b_amount = Some 100, b_date = None\<rparr> exNow)) 2) = Some OnTrack"
  by (simp add: rejectedWith_def collectedInMonth_def create_eval ex_defs)

text \<open>
  On update the status of a Daily account below its payable total follows the month
  of the wall clock, not the month of the edited deposit: re-saving the December
  deposit of account 2 on 20 January leaves December at its target of 300, and the
  status is \<open>Pending\<close> because January is empty.
\<close>

lemma update_daily_status_follows_wall_clock:
  "collectedInMonth exStore 2 (d_month (mkDate 2024 11 5 0)) {3} + 300 = 300 \<and>
   rejectedWith (fst (updateDeposit exStore exAdmin 3 \<lparr>u_amount = None, u_date = None\<rparr> exNow)) = None \<and>
   map_option acc_status
     (accounts (snd (updateDeposit exStore exAdmin 3 \<lparr>u_amount = None, u_date = None\<rparr> exNow)) 2) =
     Some Pending"
  by (simp add: rejectedWith_def collectedInMonth_def update_eval create_eval ex_defs)

text \<open>
  Claim C6, amended. On a Daily account with a positive monthly target, a create that
  is past the role, input, lookup and scope checks, within the payable total and
  before the maturity date, and an update that is past its role, lookup and input
  checks, within the payable total and whose date, if given, parses, is rejected with
  \<open>DAILY_MONTHLY_TARGET_EXCEEDED\<close> exactly when the deposits of the target month
  (without the edited deposit) plus the proposed amount exceed the target. Otherwise
  it succeeds, and the status becomes \<open>OnTrack\<close> if the account's total after the
  operation reaches the payable total or the month's sum after the operation reaches
  the target, and \<open>Pending\<close> if neither does; for an update the part about the month's
  sum is stated for a target month that is the current month.
\<close>

theorem daily_monthly_target_enforced:
  "(createAdmitted s c body account amount \<and>
    acc_paymentMode account = Daily \<and> acc_monthlyTarget account = Some mt \<and> 0 < mt \<and>
    acc_totalPayableAmount account = Some t \<and> collectedOf s (b_accountId body) + amount \<le> t \<and>
    (\<forall>m. acc_maturityDate account = Some m \<longrightarrow> \<not> date_le m now) \<longrightarrow>
      (collectedInMonth s (b_accountId body) (d_month now) {} + amount > mt \<longrightarrow>
         rejectedWith (fst (createDeposit s c body now)) = Some DAILY_MONTHLY_TARGET_EXCEEDED \<and>
         deposits (snd (createDeposit s c body now)) = deposits s \<and>
         accounts (snd (createDeposit s c body now)) = accounts s) \<and>
      (collectedInMonth s (b_accountId body) (d_month now) {} + amount \<le> mt \<longrightarrow>
         rejectedWith (fst (createDeposit s c body now)) = None \<and>
         map_option acc_status (accounts (snd (createDeposit s c body now)) (b_accountId body)) =
           Some (if collectedOf s (b_accountId body) + amount \<ge> t \<or>
                    collectedInMonth s (b_accountId body) (d_month now) {} + amount \<ge> mt
                 then OnTrack else Pending))) \<and>
   (updateAdmitted s c' i ubody deposit account' \<and> idsOk s \<and>
    acc_paymentMode account' = Daily \<and> acc_monthlyTarget account' = Some mt' \<and> 0 < mt' \<and>
    acc_totalPayableAmount account' = Some t' \<and>
    collectedOf s (dep_accountId deposit) - dep_amount deposit + proposedAmount ubody deposit \<le> t' \<and>
    effectiveDate ubody deposit = Some date \<longrightarrow>
      (collectedInMonth s (dep_accountId deposit) (d_month date) {dep_id deposit} +
          proposedAmount ubody deposit > mt' \<longrightarrow>
         rejectedWith (fst (updateDeposit s c' i ubody now')) = Some DAILY_MONTHLY_TARGET_EXCEEDED \<and>
         deposits (snd (updateDeposit s c' i ubody now')) = deposits s \<and>
         accounts (snd (updateDeposit s c' i ubody now')) = accounts s) \<and>
      (collectedInMonth s (dep_accountId deposit) (d_month date) {dep_id deposit} +
          proposedAmount ubody deposit \<le> mt' \<longrightarrow>
         rejectedWith (fst (updateDeposit s c' i ubody now')) = None \<and>
         (collectedOf s (dep_accountId deposit) - dep_amount deposit + proposedAmount ubody deposit \<ge> t' \<longrightarrow>
            map_option acc_status (accounts (snd (updateDeposit s c' i ubody now')) (dep_accountId deposit)) =
              Some OnTrack) \<and>
         (d_month date = d_month now' \<longrightarrow>
            map_option acc_status (accounts (snd (updateDeposit s c' i ubody now')) (dep_accountId deposit)) =
              Some (if collectedOf s (dep_accountId deposit) - dep_amount deposit +
                         proposedAmount ubody deposit \<ge> t' \<or>
                       collectedInMonth s (dep_accountId deposit) (d_month date) {dep_id deposit} +
                         proposedAmount ubody deposit \<ge> mt'
                    then OnTrack else Pending))))"
proof (rule conjI)
  show "createAdmitted s c body account amount \<and>
    acc_paymentMode account = Daily \<and> acc_monthlyTarget account = Some mt \<and> 0 < mt \<and>
    acc_totalPayableAmount account = Some t \<and> collectedOf s (b_accountId body) + amount \<le> t \<and>
    (\<forall>m. acc_maturityDate account = Some m \<longrightarrow> \<not> date_le m now) \<longrightarrow>
      (collectedInMonth s (b_accountId body) (d_month now) {} + amount > mt \<longrightarrow>
         rejectedWith (fst (createDeposit s c body now)) = Some DAILY_MONTHLY_TARGET_EXCEEDED \<and>
         deposits (snd (createDeposit s c body now)) = deposits s \<and>
         accounts (snd (createDeposit s c body now)) = accounts s) \<and>
      (collectedInMonth s (b_accountId body) (d_month now) {} + amount \<le> mt \<longrightarrow>
         rejectedWith (fst (createDeposit s c body now)) = None \<and>
         map_option acc_status (accounts (snd (createDeposit s c body now)) (b_accountId body)) =
           Some (if collectedOf s (b_accountId body) + amount \<ge> t \<or>
                    collectedInMonth s (b_accountId body) (d_month now) {} + amount \<ge> mt
                 then OnTrack else Pending))"
    by (rule impI, elim conjE, rule create_daily; assumption)
qed (rule impI, elim conjE, rule update_daily; assumption)

theorem daily_monthly_target_enforced_witness:
  "createAdmitted exStore exAgent \<lparr>b_accountId = 2, b_userId = 11, b_amount = Some 50, b_date = None\<rparr>
     exDaily 50 \<and>
   collectedOf exStore 2 + 50 \<le> 1000 \<and>
   collectedInMonth exStore 2 (d_month exNow) {} + 50 \<le> 300 \<and>
   rejectedWith (fst (createDeposit exStore exAgent
     \<lparr>b_accountId = 2, b_userId = 11, b_amount = Some 50, b_date = None\<rparr> exNow)) = None \<and>
   map_option acc_status (accounts (snd (createDeposit exStore exAgent
     \<lparr>b_accountId = 2, b_userId = 11, b_amount = Some 50, b_date = None\<rparr> exNow)) 2) = Some Pending \<and>
   updateAdmitted exStore exAdmin 3 \<lparr>u_amount = Some 50, u_date = Some (Parsed exNow)\<rparr>
     (exDeposit 3 (mkDate 2024 11 5 0) 2 11 ''DD'' 300) exDaily \<and>
   collectedOf exStore 2 - 300 + 50 \<le> 1000 \<and>
   collectedInMonth exStore 2 (d_month exNow) {3} + 50 \<le> 300 \<and>
   rejectedWith (fst (updateDeposit exStore exAdmin 3
     \<lparr>u_amount = Some 50, u_date = Some (Parsed exNow)\<rparr> exNow)) = None \<and>
   map_option acc_status (accounts (snd (updateDeposit exStore exAdmin 3
     \<lparr>u_amount = Some 50, u_date = Some (Parsed exNow)\<rparr> exNow)) 2) = Some Pending"
proof -
  let ?body = "\<lparr>b_accountId = 2, b_userId = 11, b_amount = Some 50, b_date = None\<rparr>"
  let ?ub = "\<lparr>u_amount = Some 50, u_date = Some (Parsed exNow)\<rparr>"
  let ?d = "exDeposit 3 (mkDate 2024 11 5 0) 2 11 ''DD'' 300"
  have h1: "createAdmitted exStore exAgent ?body exDaily 50"
    by (simp add: createAdmitted_def ex_defs)
  have h2: "acc_paymentMode exDaily = Daily" "acc_monthlyTarget exDaily = Some 300"
    "acc_totalPayableAmount exDaily = Some 1000"
    by (simp_all add: ex_defs)
  have h3: "\<forall>m. acc_maturityDate exDaily = Some m \<longrightarrow> \<not> date_le m exNow"
    by (simp add: date_le_def date_lt_def ex_defs)
  have c: "collectedOf exStore 2 = 900" "collectedInMonth exStore 2 (d_month exNow) {} = 0"
    "collectedInMonth exStore 2 (d_month exNow) {3} = 0"
    by (simp_all add: collectedOf_def collectedInMonth_def depositsOf_def ex_defs)
  have h4: "updateAdmitted exStore exAdmin 3 ?ub ?d exDaily"
    by (simp add: updateAdmitted_def findDepositById_def ex_defs)
  have p: "b_accountId ?body = 2" "dep_accountId ?d = 2" "dep_amount ?d = 300" "dep_id ?d = 3"
    "proposedAmount ?ub ?d = 50" "effectiveDate ?ub ?d = Some exNow"
    by (simp_all add: exDeposit_def proposedAmount_def effectiveDate_def)
  show ?thesis
    using daily_monthly_target_enforced
      [of exStore exAgent ?body exDaily 50 300 1000 exNow exAdmin 3 ?ub ?d exDaily 300 1000 exNow exNow]
      h1 h2 h3 h4 idsOk_exStore
    by (simp add: c p)
qed

section \<open>The bulk report\<close>

lemma pushFailed_summary:
  "bs_summary (pushFailed st r msg) =
   (bs_summary st)(msg \<mapsto> (case bs_summary st msg of None \<Rightarrow> 0 | Some n \<Rightarrow> n) + 1)"
  by (simp add: pushFailed_def)

lemma tallied_pushFailed:
  assumes "tallied (bs_failed st) (bs_summary st)" and "r_error r = Some msg"
  shows "tallied (bs_failed (pushFailed st r msg)) (bs_summary (pushFailed st r msg))"
  unfolding tallied_def
proof
  fix m
  have old: "bs_summary st m =
      (let n = length (filter (\<lambda>r. r_error r = Some m) (bs_failed st)) in if n = 0 then None else Some n)"
    using assms(1) by (simp add: tallied_def)
  show "bs_summary (pushFailed st r msg) m =
      (let n = length (filter (\<lambda>r. r_error r = Some m) (bs_failed (pushFailed st r msg)))
       in if n = 0 then None else Some n)"
  proof (cases "m = msg")
    case True
    then show ?thesis using old assms(2) by (simp add: pushFailed_summary Let_def)
  next
    case False
    then show ?thesis using old assms(2) by (simp add: pushFailed_summary Let_def)
  qed
qed

lemma tallied_bulkObject:
  assumes "tallied (bs_failed st) (bs_summary st)"
  shows "tallied (bs_failed (bulkObject c now d st)) (bs_summary (bulkObject c now d st))"
proof (cases rule: bulkObject_cases[of d c now st])
  case (Refused r msg)
  then show ?thesis using assms by (simp only: tallied_pushFailed)
next
  case (Failed r account rej s')
  have "tallied (bs_failed (st\<lparr>bs_store := s'\<rparr>)) (bs_summary (st\<lparr>bs_store := s'\<rparr>))"
    using assms by simp
  then show ?thesis using Failed(3,6) by (simp only: tallied_pushFailed)
next
  case (Created r account dep s')
  then show ?thesis using assms by simp
qed

lemma tallied_fold:
  "tallied (bs_failed st) (bs_summary st) \<Longrightarrow>
   tallied (bs_failed (fold (bulkObject c now) items st)) (bs_summary (fold (bulkObject c now) items st))"
  by (induction items arbitrary: st) (simp_all add: tallied_bulkObject)

lemma recorded_bulkObject:
  assumes "recorded xs (bs_success st) (bs_failed st)"
  shows "recorded (xs @ [d]) (bs_success (bulkObject c now d st)) (bs_failed (bulkObject c now d st))"
proof (cases rule: bulkObject_cases[of d c now st])
  case (Refused r msg)
  then show ?thesis using assms by (simp add: recorded_def entryKey_def itemKey_def)
next
  case (Failed r account rej s')
  then show ?thesis using assms by (simp add: recorded_def entryKey_def itemKey_def)
next
  case (Created r account dep s')
  then show ?thesis using assms by (simp add: recorded_def entryKey_def itemKey_def)
qed

lemma recorded_fold:
  "recorded xs (bs_success st) (bs_failed st) \<Longrightarrow>
   recorded (xs @ items) (bs_success (fold (bulkObject c now) items st))
     (bs_failed (fold (bulkObject c now) items st))"
proof (induction items arbitrary: st xs)
  case Nil
  then show ?case by simp
next
  case (Cons d items)
  from Cons.IH[OF recorded_bulkObject[OF Cons.prems, of d c now]]
  show ?case by simp
qed

lemma recorded_lengths:
  "recorded items succeeded failed \<Longrightarrow> length succeeded + length failed = length items"
proof -
  assume "recorded items succeeded failed"
  then have "size (mset (map entryKey (succeeded @ failed))) = size (mset (map itemKey items))"
    by (simp only: recorded_def)
  then show ?thesis by simp
qed

text \<open>An array of objects. A bulk create by an Agent with a non-empty array of objects
  answers a report. The report's total is the number of items and equals successCount
  plus failedCount; the entries of successAccounts and failedAccounts account for the
  items one to one (as multisets of account id and amount), a failure entry carries
  an error message and a success entry none; failureSummary holds for every message
  the number of failure entries with that message.\<close>

lemma bulk_create_reports_objects:
  assumes "c_role c = Agent" and "items \<noteq> []"
  shows "\<exists>rep. fst (bulkCreateDeposits s c (Some (map Some items)) now) = Inr rep \<and>
           rep_total rep = length items \<and>
           rep_total rep = rep_successCount rep + rep_failedCount rep \<and>
           rep_successCount rep = length (rep_successAccounts rep) \<and>
           rep_failedCount rep = length (rep_failedAccounts rep) \<and>
           recorded items (rep_successAccounts rep) (rep_failedAccounts rep) \<and>
           tallied (rep_failedAccounts rep) (rep_failureSummary rep)"
proof -
  define st0 where "st0 = \<lparr>bs_success = [], bs_failed = [], bs_summary = Map.empty, bs_store = s\<rparr>"
  define st where "st = fold (bulkObject c now) items st0"
  have r0: "recorded [] (bs_success st0) (bs_failed st0)"
    by (simp add: recorded_def st0_def)
  have t0: "tallied (bs_failed st0) (bs_summary st0)"
    by (simp add: tallied_def st0_def)
  have rec: "recorded items (bs_success st) (bs_failed st)"
    using recorded_fold[OF r0, of items c now] by (simp add: st_def)
  have tal: "tallied (bs_failed st) (bs_summary st)"
    unfolding st_def by (rule tallied_fold[OF t0])
  have e: "bulkCreateDeposits s c (Some (map Some items)) now = bulkReport (map Some items) st"
    unfolding st_def st0_def by (rule bulkCreateDeposits_report[OF assms(2,1)])
  let ?rep = "\<lparr>rep_total = length items,
           rep_successCount = length (bs_success st),
           rep_failedCount = length (bs_failed st),
           rep_failedAccounts = bs_failed st,
           rep_successAccounts = bs_success st,
           rep_failureSummary = bs_summary st\<rparr>"
  have "fst (bulkCreateDeposits s c (Some (map Some items)) now) = Inr ?rep"
    by (simp add: e bulkReport_def)
  moreover have "rep_total ?rep = rep_successCount ?rep + rep_failedCount ?rep"
    using recorded_lengths[OF rec] by simp
  ultimately show ?thesis
    using rec tal by (intro exI[where x = ?rep]) simp
qed

lemmas bulk_eval = bulkCreateDeposits_def bulkLoop_chunk bulkReport_def bulkItem_def bulkObject_def
  pushFailed_def alreadyDeposited_def duplicateMessage_def rsquo_def daysInMonth_def isLeap_def
  getFullYear_def getMonth_def getDate_def

text \<open>The request of three items: one success and two failures, each failure message
  counted once.\<close>

lemma bulk_create_reports_example:
  "map_sum id (\<lambda>rep. (rep_total rep, rep_successCount rep, rep_failedCount rep))
     (fst (bulkCreateDeposits exStore exAgent (Some (map Some exItems)) exNow)) = Inr (3, 1, 2) \<and>
   map_sum id (\<lambda>rep. map (rep_failureSummary rep) [''COLLECTED_BY_MISMATCH'', duplicateMessage Monthly])
     (fst (bulkCreateDeposits exStore exAgent (Some (map Some exItems)) exNow)) = Inr [Some 1, Some 1]"
  by (simp add: exItems_def bulk_eval create_eval ex_defs)

text \<open>An array with a \<^verbatim>\<open>null\<close>. Whatever stands before and after the first \<^verbatim>\<open>null\<close>, an
  Agent's bulk create answers no report: the error of the \<^verbatim>\<open>catch\<close> of the item goes
  to \<^verbatim>\<open>next\<close>, the items before the \<^verbatim>\<open>null\<close> have been processed and their deposits stay
  stored, the items after it are not looked at.\<close>

lemma bulk_create_null_item:
  assumes "c_role c = Agent"
  shows "bulkCreateDeposits s c (Some (map Some xs @ None # ys)) now =
           bulkCreateDeposits s c (Some (map Some xs @ [None])) now \<and>
         fst (bulkCreateDeposits s c (Some (map Some xs @ None # ys)) now) =
           Inl (Uncaught nullItemError)"
  using bulkCreateDeposits_null[OF assms, of s xs ys now]
    bulkCreateDeposits_null[OF assms, of s xs "[]" now]
  by simp

text \<open>
  Claim C8 fails on the code. The valid item \<open>exItem\<close>, sent alone by the agent, is
  stored and reported: total 1, successCount 1. Sent after a \<^verbatim>\<open>null\<close> it is never
  processed: the call answers the error of reading \<^verbatim>\<open>accountId\<close> of \<^verbatim>\<open>null\<close> and leaves
  the store as it was. Sent before a \<^verbatim>\<open>null\<close> it is stored, and the call answers the same
  error and no report. The \<^verbatim>\<open>try\<close> and \<^verbatim>\<open>catch\<close> around each item are there to turn an
  item's exception into a failure entry; on \<^verbatim>\<open>null\<close> the \<^verbatim>\<open>catch\<close> itself throws, at
  \<^verbatim>\<open>d.accountId\<close>.
\<close>

theorem bulk_null_item_aborts_batch:
  "c_role exAgent = Agent \<and>
   map_sum id (\<lambda>rep. (rep_total rep, rep_successCount rep, rep_failedCount rep))
     (fst (bulkCreateDeposits exStore exAgent (Some [Some exItem]) exNow)) = Inr (1, 1, 0) \<and>
   bulkCreateDeposits exStore exAgent (Some [None, Some exItem]) exNow =
     (Inl (Uncaught nullItemError), exStore) \<and>
   fst (bulkCreateDeposits exStore exAgent (Some [Some exItem, None]) exNow) =
     Inl (Uncaught nullItemError) \<and>
   deposits (snd (bulkCreateDeposits exStore exAgent (Some [Some exItem, None]) exNow)) =
     deposits exStore @ [exDeposit 6 exNow 2 11 ''DD'' 50]"
  by (simp add: exItem_def bulk_eval create_eval ex_defs)

section \<open>The audit trail\<close>

lemma updateDeposit_audit:
  assumes "u_date body \<noteq> Some Unparseable"
  shows "(\<forall>rej. fst (updateDeposit s c i body now) = Inl rej \<longrightarrow>
            auditLog (snd (updateDeposit s c i body now)) = auditLog s @
              [\<lparr>ev_action = UPDATE_DEPOSIT_FAILED, ev_entityType = ''DepositAttempt'', ev_entityId = None,
                ev_reason = Some (rej_reason rej), ev_performedBy = c_id c\<rparr>]) \<and>
         (\<forall>d. fst (updateDeposit s c i body now) = Inr d \<longrightarrow>
            auditLog (snd (updateDeposit s c i body now)) = auditLog s @
              [\<lparr>ev_action = UPDATE_DEPOSIT, ev_entityType = ''Deposit'', ev_entityId = Some (dep_id d),
                ev_reason = None, ev_performedBy = c_id c\<rparr>])"
proof (cases rule: updateDeposit_cases[of s c i body now])
  case (Rejected code r msg)
  then show ?thesis by (simp add: reject_def)
next
  case (Committed deposit account t)
  obtain d3 where d3: "fst (updateCommit s c body deposit account t now) = Inr d3"
    "dep_id d3 = dep_id deposit"
    "auditLog (snd (updateCommit s c body deposit account t now)) = auditLog s @
       [\<lparr>ev_action = UPDATE_DEPOSIT, ev_entityType = ''Deposit'', ev_entityId = Some (dep_id deposit),
         ev_reason = None, ev_performedBy = c_id c\<rparr>]"
    using updateCommit_result[OF assms, of s c deposit account t now] by blast
  show ?thesis
    by (auto simp: Committed(9) d3)
qed

lemma deleteDeposit_audit:
  "(\<forall>rej. fst (deleteDeposit s c i) = Inl rej \<longrightarrow>
      auditLog (snd (deleteDeposit s c i)) = auditLog s @
        [\<lparr>ev_action = DELETE_DEPOSIT_FAILED, ev_entityType = ''DepositAttempt'', ev_entityId = None,
          ev_reason = Some (rej_reason rej), ev_performedBy = c_id c\<rparr>]) \<and>
   (\<forall>x. fst (deleteDeposit s c i) = Inr x \<longrightarrow>
      auditLog (snd (deleteDeposit s c i)) = auditLog s @
        [\<lparr>ev_action = DELETE_DEPOSIT_ATTEMPT, ev_entityType = ''Deposit'', ev_entityId = Some i,
          ev_reason = Some DELETE_REQUEST, ev_performedBy = c_id c\<rparr>,
         \<lparr>ev_action = DELETE_DEPOSIT, ev_entityType = ''Deposit'', ev_entityId = Some i,
          ev_reason = None, ev_performedBy = c_id c\<rparr>])"
proof (cases rule: deleteDeposit_cases[of s c i])
  case (Rejected code r msg)
  then show ?thesis by (simp add: reject_def)
next
  case (Committed deposit account)
  have i: "dep_id deposit = i"
    using findDepositById_Some[OF Committed(2)] by simp
  show ?thesis
    using deleteCommit_result[of s c deposit account] by (auto simp: Committed(5) i)
qed

lemma createDeposit_audit:
  "(\<forall>rej. fst (createDeposit s c body now) = Inl rej \<longrightarrow>
      auditLog (snd (createDeposit s c body now)) = auditLog s @
        [\<lparr>ev_action = CREATE_DEPOSIT_FAILED, ev_entityType = ''DepositAttempt'', ev_entityId = None,
          ev_reason = Some (rej_reason rej), ev_performedBy = c_id c\<rparr>]) \<and>
   (\<forall>d. fst (createDeposit s c body now) = Inr d \<longrightarrow>
      auditLog (snd (createDeposit s c body now)) = auditLog s @
        [\<lparr>ev_action = CREATE_DEPOSIT, ev_entityType = ''Deposit'', ev_entityId = Some (dep_id d),
          ev_reason = None, ev_performedBy = c_id c\<rparr>])"
proof (intro conjI allI impI)
  fix rej
  assume "fst (createDeposit s c body now) = Inl rej"
  then have "createDeposit s c body now = (Inl rej, snd (createDeposit s c body now))"
    by (simp add: prod_eq_iff)
  from createDeposit_failure[OF this]
  show "auditLog (snd (createDeposit s c body now)) = auditLog s @
        [\<lparr>ev_action = CREATE_DEPOSIT_FAILED, ev_entityType = ''DepositAttempt'', ev_entityId = None,
          ev_reason = Some (rej_reason rej), ev_performedBy = c_id c\<rparr>]"
    by simp
next
  fix d
  assume "fst (createDeposit s c body now) = Inr d"
  then have "createDeposit s c body now = (Inr d, snd (createDeposit s c body now))"
    by (simp add: prod_eq_iff)
  from createDeposit_success[OF this]
  show "auditLog (snd (createDeposit s c body now)) = auditLog s @
        [\<lparr>ev_action = CREATE_DEPOSIT, ev_entityType = ''Deposit'', ev_entityId = Some (dep_id d),
          ev_reason = None, ev_performedBy = c_id c\<rparr>]"
    by simp
qed

text \<open>A bulk item: refused by the bulk handler, it leaves the store (and so the audit
  log) as it was; otherwise the store is the one the single create leaves.\<close>

lemma bulkObject_store:
  "(bulkRefuses (bs_store st) c now d \<longrightarrow>
      bs_store (bulkObject c now d st) = bs_store st \<and>
      length (bs_failed (bulkObject c now d st)) = Suc (length (bs_failed st))) \<and>
   (\<not> bulkRefuses (bs_store st) c now d \<longrightarrow>
      (\<exists>account. accounts (bs_store st) (i_accountId d) = Some account \<and>
         bs_store (bulkObject c now d st) =
           snd (createDeposit (bs_store st) c
                  \<lparr>b_accountId = i_accountId d, b_userId = acc_userId account,
                   b_amount = i_amount d, b_date = None\<rparr> now)))"
proof (cases "bulkRefuses (bs_store st) c now d")
  case True
  then show ?thesis
    by (auto simp: bulkRefuses_def bulkObject_def Let_def split: option.splits)
next
  case False
  then obtain account client where a: "i_collectedBy d = c_id c"
    "accounts (bs_store st) (i_accountId d) = Some account"
    "users (bs_store st) (acc_userId account) = Some client"
    "alreadyDeposited (bs_store st) (i_accountId d) account now = None"
    by (auto simp: bulkRefuses_def split: option.splits)
  have "bs_store (bulkObject c now d st) =
           snd (createDeposit (bs_store st) c
                  \<lparr>b_accountId = i_accountId d, b_userId = acc_userId account,
                   b_amount = i_amount d, b_date = None\<rparr> now)"
    using a by (simp add: bulkObject_def Let_def split: prod.splits sum.splits)
  then show ?thesis using False a(2) by simp
qed


lemma bulkObject_audit:
  "\<exists>evs. auditLog (bs_store (bulkObject c now d st)) = auditLog (bs_store st) @ evs \<and>
      (\<forall>e \<in> set evs. ev_action e = CREATE_DEPOSIT \<or> ev_action e = CREATE_DEPOSIT_FAILED) \<and>
      length (bs_success (bulkObject c now d st)) =
        length (bs_success st) + length (filter (\<lambda>e. ev_action e = CREATE_DEPOSIT) evs) \<and>
      length (bs_failed st) + length (filter (\<lambda>e. ev_action e = CREATE_DEPOSIT_FAILED) evs)
        \<le> length (bs_failed (bulkObject c now d st))"
proof (cases rule: bulkObject_cases[of d c now st])
  case (Refused r msg)
  then show ?thesis by (intro exI[where x = "[]"]) simp
next
  case (Failed r account rej s')
  show ?thesis
    using createDeposit_failure[OF Failed(5)] Failed(6)
    by (intro exI[where x = "[failedEvent CREATE_DEPOSIT_FAILED (rej_reason rej) c]"])
      (simp add: failedEvent_def)
next
  case (Created r account dep s')
  show ?thesis
    using createDeposit_success[OF Created(5)] Created(6)
    by (intro exI[where x = "[successEvent CREATE_DEPOSIT (nextId (bs_store st)) c]"])
      (simp add: successEvent_def)
qed

lemma fold_bulkObject_audit:
  "\<exists>evs. auditLog (bs_store (fold (bulkObject c now) items st)) = auditLog (bs_store st) @ evs \<and>
      (\<forall>e \<in> set evs. ev_action e = CREATE_DEPOSIT \<or> ev_action e = CREATE_DEPOSIT_FAILED) \<and>
      length (bs_success (fold (bulkObject c now) items st)) =
        length (bs_success st) + length (filter (\<lambda>e. ev_action e = CREATE_DEPOSIT) evs) \<and>
      length (bs_failed st) + length (filter (\<lambda>e. ev_action e = CREATE_DEPOSIT_FAILED) evs)
        \<le> length (bs_failed (fold (bulkObject c now) items st))"
proof (induction items arbitrary: st)
  case Nil
  show ?case by (intro exI[where x = "[]"]) simp
next
  case (Cons d items)
  let ?st1 = "bulkObject c now d st"
  let ?st2 = "fold (bulkObject c now) items ?st1"
  obtain e1 where e1: "auditLog (bs_store ?st1) = auditLog (bs_store st) @ e1"
    "\<forall>e \<in> set e1. ev_action e = CREATE_DEPOSIT \<or> ev_action e = CREATE_DEPOSIT_FAILED"
    "length (bs_success ?st1) = length (bs_success st) + length (filter (\<lambda>e. ev_action e = CREATE_DEPOSIT) e1)"
    "length (bs_failed st) + length (filter (\<lambda>e. ev_action e = CREATE_DEPOSIT_FAILED) e1)
        \<le> length (bs_failed ?st1)"
    using bulkObject_audit[of c now d st] by blast
  obtain e2 where e2: "auditLog (bs_store ?st2) = auditLog (bs_store ?st1) @ e2"
    "\<forall>e \<in> set e2. ev_action e = CREATE_DEPOSIT \<or> ev_action e = CREATE_DEPOSIT_FAILED"
    "length (bs_success ?st2) = length (bs_success ?st1) + length (filter (\<lambda>e. ev_action e = CREATE_DEPOSIT) e2)"
    "length (bs_failed ?st1) + length (filter (\<lambda>e. ev_action e = CREATE_DEPOSIT_FAILED) e2)
        \<le> length (bs_failed ?st2)"
    using Cons[of ?st1] by blast
  show ?case
    by (intro exI[where x = "e1 @ e2"]) (use e1 e2 in auto)
qed

lemma bulkCreateDeposits_audit:
  "\<exists>evs. auditLog (snd (bulkCreateDeposits s c body now)) = auditLog s @ evs \<and>
      (\<forall>e \<in> set evs. ev_action e = CREATE_DEPOSIT \<or> ev_action e = CREATE_DEPOSIT_FAILED) \<and>
      (\<forall>rep. fst (bulkCreateDeposits s c body now) = Inr rep \<longrightarrow>
         length (filter (\<lambda>e. ev_action e = CREATE_DEPOSIT) evs) = rep_successCount rep \<and>
         length (filter (\<lambda>e. ev_action e = CREATE_DEPOSIT_FAILED) evs) \<le> rep_failedCount rep)"
proof (cases "\<exists>items. body = Some items \<and> items \<noteq> [] \<and> c_role c = Agent")
  case False
  then have "snd (bulkCreateDeposits s c body now) = s \<and> (\<forall>rep. fst (bulkCreateDeposits s c body now) \<noteq> Inr rep)"
    by (auto simp: bulkCreateDeposits_def split: option.splits)
  then show ?thesis by (intro exI[where x = "[]"]) simp
next
  case True
  then obtain items where b: "body = Some items" "items \<noteq> []" "c_role c = Agent"
    by blast
  define st0 where "st0 = \<lparr>bs_success = [], bs_failed = [], bs_summary = Map.empty, bs_store = s\<rparr>"
  have z: "bs_store st0 = s" "bs_success st0 = []" "bs_failed st0 = []"
    by (simp_all add: st0_def)
  show ?thesis
  proof (cases items rule: items_cases)
    case (Objects xs)
    define st where "st = fold (bulkObject c now) xs st0"
    have ne: "xs \<noteq> []" using b(2) Objects by simp
    have e: "bulkCreateDeposits s c body now = bulkReport (map Some xs) st"
      unfolding st_def st0_def b(1) Objects by (rule bulkCreateDeposits_report[OF ne b(3)])
    obtain evs where evs: "auditLog (bs_store st) = auditLog (bs_store st0) @ evs"
      "\<forall>e \<in> set evs. ev_action e = CREATE_DEPOSIT \<or> ev_action e = CREATE_DEPOSIT_FAILED"
      "length (bs_success st) = length (bs_success st0) + length (filter (\<lambda>e. ev_action e = CREATE_DEPOSIT) evs)"
      "length (bs_failed st0) + length (filter (\<lambda>e. ev_action e = CREATE_DEPOSIT_FAILED) evs)
          \<le> length (bs_failed st)"
      unfolding st_def using fold_bulkObject_audit[of c now xs st0] by blast
    show ?thesis
      using evs z by (intro exI[where x = evs]) (auto simp: e bulkReport_def)
  next
    case (Null xs ys)
    define st where "st = fold (bulkObject c now) xs st0"
    have e: "bulkCreateDeposits s c body now = (Inl (Uncaught nullItemError), bs_store st)"
      unfolding st_def st0_def b(1) Null by (rule bulkCreateDeposits_null[OF b(3)])
    obtain evs where evs: "auditLog (bs_store st) = auditLog (bs_store st0) @ evs"
      "\<forall>e \<in> set evs. ev_action e = CREATE_DEPOSIT \<or> ev_action e = CREATE_DEPOSIT_FAILED"
      unfolding st_def using fold_bulkObject_audit[of c now xs st0] by blast
    show ?thesis
      using evs z by (intro exI[where x = evs]) (auto simp: e)
  qed
qed


text \<open>
  Claim C7 as stated fails twice. A bulk item whose \<open>collectedBy\<close> is not the caller is
  refused and counted as failed, and no audit event is written. A successful delete
  writes two events, \<open>DELETE_DEPOSIT_ATTEMPT\<close> before the removal and \<open>DELETE_DEPOSIT\<close>
  after it.
\<close>

theorem audit_counterexample:
  "i_collectedBy (hd exItems) \<noteq> c_id exAgent \<and>
   map_sum id rep_failedCount
     (fst (bulkCreateDeposits exStore exAgent (Some [Some (hd exItems)]) exNow)) = Inr 1 \<and>
   auditLog exStore = [] \<and>
   auditLog (snd (bulkCreateDeposits exStore exAgent (Some [Some (hd exItems)]) exNow)) = [] \<and>
   rejectedWith (fst (deleteDeposit exStore exAdmin 1)) = None \<and>
   map ev_action (auditLog (snd (deleteDeposit exStore exAdmin 1))) =
     [DELETE_DEPOSIT_ATTEMPT, DELETE_DEPOSIT]"
  by (simp add: exItems_def rejectedWith_def bulk_eval delete_eval create_eval ex_defs)

text \<open>
  Claim C7, amended. A rejected single create, update or delete appends exactly one
  event, tagged \<open>..._FAILED\<close> and carrying the reason code of the rejection; a
  successful create or update appends exactly one event, tagged \<open>CREATE_DEPOSIT\<close> or
  \<open>UPDATE_DEPOSIT\<close>; a successful delete appends two, \<open>DELETE_DEPOSIT_ATTEMPT\<close> and
  \<open>DELETE_DEPOSIT\<close>. (For an update the statement is made for a body whose date, if
  given, parses.) A bulk item that the bulk handler refuses itself leaves the audit
  log as it is and adds a failure entry; any other item that is an object leaves the
  store that the single create leaves, hence one event. Over a whole bulk call,
  whatever the array holds and whatever the call answers, the appended events are
  create events only; when it answers a report, they are as many \<open>CREATE_DEPOSIT\<close> as
  the report counts successes and at most as many \<open>CREATE_DEPOSIT_FAILED\<close> as it counts
  failures.
\<close>

theorem audit_events_per_attempt:
  "(\<forall>rej. fst (createDeposit s c body now) = Inl rej \<longrightarrow>
      auditLog (snd (createDeposit s c body now)) =
        auditLog s @ [failedEvent CREATE_DEPOSIT_FAILED (rej_reason rej) c]) \<and>
   (\<forall>d. fst (createDeposit s c body now) = Inr d \<longrightarrow>
      auditLog (snd (createDeposit s c body now)) =
        auditLog s @ [successEvent CREATE_DEPOSIT (dep_id d) c]) \<and>
   (u_date ubody \<noteq> Some Unparseable \<longrightarrow>
      (\<forall>rej. fst (updateDeposit s c i ubody now) = Inl rej \<longrightarrow>
         auditLog (snd (updateDeposit s c i ubody now)) =
           auditLog s @ [failedEvent UPDATE_DEPOSIT_FAILED (rej_reason rej) c]) \<and>
      (\<forall>d. fst (updateDeposit s c i ubody now) = Inr d \<longrightarrow>
         auditLog (snd (updateDeposit s c i ubody now)) =
           auditLog s @ [successEvent UPDATE_DEPOSIT (dep_id d) c])) \<and>
   (\<forall>rej. fst (deleteDeposit s c i) = Inl rej \<longrightarrow>
      auditLog (snd (deleteDeposit s c i)) =
        auditLog s @ [failedEvent DELETE_DEPOSIT_FAILED (rej_reason rej) c]) \<and>
   (\<forall>x. fst (deleteDeposit s c i) = Inr x \<longrightarrow>
      auditLog (snd (deleteDeposit s c i)) =
        auditLog s @ [attemptEvent i c, successEvent DELETE_DEPOSIT i c]) \<and>
   (bulkRefuses (bs_store st) c' now item \<longrightarrow>
      (\<exists>st'. bulkItem c' now (Some item) st = Inr st' \<and>
         bs_store st' = bs_store st \<and>
         length (bs_failed st') = Suc (length (bs_failed st)))) \<and>
   (\<not> bulkRefuses (bs_store st) c' now item \<longrightarrow>
      (\<exists>account st'. accounts (bs_store st) (i_accountId item) = Some account \<and>
         bulkItem c' now (Some item) st = Inr st' \<and>
         bs_store st' =
           snd (createDeposit (bs_store st) c'
                  \<lparr>b_accountId = i_accountId item, b_userId = acc_userId account,
                   b_amount = i_amount item, b_date = None\<rparr> now))) \<and>
   (\<exists>evs. auditLog (snd (bulkCreateDeposits s c' bbody now)) = auditLog s @ evs \<and>
      (\<forall>e \<in> set evs. ev_action e = CREATE_DEPOSIT \<or> ev_action e = CREATE_DEPOSIT_FAILED) \<and>
      (\<forall>rep. fst (bulkCreateDeposits s c' bbody now) = Inr rep \<longrightarrow>
         length (filter (\<lambda>e. ev_action e = CREATE_DEPOSIT) evs) = rep_successCount rep \<and>
         length (filter (\<lambda>e. ev_action e = CREATE_DEPOSIT_FAILED) evs) \<le> rep_failedCount rep))"
proof -
  note c = createDeposit_audit[of s c body now, folded failedEvent_def successEvent_def]
  note d = deleteDeposit_audit[of s c i, folded failedEvent_def successEvent_def attemptEvent_def]
  have u: "u_date ubody \<noteq> Some Unparseable \<longrightarrow>
      (\<forall>rej. fst (updateDeposit s c i ubody now) = Inl rej \<longrightarrow>
         auditLog (snd (updateDeposit s c i ubody now)) =
           auditLog s @ [failedEvent UPDATE_DEPOSIT_FAILED (rej_reason rej) c]) \<and>
      (\<forall>d. fst (updateDeposit s c i ubody now) = Inr d \<longrightarrow>
         auditLog (snd (updateDeposit s c i ubody now)) =
           auditLog s @ [successEvent UPDATE_DEPOSIT (dep_id d) c])"
    using updateDeposit_audit[of ubody s c i now, folded failedEvent_def successEvent_def] by blast
  have b1: "bulkRefuses (bs_store st) c' now item \<longrightarrow>
      (\<exists>st'. bulkItem c' now (Some item) st = Inr st' \<and>
         bs_store st' = bs_store st \<and>
         length (bs_failed st') = Suc (length (bs_failed st)))"
    using bulkObject_store[of st c' now item] by (simp add: bulkItem_def)
  have b2: "\<not> bulkRefuses (bs_store st) c' now item \<longrightarrow>
      (\<exists>account st'. accounts (bs_store st) (i_accountId item) = Some account \<and>
         bulkItem c' now (Some item) st = Inr st' \<and>
         bs_store st' =
           snd (createDeposit (bs_store st) c'
                  \<lparr>b_accountId = i_accountId item, b_userId = acc_userId account,
                   b_amount = i_amount item, b_date = None\<rparr> now))"
    using bulkObject_store[of st c' now item] by (simp add: bulkItem_def)
  note w = bulkCreateDeposits_audit[of s c' bbody now]
  show ?thesis
    by (intro conjI) (rule c[THEN conjunct1] c[THEN conjunct2] u d[THEN conjunct1]
        d[THEN conjunct2] b1 b2 w)+
qed


theorem audit_events_per_attempt_witness:
  "rejectedWith (fst (createDeposit exStore exAdmin
      \<lparr>b_accountId = 2, b_userId = 11, b_amount = Some 200, b_date = None\<rparr> exNow)) =
     Some TOTAL_PAYABLE_EXCEEDED \<and>
   auditLog (snd (createDeposit exStore exAdmin
      \<lparr>b_accountId = 2, b_userId = 11, b_amount = Some 200, b_date = None\<rparr> exNow)) =
     [failedEvent CREATE_DEPOSIT_FAILED TOTAL_PAYABLE_EXCEEDED exAdmin] \<and>
   rejectedWith (fst (updateDeposit exStore exAdmin 3
      \<lparr>u_amount = Some 50, u_date = Some (Parsed exNow)\<rparr> exNow)) = None \<and>
   auditLog (snd (updateDeposit exStore exAdmin 3
      \<lparr>u_amount = Some 50, u_date = Some (Parsed exNow)\<rparr> exNow)) =
     [successEvent UPDATE_DEPOSIT 3 exAdmin] \<and>
   rejectedWith (fst (deleteDeposit exStore exAdmin 3)) = None \<and>
   auditLog (snd (deleteDeposit exStore exAdmin 3)) =
     [attemptEvent 3 exAdmin, successEvent DELETE_DEPOSIT 3 exAdmin] \<and>
   bulkRefuses exStore exAgent exNow (hd exItems) \<and>
   map_sum id (\<lambda>st. auditLog (bs_store st)) (bulkItem exAgent exNow (Some (hd exItems))
     \<lparr>bs_success = [], bs_failed = [], bs_summary = Map.empty, bs_store = exStore\<rparr>) = Inr []"
proof -
  let ?body = "\<lparr>b_accountId = 2, b_userId = 11, b_amount = Some 200, b_date = None\<rparr>"
  let ?ub = "\<lparr>u_amount = Some 50, u_date = Some (Parsed exNow)\<rparr>"
  let ?st = "\<lparr>bs_success = [], bs_failed = [], bs_summary = Map.empty, bs_store = exStore\<rparr>"
  obtain rej where rej: "fst (createDeposit exStore exAdmin ?body exNow) = Inl rej"
    "rej_reason rej = TOTAL_PAYABLE_EXCEEDED"
    by (simp add: create_eval ex_defs)
  obtain d where d: "fst (updateDeposit exStore exAdmin 3 ?ub exNow) = Inr d" "dep_id d = 3"
    by (simp add: update_eval create_eval ex_defs)
  obtain x where x: "fst (deleteDeposit exStore exAdmin 3) = Inr x"
    by (simp add: delete_eval create_eval ex_defs)
  have p: "u_date ?ub \<noteq> Some Unparseable"
    by simp
  have r: "bulkRefuses exStore exAgent exNow (hd exItems)"
    by (simp add: bulkRefuses_def exItems_def exAgent_def)
  have a: "auditLog exStore = []" "bs_store ?st = exStore"
    by (simp_all add: exStore_def)
  show ?thesis
    using audit_events_per_attempt
      [of exStore exAdmin ?body exNow ?ub 3 ?st exAgent "hd exItems" None] rej d x p r a
    by (auto simp: rejectedWith_def)
qed

end
